(* ===== verification/Prelude.thy ===== *)
theory Prelude
  imports Main "HOL-Library.Word"
begin

text \<open>
  Shared vocabulary of the development: the named collections that the component
  theories fill, the decimal digit helpers that number printing and parsing share,
  and generic lemmas on lists and association lists. A JavaScript string is modelled
  as an Isabelle \<open>string\<close>; each \<open>char\<close> stands for one code unit of value below 256.
\<close>

named_theorems sample_eval "equations that evaluate a handler at a sample deployment and request"

type_synonym url = string
type_synonym header = "string \<times> string"

section \<open>Decimal digits\<close>

definition is_dec_digit :: "char \<Rightarrow> bool" where
  "is_dec_digit c \<longleftrightarrow> (48::nat) \<le> of_char c \<and> of_char c \<le> (57::nat)"

definition digit_val :: "char \<Rightarrow> nat" where
  "digit_val c = of_char c - 48"

definition digit_char :: "nat \<Rightarrow> char" where
  "digit_char n = char_of (48 + n)"

text \<open>The decimal rendering of a natural number, most significant digit first.\<close>

fun nat_str :: "nat \<Rightarrow> string" where
  "nat_str n = (if n < 10 then [digit_char n] else nat_str (n div 10) @ [digit_char (n mod 10)])"

declare nat_str.simps [simp del]

text \<open>The value of a string of decimal digits, read left to right.\<close>

definition digits_val :: "string \<Rightarrow> nat" where
  "digits_val s = foldl (\<lambda>acc c. 10 * acc + digit_val c) 0 s"

section \<open>Association lists read as JavaScript objects\<close>

text \<open>
  \<open>JSON.parse\<close> keeps the last of several bindings of one key, so a parsed object is
  read through its reversed binding list.
\<close>

definition lookup_last :: "('a \<times> 'b) list \<Rightarrow> 'a \<Rightarrow> 'b option" where
  "lookup_last ps k = map_of (rev ps) k"

section \<open>Lemmas on digits\<close>

lemma digit_char_values [simp]:
  "digit_char 0 = CHR ''0''" "digit_char 1 = CHR ''1''" "digit_char 2 = CHR ''2''"
  "digit_char 3 = CHR ''3''" "digit_char 4 = CHR ''4''" "digit_char 5 = CHR ''5''"
  "digit_char 6 = CHR ''6''" "digit_char 7 = CHR ''7''" "digit_char 8 = CHR ''8''"
  "digit_char 9 = CHR ''9''"
  by (simp_all add: digit_char_def) code_simp+

lemma digit_val_digit_char [simp]: "n < 10 \<Longrightarrow> digit_val (digit_char n) = n"
  by (simp add: digit_val_def digit_char_def)

lemma is_dec_digit_digit_char [simp]: "n < 10 \<Longrightarrow> is_dec_digit (digit_char n)"
  by (simp add: is_dec_digit_def digit_char_def)

lemma digit_val_less [simp]: "is_dec_digit c \<Longrightarrow> digit_val c < 10"
  unfolding is_dec_digit_def digit_val_def by linarith

lemma digits_val_append [simp]:
  "digits_val (s @ t) = digits_val s * 10 ^ length t + digits_val t"
proof (induction t rule: rev_induct)
  case Nil
  then show ?case by (simp add: digits_val_def)
next
  case (snoc c t)
  then show ?case by (simp add: digits_val_def algebra_simps)
qed

lemma digits_val_Nil [simp]: "digits_val [] = 0"
  by (simp add: digits_val_def)

lemma digits_val_single [simp]: "digits_val [c] = digit_val c"
  by (simp add: digits_val_def)

lemma nat_str_small: "n < 10 \<Longrightarrow> nat_str n = [digit_char n]"
  by (simp add: nat_str.simps)

lemma nat_str_big: "\<not> n < 10 \<Longrightarrow> nat_str n = nat_str (n div 10) @ [digit_char (n mod 10)]"
  by (subst nat_str.simps) simp

lemma digits_val_nat_str [simp]: "digits_val (nat_str n) = n"
proof (induction n rule: nat_str.induct)
  case (1 n)
  show ?case
  proof (cases "n < 10")
    case True
    then show ?thesis by (simp add: nat_str_small)
  next
    case False
    with "1.IH" show ?thesis by (simp add: nat_str_big)
  qed
qed

lemma nat_str_digits: "c \<in> set (nat_str n) \<Longrightarrow> is_dec_digit c"
proof (induction n rule: nat_str.induct)
  case (1 n)
  then show ?case
    by (cases "n < 10") (auto simp: nat_str_small nat_str_big)
qed

lemma nat_str_not_Nil [simp]: "nat_str n \<noteq> []"
  by (cases "n < 10") (simp_all add: nat_str_small nat_str_big)

lemma digit_char_inj: "a < 10 \<Longrightarrow> b < 10 \<Longrightarrow> digit_char a = digit_char b \<longleftrightarrow> a = b"
  by (metis digit_val_digit_char)

lemma nat_str_inj: "nat_str a = nat_str b \<longleftrightarrow> a = b"
  by (metis digits_val_nat_str)

section \<open>Lemmas on association lists\<close>

lemma lookup_last_Nil [simp]: "lookup_last [] k = None"
  by (simp add: lookup_last_def)

lemma lookup_last_Cons [simp]:
  "lookup_last ((a, b) # ps) k =
     (case lookup_last ps k of None \<Rightarrow> (if a = k then Some b else None) | Some v \<Rightarrow> Some v)"
  by (simp add: lookup_last_def map_of_append map_add_def split: option.splits)

lemma lookup_last_None_iff: "lookup_last ps k = None \<longleftrightarrow> k \<notin> fst ` set ps"
  by (simp add: lookup_last_def map_of_eq_None_iff image_iff)

end
