(* ===== verification/JsNumber.thy ===== *)
theory JsNumber
  imports Prelude Complex_Main
begin

text \<open>
  The JavaScript Number values the relay computes with (\<open>src/server.js\<close>, lines
  164--199 and 368): a finite value is kept as an exact decimal \<open>m \<cdot> 10^e\<close>, beside
  the two infinities and NaN. Every arithmetic result passes through \<open>mk_num\<close>, which
  rounds to \<open>\<plusminus>Infinity\<close> above the largest double (\<open>2^1024 - 2^970\<close>) and to 0 below
  half the smallest subnormal (\<open>2^-1075\<close>), as IEEE-754 binary64 does. Inside that
  range the model is exact: it agrees with the engine on every value a double holds
  exactly (integers below \<open>2^53\<close>, the catalog's prices), which are the values the
  relay's cart arithmetic produces. Negative zero is identified with zero: no code path
  of the relay tells them apart.
\<close>

datatype jsnum = Fin int int | Inf bool | NaN

section \<open>Normal form and rounding to the double range\<close>

function strip_zeros :: "int \<Rightarrow> int \<Rightarrow> int \<times> int" where
  "strip_zeros m e =
     (if m \<noteq> 0 \<and> m mod 10 = 0 then strip_zeros (m div 10) (e + 1) else (m, e))"
  by pat_completeness auto
termination
  by (relation "measure (\<lambda>(m, e). nat \<bar>m\<bar>)") auto

declare strip_zeros.simps [simp del]

text \<open>\<open>dec_ge m e t\<close> decides \<open>\<bar>m\<bar> \<cdot> 10^e \<ge> t\<close> on integers.\<close>

definition dec_ge :: "int \<Rightarrow> int \<Rightarrow> int \<Rightarrow> bool" where
  "dec_ge m e t =
     (if 0 \<le> e then \<bar>m\<bar> * 10 ^ nat e \<ge> t else \<bar>m\<bar> \<ge> t * 10 ^ nat (- e))"

text \<open>
  The least magnitude that rounds to infinity (the largest double plus half an ulp),
  and the reciprocal of the largest magnitude that rounds to zero.
\<close>

definition ovf_bound :: int where
  "ovf_bound = 2 ^ 1024 - 2 ^ 970"

definition udf_scale :: int where
  "udf_scale = 2 ^ 1075"

definition overflows :: "int \<Rightarrow> int \<Rightarrow> bool" where
  "overflows m e = dec_ge m e ovf_bound"

text \<open>\<open>\<bar>m\<bar> \<cdot> 10^e \<le> 2^-1075\<close>: rounds to zero (the tie goes to the even zero).\<close>

definition underflows :: "int \<Rightarrow> int \<Rightarrow> bool" where
  "underflows m e = (m = 0 \<or> (e < 0 \<and> \<bar>m\<bar> * udf_scale \<le> 10 ^ nat (- e)))"

definition mk_num :: "int \<Rightarrow> int \<Rightarrow> jsnum" where
  "mk_num m e =
     (let (m', e') = strip_zeros m e in
      if underflows m' e' then Fin 0 0
      else if overflows m' e' then Inf (0 < m')
      else Fin m' e')"

abbreviation num_of_int :: "int \<Rightarrow> jsnum" where
  "num_of_int i \<equiv> mk_num i 0"

section \<open>Arithmetic and comparisons\<close>

fun num_add :: "jsnum \<Rightarrow> jsnum \<Rightarrow> jsnum" where
  "num_add (Fin a e1) (Fin b e2) =
     (let e = min e1 e2 in mk_num (a * 10 ^ nat (e1 - e) + b * 10 ^ nat (e2 - e)) e)"
| "num_add (Inf s) (Inf t) = (if s = t then Inf s else NaN)"
| "num_add (Inf s) (Fin _ _) = Inf s"
| "num_add (Fin _ _) (Inf t) = Inf t"
| "num_add _ _ = NaN"

fun num_mul :: "jsnum \<Rightarrow> jsnum \<Rightarrow> jsnum" where
  "num_mul (Fin a e1) (Fin b e2) = mk_num (a * b) (e1 + e2)"
| "num_mul (Inf s) (Inf t) = Inf (s = t)"
| "num_mul (Inf s) (Fin m _) = (if m = 0 then NaN else Inf (s = (0 < m)))"
| "num_mul (Fin m _) (Inf t) = (if m = 0 then NaN else Inf (t = (0 < m)))"
| "num_mul _ _ = NaN"

text \<open>\<open>x <= 0\<close> for a number \<open>x\<close>: false when \<open>x\<close> is NaN.\<close>

fun num_le_zero :: "jsnum \<Rightarrow> bool" where
  "num_le_zero (Fin m _) = (m \<le> 0)"
| "num_le_zero (Inf s) = (\<not> s)"
| "num_le_zero NaN = False"

text \<open>ToBoolean of a number: false exactly for zero and NaN.\<close>

fun num_truthy :: "jsnum \<Rightarrow> bool" where
  "num_truthy (Fin m _) = (m \<noteq> 0)"
| "num_truthy (Inf _) = True"
| "num_truthy NaN = False"

section \<open>Number to string\<close>

definition int_str :: "int \<Rightarrow> string" where
  "int_str i = (if i < 0 then CHR ''-'' # nat_str (nat (- i)) else nat_str (nat i))"

text \<open>
  \<open>Number::toString\<close> (ECMA-262, 6.1.6.1.20) of a positive value with digit string
  \<open>s\<close> (\<open>k\<close> digits) and decimal point position \<open>n\<close>.
\<close>

definition pos_num_str :: "string \<Rightarrow> int \<Rightarrow> string" where
  "pos_num_str s n =
     (let k = int (length s) in
      if k \<le> n \<and> n \<le> 21 then s @ replicate (nat (n - k)) CHR ''0''
      else if 0 < n \<and> n \<le> 21 then take (nat n) s @ CHR ''.'' # drop (nat n) s
      else if -6 < n \<and> n \<le> 0 then CHR ''0'' # CHR ''.'' # replicate (nat (- n)) CHR ''0'' @ s
      else
        (let x = n - 1;
             ex = CHR ''e'' # (if 0 \<le> x then CHR ''+'' else CHR ''-'') # nat_str (nat \<bar>x\<bar>)
         in if k = 1 then s @ ex else hd s # CHR ''.'' # tl s @ ex))"

fun num_to_string :: "jsnum \<Rightarrow> string" where
  "num_to_string NaN = ''NaN''"
| "num_to_string (Inf s) = (if s then ''Infinity'' else ''-Infinity'')"
| "num_to_string (Fin m e) =
     (let (m', e') = strip_zeros m e in
      if m' = 0 then ''0''
      else (let s = nat_str (nat \<bar>m'\<bar>);
                r = pos_num_str s (int (length s) + e')
            in if m' < 0 then CHR ''-'' # r else r))"

text \<open>
  \<open>Number.prototype.toFixed(2)\<close> (ECMA-262, 21.1.3.3): the nearest multiple of 1/100,
  the larger one on a tie, printed with two decimals; at or above \<open>10^21\<close> in
  magnitude (and for the infinities) the plain \<open>toString\<close>.
\<close>

definition round_cents :: "int \<Rightarrow> int \<Rightarrow> nat" where
  "round_cents m e =
     (if 0 \<le> e + 2 then nat \<bar>m\<bar> * 10 ^ nat (e + 2)
      else (2 * nat \<bar>m\<bar> + 10 ^ nat (- (e + 2))) div (2 * 10 ^ nat (- (e + 2))))"

definition fixed2_digits :: "nat \<Rightarrow> string" where
  "fixed2_digits n =
     (let s = nat_str n;
          s' = (if length s \<le> 2 then replicate (3 - length s) CHR ''0'' @ s else s)
      in take (length s' - 2) s' @ CHR ''.'' # drop (length s' - 2) s')"

fun to_fixed2 :: "jsnum \<Rightarrow> string" where
  "to_fixed2 NaN = ''NaN''"
| "to_fixed2 (Inf s) = num_to_string (Inf s)"
| "to_fixed2 (Fin m e) =
     (if dec_ge m e (10 ^ 21) then num_to_string (Fin m e)
      else (if m < 0 then ''-'' else []) @ fixed2_digits (round_cents m e))"

section \<open>String to number\<close>

text \<open>
  StrWhiteSpaceChar and LineTerminator of ECMA-262 within the model's character range:
  tab, line feed, vertical tab, form feed, carriage return, space, no-break space.
\<close>

definition js_ws :: "char \<Rightarrow> bool" where
  "js_ws c = (of_char c \<in> {9, 10, 11, 12, 13, 32, 160 :: nat})"

definition trim_start :: "string \<Rightarrow> string" where
  "trim_start s = dropWhile js_ws s"

definition js_trim :: "string \<Rightarrow> string" where
  "js_trim s = rev (dropWhile js_ws (rev (dropWhile js_ws s)))"

text \<open>The value of a character as a digit of radix \<open>r\<close> (2 to 36), if it is one.\<close>

definition radix_digit :: "nat \<Rightarrow> char \<Rightarrow> nat option" where
  "radix_digit r c =
     (let k = of_char c :: nat;
          d = (if 48 \<le> k \<and> k \<le> 57 then Some (k - 48)
               else if 97 \<le> k \<and> k \<le> 122 then Some (k - 87)
               else if 65 \<le> k \<and> k \<le> 90 then Some (k - 55) else None)
      in case d of Some v \<Rightarrow> if v < r then Some v else None | None \<Rightarrow> None)"

definition radix_val :: "nat \<Rightarrow> string \<Rightarrow> nat" where
  "radix_val r s = foldl (\<lambda>acc c. r * acc + the (radix_digit r c)) 0 s"

abbreviation is_radix_digit :: "nat \<Rightarrow> char \<Rightarrow> bool" where
  "is_radix_digit r c \<equiv> radix_digit r c \<noteq> None"

text \<open>
  The longest prefix of a string that is a StrDecimalLiteral, with its value and the
  rest of the string: an optional sign, then \<open>Infinity\<close> or digits with an optional
  fraction and an optional exponent (the exponent's \<open>e\<close> is taken only when digits
  follow it).
\<close>

definition exponent_part :: "string \<Rightarrow> (int \<times> string) option" where
  "exponent_part s =
     (case s of
        c # t \<Rightarrow>
          if c = CHR ''e'' \<or> c = CHR ''E'' then
            (let (sg, t') = (case t of
                               d # u \<Rightarrow> if d = CHR ''+'' then (1, u)
                                        else if d = CHR ''-'' then (-1, u) else (1, t)
                             | [] \<Rightarrow> (1, t));
                 ds = takeWhile is_dec_digit t'
             in if ds = [] then None
                else Some (sg * int (digits_val ds), dropWhile is_dec_digit t'))
          else None
      | [] \<Rightarrow> None)"

definition unsigned_dec :: "string \<Rightarrow> (jsnum \<times> string) option" where
  "unsigned_dec s =
     (if take 8 s = ''Infinity'' then Some (Inf True, drop 8 s)
      else
        (let d1 = takeWhile is_dec_digit s;
             r1 = dropWhile is_dec_digit s;
             (d2, r2) = (case r1 of
                           c # t \<Rightarrow> if c = CHR ''.''
                                    then (Some (takeWhile is_dec_digit t), dropWhile is_dec_digit t)
                                    else (None, r1)
                         | [] \<Rightarrow> (None, r1));
             frac = (case d2 of Some ds \<Rightarrow> ds | None \<Rightarrow> [])
         in if d1 = [] \<and> frac = [] then None
            else
              (let (x, r3) = (case exponent_part r2 of Some (x, r) \<Rightarrow> (x, r) | None \<Rightarrow> (0, r2))
               in Some (mk_num (int (digits_val (d1 @ frac))) (x - int (length frac)), r3))))"

definition num_neg :: "jsnum \<Rightarrow> jsnum" where
  "num_neg v = (case v of Fin m e \<Rightarrow> Fin (- m) e | Inf s \<Rightarrow> Inf (\<not> s) | NaN \<Rightarrow> NaN)"

definition dec_literal :: "string \<Rightarrow> (jsnum \<times> string) option" where
  "dec_literal s =
     (case s of
        c # t \<Rightarrow>
          if c = CHR ''-'' then map_option (\<lambda>(v, r). (num_neg v, r)) (unsigned_dec t)
          else if c = CHR ''+'' then unsigned_dec t
          else unsigned_dec s
      | [] \<Rightarrow> None)"

text \<open>\<open>parseFloat(s)\<close> (ECMA-262, 19.2.4).\<close>

definition parse_float :: "string \<Rightarrow> jsnum" where
  "parse_float s = (case dec_literal (trim_start s) of Some (v, _) \<Rightarrow> v | None \<Rightarrow> NaN)"

text \<open>\<open>parseInt(s)\<close> with no radix (ECMA-262, 19.2.5), step by step: the sign,
  the optional \<open>0x\<close> prefix that selects radix 16, the longest run of digits.\<close>

definition int_sign :: "string \<Rightarrow> int \<times> string" where
  "int_sign t =
     (case t of
        c # u \<Rightarrow> if c = CHR ''-'' then (-1, u) else if c = CHR ''+'' then (1, u) else (1, t)
      | [] \<Rightarrow> (1, t))"

definition radix_prefix :: "string \<Rightarrow> nat \<times> string" where
  "radix_prefix t = (if take 2 t = ''0x'' \<or> take 2 t = ''0X'' then (16, drop 2 t) else (10, t))"

definition parse_int :: "string \<Rightarrow> jsnum" where
  "parse_int s =
     (let (sg, t1) = int_sign (trim_start s);
          (r, t2) = radix_prefix t1;
          z = takeWhile (is_radix_digit r) t2
      in if z = [] then NaN else mk_num (sg * int (radix_val r z)) 0)"

text \<open>StringToNumber (ECMA-262, 7.1.4.1.1), the conversion behind \<open>x <= 0\<close> on a
  string: the whole trimmed string must be a numeric literal.\<close>

definition non_decimal :: "string \<Rightarrow> jsnum option" where
  "non_decimal s =
     (case s of
        c0 # c1 # ds \<Rightarrow>
          if c0 = CHR ''0'' \<and> ds \<noteq> [] then
            (let r = (if c1 \<in> {CHR ''x'', CHR ''X''} then 16
                      else if c1 \<in> {CHR ''o'', CHR ''O''} then 8
                      else if c1 \<in> {CHR ''b'', CHR ''B''} then 2 else 0)
             in if r \<noteq> 0 \<and> list_all (is_radix_digit r) ds
                then Some (mk_num (int (radix_val r ds)) 0) else None)
          else None
      | _ \<Rightarrow> None)"

definition string_to_number :: "string \<Rightarrow> jsnum" where
  "string_to_number s =
     (let t = js_trim s in
      if t = [] then Fin 0 0
      else case non_decimal t of
             Some v \<Rightarrow> v
           | None \<Rightarrow> (case dec_literal t of Some (v, []) \<Rightarrow> v | _ \<Rightarrow> NaN))"

section \<open>Exact value of a finite number\<close>

text \<open>The rational a finite number stands for; the specification of the arithmetic above.\<close>

definition dval :: "int \<Rightarrow> int \<Rightarrow> rat" where
  "dval m e = of_int m * 10 powi e"

text \<open>The abstraction of a number to the rational it denotes; infinities and NaN denote
  none.\<close>

definition num_val :: "jsnum \<Rightarrow> rat option" where
  "num_val n = (case n of Fin m e \<Rightarrow> Some (dval m e) | _ \<Rightarrow> None)"

text \<open>The canonical form of a number: zero is \<open>Fin 0 0\<close>, any other finite mantissa has no
  trailing decimal zero and the value lies inside the double range.\<close>

definition num_wf :: "jsnum \<Rightarrow> bool" where
  "num_wf n = (case n of
                 Fin m e \<Rightarrow> (m = 0 \<and> e = 0) \<or> (m mod 10 \<noteq> 0 \<and> \<not> underflows m e \<and> \<not> overflows m e)
               | _ \<Rightarrow> True)"


section \<open>Lemmas: normal form, rounding and exact arithmetic\<close>

lemma dval_shift: "dval (m * 10) e = dval m (e + 1)"
  by (simp add: dval_def power_int_add)

lemma dval_eq_0_iff [simp]: "dval m e = 0 \<longleftrightarrow> m = 0"
  by (simp add: dval_def)

lemma strip_zeros_dval: "strip_zeros m e = (m', e') \<Longrightarrow> dval m' e' = dval m e"
proof (induction m e rule: strip_zeros.induct)
  case (1 m e)
  show ?case
  proof (cases "m \<noteq> 0 \<and> m mod 10 = 0")
    case True
    then have m: "m = m div 10 * 10" using div_mult_mod_eq [of m 10] by simp
    from True "1.prems" have "strip_zeros (m div 10) (e + 1) = (m', e')"
      by (simp add: strip_zeros.simps)
    with True "1.IH" have "dval m' e' = dval (m div 10) (e + 1)" by simp
    also have "\<dots> = dval m e" by (subst m) (simp add: dval_shift)
    finally show ?thesis .
  next
    case False
    with "1.prems" show ?thesis by (simp add: strip_zeros.simps)
  qed
qed

lemma strip_zeros_normal: "strip_zeros m e = (m', e') \<Longrightarrow> m' = 0 \<or> m' mod 10 \<noteq> 0"
proof (induction m e rule: strip_zeros.induct)
  case (1 m e)
  then show ?case
    by (cases "m \<noteq> 0 \<and> m mod 10 = 0") (auto simp: strip_zeros.simps [of m e])
qed

lemma strip_zeros_shift: "strip_zeros m e = (m', e') \<Longrightarrow> e \<le> e' \<and> m = m' * 10 ^ nat (e' - e)"
proof (induction m e rule: strip_zeros.induct)
  case (1 m e)
  show ?case
  proof (cases "m \<noteq> 0 \<and> m mod 10 = 0")
    case True
    with "1.prems" have "strip_zeros (m div 10) (e + 1) = (m', e')"
      by (simp add: strip_zeros.simps)
    with True "1.IH" have h: "e + 1 \<le> e' \<and> m div 10 = m' * 10 ^ nat (e' - (e + 1))" by simp
    then have n: "nat (e' - e) = Suc (nat (e' - (e + 1)))" by (simp add: Suc_nat_eq_nat_zadd1)
    from True have "m = m div 10 * 10" using div_mult_mod_eq [of m 10] by simp
    with h n show ?thesis by (simp add: algebra_simps)
  next
    case False
    with "1.prems" show ?thesis by (simp add: strip_zeros.simps)
  qed
qed

lemma strip_zeros_idem: "m = 0 \<or> m mod 10 \<noteq> 0 \<Longrightarrow> strip_zeros m e = (m, e)"
  by (auto simp: strip_zeros.simps [of m e])

lemma dval_int_eq: "dval m1 e = dval m2 e \<longleftrightarrow> m1 = m2"
  by (simp add: dval_def)

lemma dval_normal_unique_le:
  assumes "m1 mod 10 \<noteq> 0" "m2 mod 10 \<noteq> 0" "dval m1 e1 = dval m2 e2" "e1 \<le> e2"
  shows "m1 = m2 \<and> e1 = e2"
proof -
  have "(10::rat) powi e2 = 10 ^ nat (e2 - e1) * 10 powi e1"
    using assms(4) by (simp add: power_int_add [symmetric] power_int_of_nat [symmetric])
  then have "dval m2 e2 = dval (m2 * 10 ^ nat (e2 - e1)) e1"
    by (simp add: dval_def)
  with assms(3) have m1: "m1 = m2 * 10 ^ nat (e2 - e1)"
    by (simp add: dval_int_eq)
  show ?thesis
  proof (cases "e1 = e2")
    case True
    with m1 show ?thesis by simp
  next
    case False
    with assms(4) have "nat (e2 - e1) = Suc (nat (e2 - e1) - 1)" by simp
    with m1 have "m1 mod 10 = 0" by (metis mod_mult_self1_is_0 mult.commute mult.left_commute power_Suc)
    with assms(1) show ?thesis by simp
  qed
qed

lemma dval_normal_unique:
  assumes "m1 mod 10 \<noteq> 0" "m2 mod 10 \<noteq> 0" "dval m1 e1 = dval m2 e2"
  shows "m1 = m2 \<and> e1 = e2"
proof (cases "e1 \<le> e2")
  case True
  with assms show ?thesis by (rule dval_normal_unique_le)
next
  case False
  with assms show ?thesis by (metis dval_normal_unique_le linorder_linear)
qed

lemma dval_nonneg_exp: "0 \<le> e \<Longrightarrow> dval m e = of_int (m * 10 ^ nat e)"
  by (simp add: dval_def power_int_nonneg_exp)

lemma dval_neg_exp: "e < 0 \<Longrightarrow> dval m e = of_int m / of_int (10 ^ nat (- e))"
proof -
  assume "e < 0"
  then have "e = - int (nat (- e))" by simp
  then have "(10::rat) powi e = inverse (10 ^ nat (- e))"
    by (metis power_int_minus power_int_of_nat)
  then show ?thesis by (simp add: dval_def divide_inverse)
qed

lemma dec_ge_dval: "dec_ge m e t \<longleftrightarrow> of_int t \<le> \<bar>dval m e\<bar>"
proof (cases "0 \<le> e")
  case True
  have d: "\<bar>dval m e\<bar> = of_int (\<bar>m\<bar> * 10 ^ nat e)"
    using True by (simp add: dval_nonneg_exp abs_mult)
  have "dec_ge m e t \<longleftrightarrow> t \<le> \<bar>m\<bar> * 10 ^ nat e"
    using True by (simp add: dec_ge_def)
  also have "\<dots> \<longleftrightarrow> (of_int t :: rat) \<le> of_int (\<bar>m\<bar> * 10 ^ nat e)"
    by (rule of_int_le_iff [symmetric])
  finally show ?thesis by (simp only: d)
next
  case False
  define k where "k = nat (- e)"
  have p: "(0::rat) < of_int ((10::int) ^ k)" by simp
  have d: "\<bar>dval m e\<bar> = of_int \<bar>m\<bar> / of_int (10 ^ k)"
    using False by (simp add: dval_neg_exp k_def)
  have "dec_ge m e t \<longleftrightarrow> t * 10 ^ k \<le> \<bar>m\<bar>"
    using False by (simp add: dec_ge_def k_def)
  also have "\<dots> \<longleftrightarrow> (of_int (t * 10 ^ k) :: rat) \<le> of_int \<bar>m\<bar>"
    by (rule of_int_le_iff [symmetric])
  also have "\<dots> \<longleftrightarrow> of_int t \<le> (of_int \<bar>m\<bar> / of_int (10 ^ k) :: rat)"
    using p by (simp only: pos_le_divide_eq of_int_mult)
  finally show ?thesis by (simp only: d)
qed

lemma udf_scale_gt1: "1 < udf_scale"
  unfolding udf_scale_def by (rule one_less_power) simp_all

lemma ovf_bound_factor: "ovf_bound = 2 ^ 970 * (2 ^ 54 - 1)"
proof -
  have "(2::int) ^ 1024 = 2 ^ 970 * 2 ^ 54" by (simp only: power_add [symmetric]) simp
  then show ?thesis unfolding ovf_bound_def by (simp only: right_diff_distrib mult_1_right)
qed

lemma ovf_bound_big: "2 ^ 53 < ovf_bound"
proof -
  have "(2::int) ^ 53 < 2 ^ 970" by (rule power_strict_increasing) simp_all
  also have "\<dots> \<le> 2 ^ 970 * (2 ^ 54 - 1)"
    by (rule mult_le_cancel_left1 [THEN iffD2]) simp
  finally show ?thesis by (simp only: ovf_bound_factor)
qed

lemma udf_scale_big: "2 ^ 53 < udf_scale"
  unfolding udf_scale_def by (rule power_strict_increasing) simp_all

lemma rat_bounds_53: "(2::rat) ^ 53 < of_int ovf_bound \<and> (2::rat) ^ 53 < of_int udf_scale"
proof -
  have "(2::int) ^ 53 < ovf_bound" "(2::int) ^ 53 < udf_scale" by (rule ovf_bound_big, rule udf_scale_big)
  then show ?thesis by (metis of_int_less_iff of_int_numeral of_int_power)
qed

lemma underflows_dval: "underflows m e \<longleftrightarrow> \<bar>dval m e\<bar> * of_int udf_scale \<le> 1"
proof (cases "m = 0")
  case True
  then show ?thesis by (simp add: underflows_def dval_def)
next
  case False
  have u: "(1::rat) < of_int udf_scale" using udf_scale_gt1 by simp
  show ?thesis
  proof (cases "0 \<le> e")
    case True
    from False have m1: "1 \<le> \<bar>m\<bar>" by arith
    have "(1::int) \<le> 10 ^ nat e" by simp
    with m1 have "1 \<le> \<bar>m\<bar> * 10 ^ nat e"
      using mult_mono [of 1 "\<bar>m\<bar>" 1 "10 ^ nat e"] by simp
    then have x1: "(1::rat) \<le> of_int (\<bar>m\<bar> * 10 ^ nat e)"
      by (simp only: of_int_1_le_iff)
    have "(of_int udf_scale :: rat) \<le> of_int (\<bar>m\<bar> * 10 ^ nat e) * of_int udf_scale"
      using mult_right_mono [OF x1, of "of_int udf_scale"] u by simp
    with u have gt: "1 < of_int (\<bar>m\<bar> * 10 ^ nat e) * (of_int udf_scale :: rat)" by linarith
    have d: "\<bar>dval m e\<bar> = of_int (\<bar>m\<bar> * 10 ^ nat e)"
      using True by (simp add: dval_nonneg_exp abs_mult)
    have "\<not> underflows m e" using True False by (simp add: underflows_def)
    with gt d show ?thesis by simp
  next
    case False
    define k where "k = nat (- e)"
    have p: "(0::rat) < of_int ((10::int) ^ k)" by simp
    have d: "\<bar>dval m e\<bar> = of_int \<bar>m\<bar> / of_int (10 ^ k)"
      using False by (simp add: dval_neg_exp k_def)
    have "underflows m e \<longleftrightarrow> \<bar>m\<bar> * udf_scale \<le> 10 ^ k"
      using False \<open>m \<noteq> 0\<close> by (simp add: underflows_def k_def)
    also have "\<dots> \<longleftrightarrow> (of_int (\<bar>m\<bar> * udf_scale) :: rat) \<le> of_int (10 ^ k)"
      by (rule of_int_le_iff [symmetric])
    also have "\<dots> \<longleftrightarrow> (of_int \<bar>m\<bar> * of_int udf_scale) / of_int (10 ^ k) \<le> (1::rat)"
      using p by (simp only: divide_le_eq_1_pos of_int_mult)
    also have "\<dots> \<longleftrightarrow> of_int \<bar>m\<bar> / of_int (10 ^ k) * of_int udf_scale \<le> (1::rat)"
      by (simp only: times_divide_eq_left)
    finally show ?thesis by (simp only: d)
  qed
qed

lemma overflows_dval: "overflows m e \<longleftrightarrow> of_int ovf_bound \<le> \<bar>dval m e\<bar>"
  by (simp add: overflows_def dec_ge_dval)

lemma mk_num_dval_eq:
  assumes eq: "dval m e = dval m' e'"
  shows "mk_num m e = mk_num m' e'"
proof -
  obtain a b where s1: "strip_zeros m e = (a, b)" by fastforce
  obtain c d where s2: "strip_zeros m' e' = (c, d)" by fastforce
  have v: "dval a b = dval c d"
    using strip_zeros_dval [OF s1] strip_zeros_dval [OF s2] eq by simp
  show ?thesis
  proof (cases "a = 0")
    case True
    with v have "c = 0" by (metis dval_eq_0_iff)
    with True s1 s2 show ?thesis by (simp add: mk_num_def underflows_def)
  next
    case False
    with v have "c \<noteq> 0" by (metis dval_eq_0_iff)
    from strip_zeros_normal [OF s1] False have "a mod 10 \<noteq> 0" by simp
    moreover from strip_zeros_normal [OF s2] \<open>c \<noteq> 0\<close> have "c mod 10 \<noteq> 0" by simp
    ultimately have "a = c \<and> b = d" using v by (rule dval_normal_unique)
    with s1 s2 show ?thesis by (simp add: mk_num_def)
  qed
qed

lemma dval_scale: "dval (x * 10 ^ n) e = dval x (e + int n)"
  by (simp add: dval_def power_int_add)

lemma dval_add: "dval (x + y) e = dval x e + dval y e"
  by (simp add: dval_def algebra_simps)

lemma dval_mult: "dval (a * b) (e1 + e2) = dval a e1 * dval b e2"
  by (simp add: dval_def power_int_add)

text \<open>Addition and multiplication of finite numbers are the exact operations on
  their values, followed by rounding to the double range.\<close>

lemma num_add_exact:
  assumes "dval m e = dval a e1 + dval b e2"
  shows "num_add (Fin a e1) (Fin b e2) = mk_num m e"
proof -
  define k where "k = min e1 e2"
  have i1: "k + int (nat (e1 - k)) = e1" and i2: "k + int (nat (e2 - k)) = e2"
    by (simp_all add: k_def)
  have d: "dval (a * 10 ^ nat (e1 - k) + b * 10 ^ nat (e2 - k)) k = dval m e"
    using assms by (simp only: dval_add dval_scale i1 i2)
  have "num_add (Fin a e1) (Fin b e2) = mk_num (a * 10 ^ nat (e1 - k) + b * 10 ^ nat (e2 - k)) k"
    unfolding k_def by (simp only: num_add.simps Let_def)
  also have "\<dots> = mk_num m e" using d by (rule mk_num_dval_eq)
  finally show ?thesis .
qed

lemma num_mul_exact:
  assumes "dval m e = dval a e1 * dval b e2"
  shows "num_mul (Fin a e1) (Fin b e2) = mk_num m e"
proof -
  have "dval (a * b) (e1 + e2) = dval m e" using assms by (simp only: dval_mult)
  then have "mk_num (a * b) (e1 + e2) = mk_num m e" by (rule mk_num_dval_eq)
  then show ?thesis by (simp only: num_mul.simps)
qed

lemma num_of_int_fin:
  assumes "\<bar>i\<bar> < ovf_bound"
  shows "\<exists>m e. num_of_int i = Fin m e \<and> dval m e = of_int i"
proof -
  obtain a b where s: "strip_zeros i 0 = (a, b)" by fastforce
  have v: "dval a b = of_int i" using strip_zeros_dval [OF s] by (simp add: dval_def)
  show ?thesis
  proof (cases "i = 0")
    case True
    then show ?thesis by (simp add: mk_num_def strip_zeros_idem underflows_def dval_def)
  next
    case False
    with v have "a \<noteq> 0" by (metis dval_eq_0_iff of_int_eq_0_iff)
    moreover have "0 \<le> b" using strip_zeros_shift [OF s] by simp
    ultimately have u: "\<not> underflows a b" by (simp add: underflows_def)
    have "\<not> overflows a b" using assms v by (simp add: overflows_dval)
    with u s v show ?thesis by (simp add: mk_num_def)
  qed
qed

lemma num_add_of_int:
  assumes "\<bar>a\<bar> < ovf_bound" "\<bar>b\<bar> < ovf_bound"
  shows "num_add (num_of_int a) (num_of_int b) = num_of_int (a + b)"
proof -
  obtain m1 e1 where 1: "num_of_int a = Fin m1 e1" "dval m1 e1 = of_int a"
    using num_of_int_fin [OF assms(1)] by blast
  obtain m2 e2 where 2: "num_of_int b = Fin m2 e2" "dval m2 e2 = of_int b"
    using num_of_int_fin [OF assms(2)] by blast
  have "dval (a + b) 0 = dval m1 e1 + dval m2 e2" using 1 2 by (simp add: dval_def)
  then have "num_add (Fin m1 e1) (Fin m2 e2) = mk_num (a + b) 0" by (rule num_add_exact)
  with 1 2 show ?thesis by simp
qed

lemma num_mul_of_int:
  assumes "\<bar>a\<bar> < ovf_bound" "\<bar>b\<bar> < ovf_bound"
  shows "num_mul (num_of_int a) (num_of_int b) = num_of_int (a * b)"
proof -
  obtain m1 e1 where 1: "num_of_int a = Fin m1 e1" "dval m1 e1 = of_int a"
    using num_of_int_fin [OF assms(1)] by blast
  obtain m2 e2 where 2: "num_of_int b = Fin m2 e2" "dval m2 e2 = of_int b"
    using num_of_int_fin [OF assms(2)] by blast
  have "dval (a * b) 0 = dval m1 e1 * dval m2 e2" using 1 2 by (simp add: dval_def)
  then have "num_mul (Fin m1 e1) (Fin m2 e2) = mk_num (a * b) 0" by (rule num_mul_exact)
  with 1 2 show ?thesis by simp
qed

lemma dval_sign: "0 < dval m e \<longleftrightarrow> 0 < m"
proof -
  have "\<not> (10::rat) powi e < 0" by (simp add: not_less)
  then show ?thesis by (simp add: dval_def zero_less_mult_iff)
qed

lemma num_le_zero_of_int:
  assumes "\<bar>i\<bar> < ovf_bound"
  shows "num_le_zero (num_of_int i) \<longleftrightarrow> i \<le> 0"
proof -
  obtain m e where 1: "num_of_int i = Fin m e" "dval m e = of_int i"
    using num_of_int_fin [OF assms] by blast
  have "0 < m \<longleftrightarrow> 0 < i" using dval_sign [of m e] 1(2) by simp
  with 1(1) show ?thesis by auto
qed

lemma num_truthy_of_int:
  assumes "\<bar>i\<bar> < ovf_bound"
  shows "num_truthy (num_of_int i) \<longleftrightarrow> i \<noteq> 0"
proof -
  obtain m e where 1: "num_of_int i = Fin m e" "dval m e = of_int i"
    using num_of_int_fin [OF assms] by blast
  have "m = 0 \<longleftrightarrow> i = 0" using dval_eq_0_iff [of m e] 1(2) by simp
  with 1(1) show ?thesis by simp
qed

text \<open>A nonzero integer is a nonzero finite number or, beyond the double range, an
  infinity: it never rounds to zero.\<close>

lemma num_of_int_nonzero:
  assumes "i \<noteq> 0"
  shows "(\<exists>m e. num_of_int i = Fin m e \<and> m \<noteq> 0) \<or> (\<exists>b. num_of_int i = Inf b)"
proof -
  obtain a b where s: "strip_zeros i 0 = (a, b)" by fastforce
  have v: "dval a b = of_int i" using strip_zeros_dval [OF s] by (simp add: dval_def)
  with assms have "a \<noteq> 0" by (metis dval_eq_0_iff of_int_eq_0_iff)
  moreover have "0 \<le> b" using strip_zeros_shift [OF s] by simp
  ultimately have "\<not> underflows a b" by (simp add: underflows_def)
  with s \<open>a \<noteq> 0\<close> show ?thesis by (simp add: mk_num_def)
qed

lemma num_val_mk_num:
  assumes "dval m e = v" "\<bar>v\<bar> < of_int ovf_bound" "v = 0 \<or> 1 < \<bar>v\<bar> * of_int udf_scale"
  shows "num_val (mk_num m e) = Some v"
proof -
  obtain a b where s: "strip_zeros m e = (a, b)" by fastforce
  have d: "dval a b = v" using strip_zeros_dval [OF s] assms(1) by simp
  show ?thesis
  proof (cases "v = 0")
    case True
    then show ?thesis using s d by (auto simp: mk_num_def num_val_def dval_def underflows_dval overflows_dval)
  next
    case False
    then have "\<not> underflows a b" using assms(3) d by (simp add: underflows_dval)
    moreover have "\<not> overflows a b" using assms(2) d by (simp add: overflows_dval)
    ultimately show ?thesis using s d by (simp add: mk_num_def num_val_def)
  qed
qed

lemma num_add_fin: "\<exists>m e. num_add (Fin a e1) (Fin b e2) = mk_num m e \<and> dval m e = dval a e1 + dval b e2"
proof -
  define k where "k = min e1 e2"
  have i1: "k + int (nat (e1 - k)) = e1" and i2: "k + int (nat (e2 - k)) = e2"
    by (simp_all add: k_def)
  have "dval (a * 10 ^ nat (e1 - k) + b * 10 ^ nat (e2 - k)) k = dval a e1 + dval b e2"
    by (simp only: dval_add dval_scale i1 i2)
  then show ?thesis using num_add_exact by blast
qed

lemma num_mul_fin: "num_mul (Fin a e1) (Fin b e2) = mk_num (a * b) (e1 + e2) \<and> dval (a * b) (e1 + e2) = dval a e1 * dval b e2"
  by (simp add: dval_mult)

text \<open>An integer at or beyond the overflow threshold is an infinity of its sign.\<close>

lemma num_of_int_overflow:
  assumes "ovf_bound \<le> \<bar>i\<bar>"
  shows "num_of_int i = Inf (0 < i)"
proof -
  obtain a b where s: "strip_zeros i 0 = (a, b)" by fastforce
  have v: "dval a b = of_int i" using strip_zeros_dval [OF s] by (simp add: dval_def)
  have i0: "i \<noteq> 0" using assms ovf_bound_big by auto
  with v have "a \<noteq> 0" by (metis dval_eq_0_iff of_int_eq_0_iff)
  moreover have "0 \<le> b" using strip_zeros_shift [OF s] by simp
  ultimately have "\<not> underflows a b" by (simp add: underflows_def)
  moreover have "overflows a b" using assms v by (simp add: overflows_dval)
  moreover have "0 < a \<longleftrightarrow> 0 < i" using dval_sign [of a b] v by simp
  ultimately show ?thesis using s by (simp add: mk_num_def)
qed

lemma num_of_int_15: "num_of_int 15 = Fin 15 0"
  by code_simp

lemma num_wf_simps [simp]: "num_wf (Inf s)" "num_wf NaN" "num_wf (Fin 0 0)"
  by (simp_all add: num_wf_def)

lemma num_wf_mk_num: "num_wf (mk_num m e)"
proof -
  obtain a b where s: "strip_zeros m e = (a, b)" by fastforce
  have "a = 0 \<or> a mod 10 \<noteq> 0" by (rule strip_zeros_normal [OF s])
  then show ?thesis using s by (auto simp: mk_num_def num_wf_def underflows_def)
qed

lemma num_wf_num_neg: "num_wf v \<Longrightarrow> num_wf (num_neg v)"
proof (cases v)
  case (Fin m e)
  have u: "underflows (- m) e = underflows m e" by (simp add: underflows_def)
  have o: "overflows (- m) e = overflows m e" by (simp add: overflows_def dec_ge_def)
  have d: "(- m) mod 10 = 0 \<longleftrightarrow> m mod 10 = (0::int)" by (simp add: mod_eq_0_iff_dvd)
  assume "num_wf v"
  then show ?thesis using Fin u o d by (auto simp: num_neg_def num_wf_def)
qed (simp_all add: num_neg_def)

lemma unsigned_dec_wf: "unsigned_dec s = Some (v, r) \<Longrightarrow> num_wf v"
  by (auto simp: unsigned_dec_def Let_def num_wf_mk_num
           split: if_splits option.splits prod.splits list.splits)

lemma dec_literal_wf: "dec_literal s = Some (v, r) \<Longrightarrow> num_wf v"
  by (auto simp: dec_literal_def unsigned_dec_wf num_wf_num_neg split: list.splits if_splits)

lemma non_decimal_wf: "non_decimal s = Some v \<Longrightarrow> num_wf v"
  by (auto simp: non_decimal_def Let_def num_wf_mk_num split: list.splits if_splits)

section \<open>Lemmas: printing and parsing integers\<close>

lemma nat_str_times10: "0 < x \<Longrightarrow> nat_str (x * 10) = nat_str x @ ''0''"
  by (subst nat_str.simps) simp

lemma nat_str_pow10: "0 < x \<Longrightarrow> nat_str (x * 10 ^ n) = nat_str x @ replicate n CHR ''0''"
proof (induction n)
  case 0
  then show ?case by simp
next
  case (Suc n)
  have "nat_str (x * 10 ^ Suc n) = nat_str (x * 10 ^ n * 10)" by (simp add: ac_simps)
  also have "\<dots> = nat_str (x * 10 ^ n) @ ''0''" using Suc.prems by (simp add: nat_str_times10)
  finally show ?case using Suc by (simp add: replicate_append_same)
qed

lemma length_nat_str: "x < 10 ^ k \<Longrightarrow> 0 < k \<Longrightarrow> length (nat_str x) \<le> k"
proof (induction x arbitrary: k rule: nat_str.induct)
  case (1 x)
  show ?case
  proof (cases "x < 10")
    case True
    with "1.prems" show ?thesis by (simp add: nat_str_small)
  next
    case False
    with "1.prems" have k: "1 < k" by (metis less_one linorder_neqE_nat nat_power_less_imp_less not_less power_one_right)
    with "1.prems" have "x div 10 < 10 ^ (k - 1)"
      by (metis Suc_diff_1 less_mult_imp_div_less not_one_less_zero order_less_trans power_Suc2 zero_less_one)
    with False k "1.IH" have "length (nat_str (x div 10)) \<le> k - 1" by simp
    with False k show ?thesis by (simp add: nat_str_big)
  qed
qed

lemma mk_num_in_range:
  "strip_zeros m e = (a, b) \<Longrightarrow> \<not> underflows a b \<Longrightarrow> \<not> overflows a b \<Longrightarrow> mk_num m e = Fin a b"
  by (simp add: mk_num_def)

lemma ten21_less_ovf_bound: "10 ^ 21 < ovf_bound"
proof -
  have "(10::int) ^ 21 < 2 ^ 70" by simp
  also have "(2::int) ^ 70 < 2 ^ 970" by (rule power_strict_increasing) simp_all
  also have "\<dots> \<le> 2 ^ 970 * (2 ^ 54 - 1)"
    by (rule mult_le_cancel_left1 [THEN iffD2]) simp
  finally show ?thesis by (simp only: ovf_bound_factor)
qed

text \<open>A nonzero integer in range is the number with its trailing zeros stripped.\<close>

lemma num_of_int_strip:
  assumes "i \<noteq> 0" "\<bar>i\<bar> < ovf_bound" "strip_zeros i 0 = (m, e)"
  shows "num_of_int i = Fin m e \<and> m \<noteq> 0 \<and> 0 \<le> e \<and> i = m * 10 ^ nat e \<and> m mod 10 \<noteq> 0"
proof -
  from strip_zeros_shift [OF assms(3)] have sh: "0 \<le> e" "i = m * 10 ^ nat e" by simp_all
  with assms(1) have m: "m \<noteq> 0" by auto
  with strip_zeros_normal [OF assms(3)] have n: "m mod 10 \<noteq> 0" by simp
  have v: "dval m e = of_int i" using strip_zeros_dval [OF assms(3)] by (simp add: dval_def)
  from m sh have "\<not> underflows m e" by (simp add: underflows_def)
  moreover from assms(2) v have "\<not> overflows m e" by (simp add: overflows_dval)
  ultimately have "num_of_int i = Fin m e" using assms(3) by (rule mk_num_in_range [rotated])
  with m sh n show ?thesis by simp
qed

lemma num_of_int_zero: "num_of_int 0 = Fin 0 0"
  by (simp add: mk_num_def strip_zeros_idem underflows_def)

lemma num_to_string_of_int:
  assumes "\<bar>i\<bar> < 10 ^ 21"
  shows "num_to_string (num_of_int i) = int_str i"
proof (cases "i = 0")
  case True
  then show ?thesis by (simp add: num_of_int_zero strip_zeros_idem int_str_def nat_str_small)
next
  case False
  obtain m e where s: "strip_zeros i 0 = (m, e)" by fastforce
  have r: "\<bar>i\<bar> < ovf_bound" using assms ten21_less_ovf_bound by linarith
  note facts = num_of_int_strip [OF False r s]
  define s0 where "s0 = nat_str (nat \<bar>m\<bar>)"
  have "nat \<bar>i\<bar> = nat \<bar>m\<bar> * 10 ^ nat e" using facts by (simp add: abs_mult nat_mult_distrib nat_power_eq)
  then have full: "nat_str (nat \<bar>i\<bar>) = s0 @ replicate (nat e) CHR ''0''"
    using facts by (simp add: s0_def nat_str_pow10)
  have "nat \<bar>i\<bar> < 10 ^ 21" using assms by (simp add: nat_less_iff)
  then have "length (nat_str (nat \<bar>i\<bar>)) \<le> 21" by (rule length_nat_str) simp
  with full have len: "int (length s0) + e \<le> 21" using facts by simp
  have str: "pos_num_str s0 (int (length s0) + e) = nat_str (nat \<bar>i\<bar>)"
    using len facts full by (simp add: pos_num_str_def)
  have sg: "m < 0 \<longleftrightarrow> i < 0" using facts by (simp add: mult_less_0_iff)
  have "num_to_string (Fin m e) =
          (if m < 0 then CHR ''-'' # pos_num_str s0 (int (length s0) + e) else pos_num_str s0 (int (length s0) + e))"
    using facts strip_zeros_idem [of m e] by (simp add: s0_def Let_def)
  also have "\<dots> = int_str i"
    using str sg by (simp add: int_str_def abs_if)
  finally have ts: "num_to_string (Fin m e) = int_str i" .
  from facts have "num_of_int i = Fin m e" by (rule conjunct1)
  with ts show ?thesis by (simp only:)
qed

lemma fixed2_digits_times100: "0 < x \<Longrightarrow> fixed2_digits (x * 100) = nat_str x @ ''.00''"
proof -
  assume x: "0 < x"
  have n: "nat_str (x * 100) = nat_str x @ ''00''"
    using nat_str_pow10 [OF x, of 2] by (simp add: numeral_2_eq_2)
  have "0 < length (nat_str x)" by simp
  then show ?thesis using n by (simp add: fixed2_digits_def Let_def)
qed

lemma to_fixed2_of_int:
  assumes "\<bar>i\<bar> < 10 ^ 21"
  shows "to_fixed2 (num_of_int i) = int_str i @ ''.00''"
proof (cases "i = 0")
  case True
  then show ?thesis
    by (simp add: num_of_int_zero dec_ge_def round_cents_def fixed2_digits_def int_str_def nat_str_small)
next
  case False
  obtain m e where s: "strip_zeros i 0 = (m, e)" by fastforce
  have r: "\<bar>i\<bar> < ovf_bound" using assms ten21_less_ovf_bound by linarith
  note facts = num_of_int_strip [OF False r s]
  from facts have eq: "num_of_int i = Fin m e" by (rule conjunct1)
  have v: "dval m e = of_int i" using strip_zeros_dval [OF s] by (simp add: dval_def)
  have ng: "\<not> dec_ge m e (10 ^ 21)" using assms v by (simp add: dec_ge_dval)
  from facts have "0 \<le> e" by simp
  then have "nat (e + 2) = nat e + 2" by (simp add: nat_add_distrib)
  then have "round_cents m e = nat \<bar>i\<bar> * 100"
    using facts by (simp add: round_cents_def abs_mult nat_mult_distrib nat_power_eq power_add)
  moreover have "0 < nat \<bar>i\<bar>" using False by simp
  ultimately have fd: "fixed2_digits (round_cents m e) = nat_str (nat \<bar>i\<bar>) @ ''.00''"
    by (simp add: fixed2_digits_times100)
  have sg: "m < 0 \<longleftrightarrow> i < 0" using facts by (simp add: mult_less_0_iff)
  have "to_fixed2 (Fin m e) = int_str i @ ''.00''"
    using ng fd sg by (simp add: int_str_def abs_if)
  with eq show ?thesis by (simp only:)
qed

lemma digit_not_ws: "is_dec_digit c \<Longrightarrow> \<not> js_ws c"
  by (auto simp: is_dec_digit_def js_ws_def)

lemma radix_digit_dec:
  assumes "is_dec_digit c"
  shows "radix_digit 10 c = Some (digit_val c)"
proof -
  have b: "(48::nat) \<le> of_char c \<and> of_char c \<le> (57::nat)" using assms by (simp add: is_dec_digit_def)
  then have "of_char c - 48 < (10::nat)" by linarith
  with b show ?thesis by (simp add: radix_digit_def digit_val_def Let_def)
qed

lemma radix_val_dec_foldl:
  "\<forall>c \<in> set s. is_dec_digit c \<Longrightarrow>
     foldl (\<lambda>acc c. 10 * acc + the (radix_digit 10 c)) a s = foldl (\<lambda>acc c. 10 * acc + digit_val c) a s"
  by (induction s arbitrary: a) (simp_all add: radix_digit_dec)

lemma radix_val_dec: "\<forall>c \<in> set s. is_dec_digit c \<Longrightarrow> radix_val 10 s = digits_val s"
  by (simp add: radix_val_def digits_val_def radix_val_dec_foldl)

lemma nat_str_no_hex_prefix: "take 2 (nat_str n) \<noteq> ''0x'' \<and> take 2 (nat_str n) \<noteq> ''0X''"
proof -
  have "\<not> is_dec_digit CHR ''x''" "\<not> is_dec_digit CHR ''X''" by (simp_all add: is_dec_digit_def)
  then have "CHR ''x'' \<notin> set (nat_str n)" "CHR ''X'' \<notin> set (nat_str n)"
    using nat_str_digits by blast+
  then show ?thesis by (metis in_set_takeD list.set_intros(1) list.set_intros(2))
qed

lemma digits_parse_int:
  assumes ne: "s \<noteq> []" and dig: "\<forall>c \<in> set s. is_dec_digit c"
    and sg: "int_sign (trim_start s0) = (k, s)"
  shows "parse_int s0 = num_of_int (k * int (digits_val s))"
proof -
  have "CHR ''x'' \<notin> set s" "CHR ''X'' \<notin> set s"
    using dig by (auto simp: is_dec_digit_def)
  then have "take 2 s \<noteq> ''0x'' \<and> take 2 s \<noteq> ''0X''"
    by (metis in_set_takeD list.set_intros(1) list.set_intros(2))
  then have r: "radix_prefix s = (10, s)" by (simp add: radix_prefix_def)
  have z: "takeWhile (is_radix_digit 10) s = s"
    using dig by (simp add: takeWhile_eq_all_conv radix_digit_dec)
  have "parse_int s0 = (if s = [] then NaN else num_of_int (k * int (radix_val 10 s)))"
    by (simp only: parse_int_def Let_def sg r z prod.case)
  then show ?thesis using ne radix_val_dec [OF dig] by simp
qed

lemma parse_nat_str: "parse_int (nat_str n) = num_of_int (int n)"
proof -
  obtain c t where ct: "nat_str n = c # t" by (cases "nat_str n") auto
  have dig: "\<forall>c \<in> set (nat_str n). is_dec_digit c" using nat_str_digits by blast
  with ct have cd: "is_dec_digit c" by simp
  then have "c \<noteq> CHR ''-'' \<and> c \<noteq> CHR ''+''" by (auto simp: is_dec_digit_def)
  moreover have "trim_start (nat_str n) = nat_str n"
    using ct cd digit_not_ws by (simp add: trim_start_def)
  ultimately have "int_sign (trim_start (nat_str n)) = (1, nat_str n)"
    using ct by (simp add: int_sign_def)
  with dig have "parse_int (nat_str n) = num_of_int (1 * int (digits_val (nat_str n)))"
    by (simp only: digits_parse_int nat_str_not_Nil not_False_eq_True)
  then show ?thesis by simp
qed

lemma parse_int_int_str: "parse_int (int_str i) = num_of_int i"
proof (cases "i < 0")
  case False
  then show ?thesis by (simp add: int_str_def parse_nat_str)
next
  case True
  let ?s = "nat_str (nat (- i))"
  have dig: "\<forall>c \<in> set ?s. is_dec_digit c" using nat_str_digits by blast
  have "\<not> js_ws CHR ''-''" by (simp add: js_ws_def)
  then have "int_sign (trim_start (CHR ''-'' # ?s)) = (-1, ?s)"
    by (simp add: trim_start_def int_sign_def)
  with dig have "parse_int (CHR ''-'' # ?s) = num_of_int (- 1 * int (digits_val ?s))"
    by (simp only: digits_parse_int nat_str_not_Nil not_False_eq_True)
  with True show ?thesis by (simp add: int_str_def)
qed

text \<open>The relay's cart arithmetic stays below \<open>2^53\<close>, where a double is exact; such
  values are far inside the double range and print without an exponent.\<close>

lemma bound53_ovf: "\<bar>x\<bar> < 2 ^ 53 \<Longrightarrow> \<bar>x\<bar> < ovf_bound"
  using ovf_bound_big by linarith

lemma bound53_1e21: "\<bar>x::int\<bar> < 2 ^ 53 \<Longrightarrow> \<bar>x\<bar> < 10 ^ 21"
proof -
  have "(2::int) ^ 53 < 10 ^ 21" by simp
  then show "\<bar>x\<bar> < 2 ^ 53 \<Longrightarrow> \<bar>x\<bar> < 10 ^ 21" by linarith
qed

end
