(* ===== verification/JsValue.thy ===== *)
theory JsValue
  imports JsNumber
begin

text \<open>
  JavaScript values as the relay meets them: request bodies parsed by
  \<open>express.json()\<close>, processor responses parsed by axios, and the objects the
  handlers build for \<open>res.json\<close>. The conversions are the ones of ECMA-262 that the
  code of \<open>src/server.js\<close> triggers: ToBoolean in \<open>!x\<close> and \<open>x || y\<close>, ToString (which can throw) in
  template literals, property keys and \<open>parseInt\<close>, ToNumber in \<open>x <= 0\<close>, property
  reads that throw a TypeError on \<open>undefined\<close> and \<open>null\<close>. An object keeps its
  bindings in order; a read finds the last binding of a key, as \<open>JSON.parse\<close> keeps the
  last of duplicated keys. Own properties are modelled, and the \<open>length\<close> and index
  properties of arrays and strings; the members objects inherit from their prototypes
  are modelled where a caller-chosen key can reach them (the catalog lookup, theory
  \<open>Catalog\<close>).
\<close>

datatype jval =
    JUndef
  | JNull
  | JBool bool
  | JNum jsnum
  | JStr string
  | JArr "jval list"
  | JObj "(string \<times> jval) list"

text \<open>The exceptions a handler's \<open>catch\<close> block can receive: an \<open>Error\<close> or
  \<open>TypeError\<close> with its message (no \<open>response\<close>, no \<open>request\<close>), an axios error
  carrying the processor's response (status, data, message), and an axios error whose
  request got no response.\<close>

datatype exn =
    Thrown string
  | ErrResponse nat jval string
  | ErrNoResponse string

section \<open>Conversions\<close>

text \<open>ToBoolean (ECMA-262, 7.1.2).\<close>

fun truthy :: "jval \<Rightarrow> bool" where
  "truthy JUndef = False"
| "truthy JNull = False"
| "truthy (JBool b) = b"
| "truthy (JNum n) = num_truthy n"
| "truthy (JStr s) = (s \<noteq> [])"
| "truthy (JArr _) = True"
| "truthy (JObj _) = True"

text \<open>\<open>a || b\<close>.\<close>

definition js_or :: "jval \<Rightarrow> jval \<Rightarrow> jval" where
  "js_or a b = (if truthy a then a else b)"

definition join_comma :: "string list \<Rightarrow> string" where
  "join_comma ss = (case ss of [] \<Rightarrow> [] | s # rest \<Rightarrow> s @ concat (map (\<lambda>t. CHR '','' # t) rest))"

text \<open>The TypeError of ToPrimitive (ECMA-262, 7.1.1.1) on an object none of whose
  \<open>toString\<close> and \<open>valueOf\<close> is a function returning a primitive, in V8's words.\<close>

definition to_prim_error :: exn where
  "to_prim_error = Thrown ''Cannot convert object to primitive value''"

text \<open>ToString (ECMA-262, 7.1.17), with ToPrimitive for objects. A parsed object has
  no function among its own properties, so an own key \<open>toString\<close> shadows
  \<open>Object.prototype.toString\<close> with a value that cannot be called; \<open>valueOf\<close>, own or
  inherited, returns no primitive either, and the conversion throws. Without that key the
  inherited method gives \<open>[object Object]\<close>. An array converts by \<open>join(',')\<close>, where
  \<open>undefined\<close> and \<open>null\<close> elements print empty and the first element that throws ends
  the conversion.\<close>

fun to_str :: "jval \<Rightarrow> exn + string"
and join_elems :: "jval list \<Rightarrow> exn + string list" where
  "to_str JUndef = Inr ''undefined''"
| "to_str JNull = Inr ''null''"
| "to_str (JBool b) = Inr (if b then ''true'' else ''false'')"
| "to_str (JNum n) = Inr (num_to_string n)"
| "to_str (JStr s) = Inr s"
| "to_str (JArr xs) = (case join_elems xs of Inl e \<Rightarrow> Inl e | Inr ss \<Rightarrow> Inr (join_comma ss))"
| "to_str (JObj ps) = (if ''toString'' \<in> fst ` set ps then Inl to_prim_error else Inr ''[object Object]'')"
| "join_elems [] = Inr []"
| "join_elems (x # xs) =
     (case (case x of JUndef \<Rightarrow> Inr [] | JNull \<Rightarrow> Inr [] | _ \<Rightarrow> to_str x) of
        Inl e \<Rightarrow> Inl e
      | Inr s \<Rightarrow> (case join_elems xs of Inl e \<Rightarrow> Inl e | Inr ss \<Rightarrow> Inr (s # ss)))"

text \<open>ToNumber after ToPrimitive with hint number (ECMA-262, 7.1.4): the conversion of
  \<open>x <= 0\<close>. For an object or array, \<open>valueOf\<close> returns the object itself, so the
  conversion falls back to \<open>toString\<close> and fails or succeeds as ToString does.\<close>

fun to_number :: "jval \<Rightarrow> exn + jsnum" where
  "to_number JUndef = Inr NaN"
| "to_number JNull = Inr (Fin 0 0)"
| "to_number (JBool b) = Inr (if b then Fin 1 0 else Fin 0 0)"
| "to_number (JNum n) = Inr n"
| "to_number v = (case to_str v of Inl e \<Rightarrow> Inl e | Inr s \<Rightarrow> Inr (string_to_number s))"

text \<open>\<open>x <= 0\<close> (IsLessThan with the operands swapped): false when \<open>x\<close> converts to NaN;
  the TypeError of the conversion when there is one.\<close>

definition le_zero :: "jval \<Rightarrow> exn + bool" where
  "le_zero v = (case to_number v of Inl e \<Rightarrow> Inl e | Inr n \<Rightarrow> Inr (num_le_zero n))"

text \<open>\<open>x === 0\<close>.\<close>

fun strict_eq_zero :: "jval \<Rightarrow> bool" where
  "strict_eq_zero (JNum (Fin m _)) = (m = 0)"
| "strict_eq_zero _ = False"

section \<open>Property access\<close>

text \<open>A canonical array index: the decimal string of a natural number.\<close>

definition array_index :: "string \<Rightarrow> nat option" where
  "array_index k =
     (if k \<noteq> [] \<and> (\<forall>c \<in> set k. is_dec_digit c) \<and> nat_str (digits_val k) = k
      then Some (digits_val k) else None)"

text \<open>The V8 message of the TypeError a read of property \<open>k\<close> of \<open>v\<close> throws.\<close>

definition read_error :: "jval \<Rightarrow> string \<Rightarrow> string" where
  "read_error v k =
     ''Cannot read properties of '' @ (if v = JNull then ''null'' else ''undefined'') @
     '' (reading '' @ [CHR 0x27] @ k @ [CHR 0x27] @ '')''"

text \<open>\<open>v.k\<close> and \<open>v[k]\<close>: \<open>None\<close> is the TypeError of a read from \<open>undefined\<close> or
  \<open>null\<close>.\<close>

fun get_prop :: "jval \<Rightarrow> string \<Rightarrow> jval option" where
  "get_prop JUndef k = None"
| "get_prop JNull k = None"
| "get_prop (JObj ps) k = Some (case lookup_last ps k of Some v \<Rightarrow> v | None \<Rightarrow> JUndef)"
| "get_prop (JArr xs) k =
     Some (if k = ''length'' then JNum (num_of_int (int (length xs)))
           else case array_index k of
                  Some i \<Rightarrow> if i < length xs then xs ! i else JUndef
                | None \<Rightarrow> JUndef)"
| "get_prop (JStr s) k =
     Some (if k = ''length'' then JNum (num_of_int (int (length s)))
           else case array_index k of
                  Some i \<Rightarrow> if i < length s then JStr [s ! i] else JUndef
                | None \<Rightarrow> JUndef)"
| "get_prop _ k = Some JUndef"

text \<open>\<open>v?.k\<close>: \<open>undefined\<close> when \<open>v\<close> is \<open>undefined\<close> or \<open>null\<close>.\<close>

definition get_opt :: "jval \<Rightarrow> string \<Rightarrow> jval" where
  "get_opt v k = (case get_prop v k of Some w \<Rightarrow> w | None \<Rightarrow> JUndef)"

text \<open>A property read inside a \<open>try\<close> block: the TypeError becomes an exception.\<close>

definition read_prop :: "jval \<Rightarrow> string \<Rightarrow> exn + jval" where
  "read_prop v k = (case get_prop v k of Some w \<Rightarrow> Inr w | None \<Rightarrow> Inl (Thrown (read_error v k)))"

text \<open>The values \<open>JSON.parse\<close> produces: no \<open>undefined\<close>, only finite numbers.\<close>

fun is_json :: "jval \<Rightarrow> bool" where
  "is_json JUndef = False"
| "is_json (JNum n) = (case n of Fin _ _ \<Rightarrow> True | _ \<Rightarrow> False)"
| "is_json (JArr xs) = list_all is_json xs"
| "is_json (JObj ps) = list_all (\<lambda>(_, v). is_json v) ps"
| "is_json _ = True"

section \<open>Lemmas\<close>

lemma to_str_error:
  "to_str v = Inl e \<Longrightarrow> e = to_prim_error"
  "join_elems xs = Inl e \<Longrightarrow> e = to_prim_error"
  by (induction v and xs arbitrary: e and e rule: to_str_join_elems.induct)
     (auto split: if_splits sum.splits jval.splits)

lemma truthy_js_or [simp]: "js_or a b = (if truthy a then a else b)"
  by (simp add: js_or_def)

lemma get_opt_defined [simp]: "get_prop v k = Some w \<Longrightarrow> get_opt v k = w"
  by (simp add: get_opt_def)

lemma read_prop_Some [simp]: "get_prop v k = Some w \<Longrightarrow> read_prop v k = Inr w"
  by (simp add: read_prop_def)

lemma read_prop_obj: "read_prop (JObj ps) k = Inr (get_opt (JObj ps) k)"
  by (simp add: read_prop_def get_opt_def)

lemma get_prop_None_iff: "get_prop v k = None \<longleftrightarrow> v = JUndef \<or> v = JNull"
  by (cases v) auto

lemma get_prop_obj_key [simp]:
  "lookup_last ps k = Some v \<Longrightarrow> get_prop (JObj ps) k = Some v"
  by simp

lemma to_str_num_of_int [simp]: "\<bar>i\<bar> < 10 ^ 21 \<Longrightarrow> to_str (JNum (num_of_int i)) = Inr (int_str i)"
  by (simp add: num_to_string_of_int)

lemma truthy_num_of_int: "\<bar>i\<bar> < ovf_bound \<Longrightarrow> truthy (JNum (num_of_int i)) \<longleftrightarrow> i \<noteq> 0"
  by (simp add: num_truthy_of_int)

lemma strict_eq_zero_of_int: "strict_eq_zero (JNum (num_of_int i)) \<longleftrightarrow> i = 0"
proof (cases "i = 0")
  case True
  then show ?thesis by (simp add: num_of_int_zero)
next
  case False
  then show ?thesis using num_of_int_nonzero [OF False] by auto
qed

end
