(* ===== verification/Catalog.thy ===== *)
theory Catalog
  imports JsValue
begin

text \<open>
  The product catalog \<open>FLAVORS\<close> (\<open>src/server.js\<close>, lines 20--33) and the lookup
  \<open>FLAVORS[item.id]\<close> of the cart loop (line 162). \<open>FLAVORS\<close> is an object literal, so
  a key that is not one of its own twelve properties is looked up on
  \<open>Object.prototype\<close>: \<open>FLAVORS['constructor']\<close> is the function \<open>Object\<close>,
  \<open>FLAVORS['toString']\<close> a function named \<open>toString\<close>, \<open>FLAVORS['__proto__']\<close> the
  prototype object itself. All of these are truthy, so the cart loop takes them for
  flavors. The lookup below returns which of the three kinds of value the key reaches.
\<close>

record flavor =
  fname :: string
  price :: string

definition price_15 :: string where
  "price_15 = ''$15.00''"

definition FLAVORS :: "(string \<times> flavor) list" where
  "FLAVORS = [
    (''granola'', \<lparr>fname = ''Granola Cereal Fox-Nut'', price = price_15\<rparr>),
    (''jamaican'', \<lparr>fname = ''Jamaican Jungle Flame'', price = price_15\<rparr>),
    (''cafe'', \<lparr>fname = ''Caf'' @ CHR 0xE9 # '' Con Crunch'', price = price_15\<rparr>),
    (''zaatar'', \<lparr>fname = ''Za'' @ CHR 0x27 # ''atar'', price = price_15\<rparr>),
    (''pumpkin'', \<lparr>fname = ''Candied Pumpkin'', price = price_15\<rparr>),
    (''orange'', \<lparr>fname = ''Orange Maple'', price = price_15\<rparr>),
    (''pearlz'', \<lparr>fname = ''Pearlz'', price = price_15\<rparr>),
    (''tomatoeouy'', \<lparr>fname = ''Tomatoe'' @ CHR 0x27 # ''ouy'', price = price_15\<rparr>),
    (''evergreenglow'', \<lparr>fname = ''Evergreen Glow'', price = price_15\<rparr>),
    (''totallynutz'', \<lparr>fname = ''Totally Nutz'', price = price_15\<rparr>),
    (''barbecue'', \<lparr>fname = ''Barbecue'', price = price_15\<rparr>),
    (''bagel'', \<lparr>fname = ''Everything Bagel'', price = price_15\<rparr>)]"

text \<open>What \<open>FLAVORS[key]\<close> evaluates to when it is not \<open>undefined\<close>: an own flavor,
  an inherited method (a function, with its \<open>name\<close>), or the inherited accessor
  \<open>__proto__\<close>, which yields \<open>Object.prototype\<close>.\<close>

datatype catalog_entry = Own flavor | ProtoFun string | ProtoObj

text \<open>The properties of \<open>Object.prototype\<close> (ECMA-262, 20.1.3, and Annex B.2.2).\<close>

definition object_prototype :: "(string \<times> catalog_entry) list" where
  "object_prototype = [
    (''constructor'', ProtoFun ''Object''),
    (''__defineGetter__'', ProtoFun ''__defineGetter__''),
    (''__defineSetter__'', ProtoFun ''__defineSetter__''),
    (''hasOwnProperty'', ProtoFun ''hasOwnProperty''),
    (''__lookupGetter__'', ProtoFun ''__lookupGetter__''),
    (''__lookupSetter__'', ProtoFun ''__lookupSetter__''),
    (''isPrototypeOf'', ProtoFun ''isPrototypeOf''),
    (''propertyIsEnumerable'', ProtoFun ''propertyIsEnumerable''),
    (''toString'', ProtoFun ''toString''),
    (''valueOf'', ProtoFun ''valueOf''),
    (''__proto__'', ProtoObj),
    (''toLocaleString'', ProtoFun ''toLocaleString'')]"

definition flavor_lookup :: "string \<Rightarrow> catalog_entry option" where
  "flavor_lookup k =
     (case map_of FLAVORS k of Some f \<Rightarrow> Some (Own f) | None \<Rightarrow> map_of object_prototype k)"

text \<open>\<open>s.replace(c, '')\<close> with a one-character pattern: the first occurrence goes.\<close>

definition replace_first :: "char \<Rightarrow> string \<Rightarrow> string" where
  "replace_first c s = takeWhile (\<lambda>x. x \<noteq> c) s @ drop 1 (dropWhile (\<lambda>x. x \<noteq> c) s)"

text \<open>\<open>flavor.price?.replace('$', '') || '15.00'\<close> (line 164): an inherited member has
  no \<open>price\<close>, and an empty string is falsy; both give the default.\<close>

fun entry_price_str :: "catalog_entry \<Rightarrow> string" where
  "entry_price_str (Own f) = (let p = replace_first CHR ''$'' (price f) in if p = [] then ''15.00'' else p)"
| "entry_price_str _ = ''15.00''"

text \<open>\<open>parseFloat(...)\<close> of that string.\<close>

definition entry_price :: "catalog_entry \<Rightarrow> jsnum" where
  "entry_price h = parse_float (entry_price_str h)"

text \<open>\<open>flavor.name\<close>: a function's name; \<open>Object.prototype\<close> has no \<open>name\<close>.\<close>

fun entry_name :: "catalog_entry \<Rightarrow> jval" where
  "entry_name (Own f) = JStr (fname f)"
| "entry_name (ProtoFun n) = JStr n"
| "entry_name ProtoObj = JUndef"

section \<open>Lemmas\<close>

lemma parse_float_15: "parse_float ''15.00'' = num_of_int 15"
  by code_simp

lemma entry_price_str_price_15: "entry_price_str (Own \<lparr>fname = n, price = price_15\<rparr>) = ''15.00''"
  by (simp add: price_15_def replace_first_def)

lemma FLAVORS_prices: "(k, f) \<in> set FLAVORS \<Longrightarrow> price f = price_15"
  by (auto simp: FLAVORS_def)

lemma flavor_lookup_own: "map_of FLAVORS k = Some f \<Longrightarrow> flavor_lookup k = Some (Own f)"
  by (simp add: flavor_lookup_def)

lemma flavor_lookup_price: "flavor_lookup k = Some h \<Longrightarrow> entry_price h = num_of_int 15"
proof -
  assume l: "flavor_lookup k = Some h"
  show ?thesis
  proof (cases "map_of FLAVORS k")
    case None
    with l have "h \<noteq> Own f" for f
      by (auto simp: flavor_lookup_def object_prototype_def split: if_splits)
    then have "entry_price_str h = ''15.00''" by (cases h) auto
    then show ?thesis by (simp add: entry_price_def parse_float_15)
  next
    case (Some f)
    with l have h: "h = Own f" by (simp add: flavor_lookup_def)
    from Some have "price f = price_15" by (auto dest: map_of_SomeD FLAVORS_prices)
    then have "entry_price_str h = ''15.00''"
      using h entry_price_str_price_15 [of "fname f"] by simp
    then show ?thesis by (simp add: entry_price_def parse_float_15)
  qed
qed

lemma catalog_key_lookup:
  assumes "k \<in> fst ` set FLAVORS"
  shows "flavor_lookup k = Some (Own (the (map_of FLAVORS k)))"
proof -
  from assms obtain f where "map_of FLAVORS k = Some f"
    by (metis map_of_eq_None_iff not_None_eq)
  then show ?thesis by (simp add: flavor_lookup_own)
qed

text \<open>No key of the catalog is a member of \<open>Object.prototype\<close>, so the inherited
  members are reached exactly by the keys the catalog lacks.\<close>

lemma prototype_keys_not_flavors: "list_all (\<lambda>k. k \<notin> set (map fst FLAVORS)) (map fst object_prototype)"
  by code_simp

lemma flavor_lookup_prototype:
  assumes "k \<in> fst ` set object_prototype"
  shows "flavor_lookup k = Some (the (map_of object_prototype k))"
proof -
  have "map_of FLAVORS k = None"
    using assms prototype_keys_not_flavors by (auto simp: list_all_iff map_of_eq_None_iff)
  moreover obtain h where "map_of object_prototype k = Some h"
    using assms by (metis map_of_eq_None_iff not_None_eq)
  ultimately show ?thesis by (simp add: flavor_lookup_def)
qed

end
