(* ===== verification/Cart.thy ===== *)
theory Cart
  imports Catalog
begin

text \<open>
  The cart-to-order translation of the \<open>POST /api/orders\<close> handler
  (\<open>src/server.js\<close>, lines 146--205): the emptiness guard, the \<open>cart.forEach\<close> loop
  that prices each resolvable line and skips the others, and the order payload built
  from the total and the line items. The loop is a structural recursion over the cart
  with the running \<open>total\<close> and \<open>items\<close> as accumulators; a TypeError thrown inside the
  callback ends it, as it ends \<open>forEach\<close>.
\<close>

text \<open>\<open>!cart || cart.length === 0\<close> (line 148). When \<open>cart\<close> is truthy it is neither
  \<open>undefined\<close> nor \<open>null\<close>, so reading \<open>length\<close> cannot throw.\<close>

definition cart_rejected :: "jval \<Rightarrow> bool" where
  "cart_rejected cart = (\<not> truthy cart \<or> strict_eq_zero (get_opt cart ''length''))"

text \<open>\<open>parseInt(item.quantity) || 1\<close> (line 165): \<open>parseInt\<close> converts its argument
  with ToString, which throws for an object with an own \<open>toString\<close>.\<close>

definition line_quantity :: "jval \<Rightarrow> exn + jsnum" where
  "line_quantity q =
     (case to_str q of
        Inl e \<Rightarrow> Inl e
      | Inr s \<Rightarrow> (let n = parse_int s in Inr (if num_truthy n then n else num_of_int 1)))"

definition usd :: "string \<Rightarrow> jval" where
  "usd v = JObj [(''currency_code'', JStr ''USD''), (''value'', JStr v)]"

text \<open>The object pushed onto \<open>items\<close> (lines 168--175).\<close>

definition line_item :: "catalog_entry \<Rightarrow> jsnum \<Rightarrow> jsnum \<Rightarrow> jval" where
  "line_item h q p =
     JObj [(''name'', entry_name h), (''quantity'', JStr (num_to_string q)),
           (''unit_amount'', usd (to_fixed2 p))]"

text \<open>The callback of \<open>cart.forEach\<close> (lines 160--179), over the remaining lines.
  \<open>FLAVORS[item.id]\<close> converts the identifier to a property key with ToString first.\<close>

fun price_lines :: "jval list \<Rightarrow> jsnum \<Rightarrow> jval list \<Rightarrow> exn + (jsnum \<times> jval list)" where
  "price_lines [] tot items = Inr (tot, items)"
| "price_lines (it # rest) tot items =
     (case read_prop it ''id'' of
        Inl e \<Rightarrow> Inl e
      | Inr idv \<Rightarrow>
          (case to_str idv of
             Inl e \<Rightarrow> Inl e
           | Inr key \<Rightarrow>
               (case flavor_lookup key of
                  None \<Rightarrow> price_lines rest tot items
                | Some h \<Rightarrow>
                    (case read_prop it ''quantity'' of
                       Inl e \<Rightarrow> Inl e
                     | Inr qv \<Rightarrow>
                         (case line_quantity qv of
                            Inl e \<Rightarrow> Inl e
                          | Inr q \<Rightarrow>
                              (let p = entry_price h
                               in price_lines rest (num_add tot (num_mul p q)) (items @ [line_item h q p])))))))"

text \<open>\<open>let total = 0; const items = []; cart.forEach(...)\<close>: only an array has a
  \<open>forEach\<close> method; on any other truthy cart the call throws.\<close>

definition cart_lines :: "jval \<Rightarrow> exn + (jsnum \<times> jval list)" where
  "cart_lines cart =
     (case cart of
        JArr xs \<Rightarrow> price_lines xs (Fin 0 0) []
      | _ \<Rightarrow> Inl (Thrown ''cart.forEach is not a function''))"

text \<open>The order payload (lines 190--205).\<close>

definition order_payload :: "jsnum \<Rightarrow> jval list \<Rightarrow> jval" where
  "order_payload tot items =
     JObj [(''intent'', JStr ''CAPTURE''),
           (''purchase_units'', JArr [JObj [
              (''amount'', JObj [(''currency_code'', JStr ''USD''), (''value'', JStr (to_fixed2 tot)),
                                 (''breakdown'', JObj [(''item_total'', usd (to_fixed2 tot))])]),
              (''items'', JArr items)]])]"

text \<open>Carts of the shape the storefront sends, \<open>[{id, quantity}, ...]\<close> with numeric
  quantities, and the line item the loop builds for a catalog key; and the lines the
  loop skips, whose \<open>id\<close> reaches nothing in \<open>FLAVORS\<close>.\<close>

definition cart_json :: "(string \<times> int) list \<Rightarrow> jval" where
  "cart_json ls = JArr (map (\<lambda>(k, q). JObj [(''id'', JStr k), (''quantity'', JNum (num_of_int q))]) ls)"

definition catalog_line :: "string \<times> int \<Rightarrow> jval" where
  "catalog_line kq =
     line_item (Own (the (map_of FLAVORS (fst kq)))) (num_of_int (snd kq)) (num_of_int 15)"

definition line_unresolved :: "jval \<Rightarrow> bool" where
  "line_unresolved it =
     (case get_prop it ''id'' of
        Some k \<Rightarrow> (case to_str k of Inr key \<Rightarrow> flavor_lookup key = None | Inl _ \<Rightarrow> False)
      | None \<Rightarrow> False)"

section \<open>Lemmas\<close>

lemma line_quantity_int:
  assumes "q \<noteq> 0" "\<bar>q\<bar> < 10 ^ 21"
  shows "line_quantity (JNum (num_of_int q)) = Inr (num_of_int q)"
proof -
  have r: "\<bar>q\<bar> < ovf_bound" using assms ten21_less_ovf_bound by simp
  have "to_str (JNum (num_of_int q)) = Inr (int_str q)" by (rule to_str_num_of_int [OF assms(2)])
  then show ?thesis using assms num_truthy_of_int [OF r]
    by (simp add: line_quantity_def parse_int_int_str)
qed

lemma line_quantity_overflow:
  assumes "ovf_bound \<le> \<bar>q\<bar>"
  shows "line_quantity (JStr (int_str q)) = Inr (Inf (0 < q))"
  using assms by (simp add: line_quantity_def parse_int_int_str num_of_int_overflow)

lemma read_line_fields:
  "read_prop (JObj [(''id'', v), (''quantity'', w)]) ''id'' = Inr v"
  "read_prop (JObj [(''id'', v), (''quantity'', w)]) ''quantity'' = Inr w"
  by (simp_all add: read_prop_def)

lemma quantities_nonneg:
  "\<forall>(k, q) \<in> set ls. P k \<and> 0 < q \<Longrightarrow> 0 \<le> sum_list (map snd (ls :: ('k \<times> int) list))"
  by (induction ls) auto

lemma abs_quantities:
  "\<forall>(k, q) \<in> set ls. P k \<and> 0 < q \<Longrightarrow> sum_list (map (\<lambda>kq. \<bar>snd kq\<bar>) (ls :: ('k \<times> int) list)) = sum_list (map snd ls)"
  by (induction ls) auto

text \<open>One iteration of the loop on a line whose key resolves and whose quantity is a
  nonzero integer, while the running total and the line's amount stay below \<open>2^53\<close>:
  the total grows by exactly 15 times the quantity.\<close>

lemma price_line_step:
  assumes "flavor_lookup k = Some h" "q \<noteq> 0" "\<bar>a\<bar> + 15 * \<bar>q\<bar> < 2 ^ 53"
  shows "price_lines (JObj [(''id'', JStr k), (''quantity'', JNum (num_of_int q))] # rest) (num_of_int a) items =
         price_lines rest (num_of_int (a + 15 * q)) (items @ [line_item h (num_of_int q) (num_of_int 15)])"
proof -
  have "\<bar>15::int\<bar> < 2 ^ 53" "\<bar>q\<bar> < 2 ^ 53" "\<bar>a\<bar> < 2 ^ 53" "\<bar>15 * q\<bar> < 2 ^ 53"
    using assms(3) by (simp_all add: abs_mult)
  then have r15: "\<bar>15::int\<bar> < ovf_bound" and rq: "\<bar>q\<bar> < ovf_bound" and ra: "\<bar>a\<bar> < ovf_bound"
    and r15q: "\<bar>15 * q\<bar> < ovf_bound" and qb: "\<bar>q\<bar> < 10 ^ 21"
    by (simp_all only: bound53_ovf bound53_1e21)
  have step: "num_add (num_of_int a) (num_mul (num_of_int 15) (num_of_int q)) = num_of_int (a + 15 * q)"
    using num_mul_of_int [OF r15 rq] num_add_of_int [OF ra r15q] by simp
  show ?thesis
    using assms(1) step flavor_lookup_price [OF assms(1)] line_quantity_int [OF assms(2) qb]
    by (simp add: read_line_fields)
qed

text \<open>The loop over a cart of catalog lines with nonzero quantities, from any running
  total, as long as the total and the amounts stay below \<open>2^53\<close>.\<close>

lemma price_lines_catalog:
  assumes "\<forall>(k, q) \<in> set (ls :: (string \<times> int) list). k \<in> fst ` set FLAVORS \<and> q \<noteq> 0"
      and "\<bar>a\<bar> + 15 * sum_list (map (\<lambda>kq. \<bar>snd kq\<bar>) ls) < 2 ^ 53"
  shows "price_lines (map (\<lambda>(k, q). JObj [(''id'', JStr k), (''quantity'', JNum (num_of_int q))]) ls)
           (num_of_int a) items =
         Inr (num_of_int (a + 15 * sum_list (map snd ls)), items @ map catalog_line ls)"
  using assms
proof (induction ls arbitrary: a items)
  case Nil
  then show ?case by simp
next
  case (Cons kq ls)
  obtain k q where kq: "kq = (k, q)" by fastforce
  have key: "k \<in> fst ` set FLAVORS" and q: "q \<noteq> 0" using Cons.prems(1) kq by auto
  have rest: "0 \<le> sum_list (map (\<lambda>kq. \<bar>snd kq\<bar>) ls)" by (induction ls) auto
  have b: "\<bar>a\<bar> + 15 * \<bar>q\<bar> < 2 ^ 53" using Cons.prems(2) rest kq by simp
  have "\<bar>a + 15 * q\<bar> + 15 * sum_list (map (\<lambda>kq. \<bar>snd kq\<bar>) ls) < 2 ^ 53"
    using Cons.prems(2) kq abs_triangle_ineq [of a "15 * q"] by (simp add: abs_mult)
  then have ih: "price_lines (map (\<lambda>(k, q). JObj [(''id'', JStr k), (''quantity'', JNum (num_of_int q))]) ls)
              (num_of_int (a + 15 * q)) (items @ [catalog_line (k, q)]) =
            Inr (num_of_int (a + 15 * q + 15 * sum_list (map snd ls)),
                 (items @ [catalog_line (k, q)]) @ map catalog_line ls)"
    using Cons.prems(1) Cons.IH [of "a + 15 * q"] by simp
  show ?case
    using kq ih price_line_step [OF catalog_key_lookup [OF key] q b]
    by (simp add: catalog_line_def algebra_simps)
qed

lemma cart_json_lines:
  assumes "\<forall>(k, q) \<in> set ls. k \<in> fst ` set FLAVORS \<and> 0 < q"
      and "15 * sum_list (map snd ls) < 2 ^ 53"
  shows "cart_lines (cart_json ls) = Inr (num_of_int (15 * sum_list (map snd ls)), map catalog_line ls)"
proof -
  have z: "Fin 0 0 = num_of_int 0" by (simp add: num_of_int_zero)
  have "\<forall>(k, q) \<in> set ls. k \<in> fst ` set FLAVORS \<and> q \<noteq> 0" using assms(1) by auto
  then show ?thesis
    using price_lines_catalog [of ls 0 "[]"] assms abs_quantities [OF assms(1)]
    by (simp add: cart_lines_def cart_json_def z)
qed

lemma cart_json_total_bound:
  assumes "\<forall>(k, q) \<in> set (ls :: (string \<times> int) list). k \<in> fst ` set FLAVORS \<and> 0 < q"
      and "15 * sum_list (map snd ls) < 2 ^ 53"
  shows "\<bar>15 * sum_list (map snd ls)\<bar> < 10 ^ 21"
proof -
  have "0 \<le> sum_list (map snd ls)" using assms(1) by (rule quantities_nonneg)
  then show ?thesis using assms(2) bound53_1e21 by simp
qed

lemma cart_rejected_JArr: "cart_rejected (JArr xs) \<longleftrightarrow> xs = []"
  by (simp add: cart_rejected_def get_opt_def strict_eq_zero_of_int)

lemma quantities_pos:
  "\<forall>(k, q) \<in> set ls. P k \<and> 0 < q \<Longrightarrow> ls \<noteq> [] \<Longrightarrow> 0 < sum_list (map snd (ls :: ('k \<times> int) list))"
proof (induction ls)
  case Nil
  then show ?case by simp
next
  case (Cons a ls)
  then show ?case by (cases ls) (auto simp: add_pos_pos)
qed

lemma cart_json_priced:
  assumes "\<forall>(k, q) \<in> set ls. k \<in> fst ` set FLAVORS \<and> 0 < q" and "ls \<noteq> []"
      and "15 * sum_list (map snd ls) < 2 ^ 53"
  shows "\<not> cart_rejected (cart_json ls)"
    and "cart_lines (cart_json ls) = Inr (num_of_int (15 * sum_list (map snd ls)), map catalog_line ls)"
    and "\<not> num_le_zero (num_of_int (15 * sum_list (map snd ls)))"
proof -
  show "\<not> cart_rejected (cart_json ls)" using assms(2) by (simp add: cart_json_def cart_rejected_JArr)
  show "cart_lines (cart_json ls) = Inr (num_of_int (15 * sum_list (map snd ls)), map catalog_line ls)"
    using assms(1,3) by (rule cart_json_lines)
  have p: "0 < sum_list (map snd ls)" using assms(1,2) by (rule quantities_pos)
  have "\<bar>15 * sum_list (map snd ls)\<bar> < 2 ^ 53" using assms(3) p by simp
  then have "\<bar>15 * sum_list (map snd ls)\<bar> < ovf_bound" by (rule bound53_ovf)
  then show "\<not> num_le_zero (num_of_int (15 * sum_list (map snd ls)))" using p by (simp add: num_le_zero_of_int)
qed

lemma price_lines_unresolved: "list_all line_unresolved xs \<Longrightarrow> price_lines xs t its = Inr (t, its)"
  by (induction xs arbitrary: t its) (auto simp: line_unresolved_def read_prop_def split: option.splits sum.splits)

text \<open>C1: for a cart whose lines name catalog flavors with positive quantities (and
  whose total stays below \<open>2^53\<close>, where the engine's doubles are exact), the loop
  computes the total as the exact sum of price times quantity over the lines, builds
  one line item per cart line in order, and the order's amount string is that total
  with two decimals.\<close>

theorem cart_lines_total:
  assumes "\<forall>(k, q) \<in> set ls. k \<in> fst ` set FLAVORS \<and> 0 < q"
      and "15 * sum_list (map snd ls) < 2 ^ 53"
  shows "cart_lines (cart_json ls) = Inr (num_of_int (15 * sum_list (map snd ls)), map catalog_line ls)
         \<and> to_fixed2 (num_of_int (15 * sum_list (map snd ls))) = int_str (15 * sum_list (map snd ls)) @ ''.00''"
  using cart_json_lines [OF assms] cart_json_total_bound [OF assms] by (simp add: to_fixed2_of_int)

theorem cart_lines_total_witness:
  "cart_lines (cart_json [(''granola'', 2)]) = Inr (num_of_int 30, [catalog_line (''granola'', 2)])
   \<and> to_fixed2 (num_of_int 30) = ''30.00''"
  using cart_lines_total [of "[(''granola'', 2)]"] by (simp add: FLAVORS_def int_str_def nat_str.simps)

text \<open>C20: the loop does not check the sign of a quantity: for catalog lines with any
  nonzero integer quantities, negative ones included, the total is 15 times their sum and
  every line, with its negative quantity, becomes a line item.\<close>

theorem cart_lines_signed_total:
  assumes "\<forall>(k, q) \<in> set ls. k \<in> fst ` set FLAVORS \<and> q \<noteq> 0"
      and "15 * sum_list (map (\<lambda>kq. \<bar>snd kq\<bar>) ls) < 2 ^ 53"
  shows "cart_lines (cart_json ls) = Inr (num_of_int (15 * sum_list (map snd ls)), map catalog_line ls)"
proof -
  have z: "Fin 0 0 = num_of_int 0" by (simp add: num_of_int_zero)
  show ?thesis using price_lines_catalog [of ls 0 "[]"] assms by (simp add: cart_lines_def cart_json_def z)
qed

theorem cart_lines_signed_total_witness:
  "cart_lines (cart_json [(''granola'', 2), (''jamaican'', -1)]) =
   Inr (num_of_int 15, [catalog_line (''granola'', 2), catalog_line (''jamaican'', -1)])"
  using cart_lines_signed_total [of "[(''granola'', 2), (''jamaican'', -1)]"] by (simp add: FLAVORS_def)

text \<open>C21: a cart line whose identifier names a member of \<open>Object.prototype\<close>
  (\<open>constructor\<close>, \<open>toString\<close>, \<open>__proto__\<close>, ...) is not skipped as unresolved:
  it is priced at 15.00 and becomes a line item named after the inherited member.\<close>

theorem prototype_key_priced:
  assumes "k \<in> fst ` set object_prototype" "q \<noteq> 0" "15 * \<bar>q\<bar> < 2 ^ 53"
  shows "cart_lines (cart_json [(k, q)]) =
           Inr (num_of_int (15 * q), [line_item (the (map_of object_prototype k)) (num_of_int q) (num_of_int 15)])"
proof -
  note l = flavor_lookup_prototype [OF assms(1)]
  have z: "Fin 0 0 = num_of_int 0" by (simp add: num_of_int_zero)
  show ?thesis using price_line_step [OF l assms(2), of 0] assms(3) by (simp add: cart_lines_def cart_json_def z)
qed

theorem prototype_key_priced_witness:
  "cart_lines (cart_json [(''constructor'', 1)]) =
   Inr (num_of_int 15, [line_item (ProtoFun ''Object'') (num_of_int 1) (num_of_int 15)])"
  using prototype_key_priced [of "''constructor''" 1] by (simp add: object_prototype_def)

end
