(* ===== verification/Http.thy ===== *)
theory Http
  imports JsValue
begin

text \<open>
  The interface between the relay and the two processors. Every outbound call the
  handlers of \<open>src/server.js\<close> make is a value of \<open>call\<close>: an axios POST to the
  wallet processor (lines 50, 83, 216, 270, 306, 342) or a card-processor SDK call
  (lines 376 and 410). The processors are the environment \<open>net\<close>: given the calls made
  so far and the next one, it answers with the outcome of that call. Its answer may
  depend on the history, so a processor that keeps orders between requests is an
  instance. A handler runs in \<open>io\<close>: it reads the environment, appends each call it
  makes to the trace of calls, and either returns a value or throws an exception. The
  trace makes "no network call was made" and "the token call came first" statements
  about values.
\<close>

record http_req =
  req_url :: string
  req_headers :: "header list"
  req_body :: jval

text \<open>A card-processor call carries the secret key the SDK client was built with
  (\<open>stripe(STRIPE_SECRET_KEY)\<close>, line 37) and its argument.\<close>

datatype call =
    PayPalPost http_req
  | StripeCreate string jval
  | StripeRetrieve string jval

text \<open>What an outbound call produces: axios resolves with the response data on a 2xx
  status and rejects with an error carrying \<open>response\<close> (status, data, message)
  or only \<open>request\<close> (no response); the SDK rejects with an error message.\<close>

datatype outcome =
    Ok jval
  | ErrResp nat jval string
  | NoResp string
  | SdkError string

type_synonym net = "call list \<Rightarrow> call \<Rightarrow> outcome"

type_synonym 'a io = "net \<Rightarrow> call list \<Rightarrow> (exn + 'a) \<times> call list"

section \<open>The io combinators\<close>

definition io_return :: "'a \<Rightarrow> 'a io" where
  "io_return a = (\<lambda>net tr. (Inr a, tr))"

definition io_throw :: "exn \<Rightarrow> 'a io" where
  "io_throw e = (\<lambda>net tr. (Inl e, tr))"

definition io_lift :: "exn + 'a \<Rightarrow> 'a io" where
  "io_lift r = (\<lambda>net tr. (r, tr))"

definition io_bind :: "'a io \<Rightarrow> ('a \<Rightarrow> 'b io) \<Rightarrow> 'b io" where
  "io_bind m f = (\<lambda>net tr. case m net tr of (Inl e, tr') \<Rightarrow> (Inl e, tr') | (Inr a, tr') \<Rightarrow> f a net tr')"

text \<open>\<open>try { m } catch (error) { h(error) }\<close>.\<close>

definition io_catch :: "'a io \<Rightarrow> (exn \<Rightarrow> 'a io) \<Rightarrow> 'a io" where
  "io_catch m h = (\<lambda>net tr. case m net tr of (Inl e, tr') \<Rightarrow> h e net tr' | r \<Rightarrow> r)"

text \<open>\<open>await\<close> of one outbound call: it is appended to the trace whatever its outcome.\<close>

definition io_call :: "call \<Rightarrow> jval io" where
  "io_call c = (\<lambda>net tr.
     (case net tr c of
        Ok d \<Rightarrow> Inr d
      | ErrResp s d m \<Rightarrow> Inl (ErrResponse s d m)
      | NoResp m \<Rightarrow> Inl (ErrNoResponse m)
      | SdkError m \<Rightarrow> Inl (Thrown m), tr @ [c]))"

section \<open>Responses\<close>

text \<open>What \<open>res.status(s).json(b)\<close> sends; \<open>res.json(b)\<close> is status 200.\<close>

record response =
  rstatus :: nat
  rbody :: jval

definition json_resp :: "nat \<Rightarrow> jval \<Rightarrow> response" where
  "json_resp s b = \<lparr>rstatus = s, rbody = b\<rparr>"

text \<open>An Express handler: the body of its \<open>try\<close> block produces the response, its
  \<open>catch\<close> block turns any exception into one.\<close>

definition run_handler :: "response io \<Rightarrow> (exn \<Rightarrow> response) \<Rightarrow> net \<Rightarrow> call list \<Rightarrow> response \<times> call list" where
  "run_handler m h net tr = (case m net tr of (Inr r, tr') \<Rightarrow> (r, tr') | (Inl e, tr') \<Rightarrow> (h e, tr'))"

text \<open>\<open>error.message\<close>, and \<open>error.response?.data || error.message\<close>.\<close>

fun exn_message :: "exn \<Rightarrow> string" where
  "exn_message (Thrown m) = m"
| "exn_message (ErrResponse _ _ m) = m"
| "exn_message (ErrNoResponse m) = m"

fun data_or_message :: "exn \<Rightarrow> jval" where
  "data_or_message (ErrResponse _ d m) = js_or d (JStr m)"
| "data_or_message e = JStr (exn_message e)"

section \<open>Lemmas\<close>

lemma io_bind_return [simp]: "io_bind (io_return a) f = f a"
  by (simp add: io_bind_def io_return_def)

lemma io_bind_throw [simp]: "io_bind (io_throw e) f = io_throw e"
  by (simp add: io_bind_def io_throw_def)

lemma io_bind_lift_Inr [simp]: "io_bind (io_lift (Inr a)) f = f a"
  by (simp add: io_bind_def io_lift_def)

lemma io_bind_lift_Inl [simp]: "io_bind (io_lift (Inl e)) f = io_throw e"
  by (simp add: io_bind_def io_lift_def io_throw_def)

lemma io_bind_assoc: "io_bind (io_bind m f) g = io_bind m (\<lambda>a. io_bind (f a) g)"
  by (rule ext)+ (simp add: io_bind_def split: prod.splits sum.splits)

lemma io_catch_return [simp]: "io_catch (io_return a) h = io_return a"
  by (simp add: io_catch_def io_return_def)

lemma io_catch_throw [simp]: "io_catch (io_throw e) h = h e"
  by (simp add: io_catch_def io_throw_def)

lemma io_call_Ok: "net tr c = Ok d \<Longrightarrow> io_call c net tr = (Inr d, tr @ [c])"
  by (simp add: io_call_def)

lemma io_bind_call_Ok:
  "net tr c = Ok d \<Longrightarrow> io_bind (io_call c) f net tr = f d net (tr @ [c])"
  by (simp add: io_bind_def io_call_def)

lemma run_handler_return [simp]: "run_handler (io_return r) h net tr = (r, tr)"
  by (simp add: run_handler_def io_return_def)

lemma run_handler_throw [simp]: "run_handler (io_throw e) h net tr = (h e, tr)"
  by (simp add: run_handler_def io_throw_def)

text \<open>The definitions a proof unfolds to run a handler symbolically.\<close>

lemmas io_defs = io_return_def io_throw_def io_lift_def io_bind_def io_catch_def io_call_def run_handler_def

end
