(* ===== verification/Encoding.thy ===== *)
theory Encoding
  imports Prelude
begin

text \<open>
  \<open>Buffer.from(`${PAYPAL_CLIENT_ID}:${PAYPAL_SECRET}`).toString('base64')\<close>
  (\<open>src/server.js\<close>, line 46): the credential string is encoded to UTF-8 bytes, and the
  bytes to base64 (RFC 4648, with padding). A character of the model is a code unit
  below 256, so UTF-8 gives one byte below 128 and two bytes above. The decoders are
  the inverses used to state what the header carries: the encoding is injective, so the
  \<open>Authorization\<close> header determines the client id and secret.
\<close>

type_synonym byte = "8 word"

section \<open>UTF-8\<close>

definition utf8_char :: "char \<Rightarrow> byte list" where
  "utf8_char c =
     (let n = of_char c :: nat in
      if n < 128 then [word_of_nat n] else [word_of_nat (192 + n div 64), word_of_nat (128 + n mod 64)])"

definition utf8_encode :: "string \<Rightarrow> byte list" where
  "utf8_encode s = concat (map utf8_char s)"

fun utf8_decode :: "byte list \<Rightarrow> string option" where
  "utf8_decode [] = Some []"
| "utf8_decode (b # bs) =
     (if unat b < 128 then map_option (Cons (char_of (unat b))) (utf8_decode bs)
      else case bs of
             b2 # bs' \<Rightarrow>
               if 192 \<le> unat b \<and> unat b < 196 \<and> 128 \<le> unat b2 \<and> unat b2 < 192
               then map_option (Cons (char_of ((unat b - 192) * 64 + (unat b2 - 128)))) (utf8_decode bs')
               else None
           | [] \<Rightarrow> None)"

section \<open>Base64\<close>

text \<open>The digit of a 6-bit value: \<open>A-Z\<close>, \<open>a-z\<close>, \<open>0-9\<close>, \<open>+\<close>, \<open>/\<close>.\<close>

definition b64_char :: "nat \<Rightarrow> char" where
  "b64_char n =
     (if n < 26 then char_of (65 + n)
      else if n < 52 then char_of (71 + n)
      else if n < 62 then char_of (n - 4)
      else if n = 62 then CHR ''+'' else CHR ''/'')"

definition b64_val :: "char \<Rightarrow> nat option" where
  "b64_val c =
     (let k = of_char c :: nat in
      if 65 \<le> k \<and> k < 91 then Some (k - 65)
      else if 97 \<le> k \<and> k < 123 then Some (k - 71)
      else if 48 \<le> k \<and> k < 58 then Some (k + 4)
      else if c = CHR ''+'' then Some 62
      else if c = CHR ''/'' then Some 63 else None)"

text \<open>Three bytes give four digits; a last group of one or two bytes is padded.\<close>

fun b64_encode :: "byte list \<Rightarrow> string" where
  "b64_encode (a # b # c # rest) =
     [b64_char (unat a div 4), b64_char (unat a mod 4 * 16 + unat b div 16),
      b64_char (unat b mod 16 * 4 + unat c div 64), b64_char (unat c mod 64)] @ b64_encode rest"
| "b64_encode [a, b] =
     [b64_char (unat a div 4), b64_char (unat a mod 4 * 16 + unat b div 16),
      b64_char (unat b mod 16 * 4), CHR ''='']"
| "b64_encode [a] = [b64_char (unat a div 4), b64_char (unat a mod 4 * 16), CHR ''='', CHR ''='']"
| "b64_encode [] = []"

text \<open>The three bytes four digits carry.\<close>

definition b64_byte1 :: "nat \<Rightarrow> nat \<Rightarrow> byte" where
  "b64_byte1 x1 x2 = word_of_nat (x1 * 4 + x2 div 16)"

definition b64_byte2 :: "nat \<Rightarrow> nat \<Rightarrow> byte" where
  "b64_byte2 x2 x3 = word_of_nat (x2 mod 16 * 16 + x3 div 4)"

definition b64_byte3 :: "nat \<Rightarrow> nat \<Rightarrow> byte" where
  "b64_byte3 x3 x4 = word_of_nat (x3 mod 4 * 64 + x4)"

fun b64_decode :: "string \<Rightarrow> byte list option" where
  "b64_decode [] = Some []"
| "b64_decode [c1, c2, c3, c4] =
     (case (b64_val c1, b64_val c2) of
        (Some x1, Some x2) \<Rightarrow>
          if c3 = CHR ''='' \<and> c4 = CHR ''='' then Some [b64_byte1 x1 x2]
          else if c4 = CHR ''='' then
            (case b64_val c3 of
               Some x3 \<Rightarrow> Some [b64_byte1 x1 x2, b64_byte2 x2 x3]
             | None \<Rightarrow> None)
          else
            (case (b64_val c3, b64_val c4) of
               (Some x3, Some x4) \<Rightarrow> Some [b64_byte1 x1 x2, b64_byte2 x2 x3, b64_byte3 x3 x4]
             | _ \<Rightarrow> None)
      | _ \<Rightarrow> None)"
| "b64_decode (c1 # c2 # c3 # c4 # rest) =
     (case (b64_val c1, b64_val c2, b64_val c3, b64_val c4) of
        (Some x1, Some x2, Some x3, Some x4) \<Rightarrow>
          map_option (\<lambda>bs. [b64_byte1 x1 x2, b64_byte2 x2 x3, b64_byte3 x3 x4] @ bs) (b64_decode rest)
      | _ \<Rightarrow> None)"
| "b64_decode _ = None"

text \<open>The credentials as \<open>Buffer.from(s).toString('base64')\<close> encodes them.\<close>

definition base64_utf8 :: "string \<Rightarrow> string" where
  "base64_utf8 s = b64_encode (utf8_encode s)"

text \<open>How the processor reads a \<open>Basic\<close> authorisation header: the credentials
  after the scheme, base64- then UTF-8-decoded.\<close>

definition basic_decode :: "string \<Rightarrow> string option" where
  "basic_decode h =
     (if take 6 h = ''Basic '' then Option.bind (b64_decode (drop 6 h)) utf8_decode else None)"

section \<open>Lemmas\<close>

lemma unat_byte_less: "unat (a :: byte) < 256"
  using unsigned_less [of a] by simp
lemma b64_val_char: "n < 64 \<Longrightarrow> b64_val (b64_char n) = Some n"
  by (auto simp: b64_char_def b64_val_def Let_def)

lemma b64_char_not_pad: "n < 64 \<Longrightarrow> b64_char n \<noteq> CHR ''=''"
proof
  assume "n < 64" "b64_char n = CHR ''=''"
  then have "b64_val (CHR ''='') = Some n" using b64_val_char by metis
  then show False by (simp add: b64_val_def)
qed

lemma b64_group3:
  fixes a b c :: byte
  shows "b64_byte1 (unat a div 4) (unat a mod 4 * 16 + unat b div 16) = a
       \<and> b64_byte2 (unat a mod 4 * 16 + unat b div 16) (unat b mod 16 * 4 + unat c div 64) = b
       \<and> b64_byte3 (unat b mod 16 * 4 + unat c div 64) (unat c mod 64) = c"
proof -
  have "unat b div 16 < 16" "unat c div 64 < 4" using unat_byte_less [of b] unat_byte_less [of c] by simp_all
  then show ?thesis by (simp add: b64_byte1_def b64_byte2_def b64_byte3_def div_mult_mod_eq)
qed

lemma b64_group2:
  fixes a b :: byte
  shows "b64_byte1 (unat a div 4) (unat a mod 4 * 16 + unat b div 16) = a
       \<and> b64_byte2 (unat a mod 4 * 16 + unat b div 16) (unat b mod 16 * 4) = b"
  using b64_group3 [of a b 0] by simp

lemma b64_group1:
  fixes a :: byte
  shows "b64_byte1 (unat a div 4) (unat a mod 4 * 16) = a"
  using b64_group3 [of a 0 0] by simp

lemma b64_digits_lt:
  fixes a b c :: byte
  shows "unat a div 4 < 64 \<and> unat a mod 4 * 16 + unat b div 16 < 64 \<and> unat b mod 16 * 4 + unat c div 64 < 64
    \<and> unat c mod 64 < 64 \<and> unat a mod 4 * 16 < 64 \<and> unat b mod 16 * 4 < 64"
  using unat_byte_less [of a] unat_byte_less [of b] unat_byte_less [of c] by linarith

lemma b64_decode_encode: "b64_decode (b64_encode bs) = Some bs"
proof (induction bs rule: b64_encode.induct)
  case (1 a b c rest)
  note lt = b64_digits_lt [of a b c]
  show ?case
  proof (cases rest)
    case Nil
    then show ?thesis using lt by (simp add: b64_val_char b64_char_not_pad b64_group3)
  next
    case (Cons r rs)
    then obtain c1 c2 c3 c4 t where e: "b64_encode rest = c1 # c2 # c3 # c4 # t"
      by (cases rule: b64_encode.cases [of rest]) auto
    then show ?thesis using 1 lt by (simp add: b64_val_char b64_group3)
  qed
next
  case (2 a b)
  note lt = b64_digits_lt [of a b 0]
  then show ?case by (simp add: b64_val_char b64_char_not_pad b64_group2)
next
  case (3 a)
  note lt = b64_digits_lt [of a 0 0]
  then show ?case by (simp add: b64_val_char b64_char_not_pad b64_group1)
qed simp

lemma utf8_decode_char: "utf8_decode (utf8_char c @ bs) = map_option (Cons c) (utf8_decode bs)"
proof -
  have n: "of_char c < (256::nat)" by (rule nat_of_char_less_256)
  show ?thesis
  proof (cases "of_char c < (128::nat)")
    case True
    then show ?thesis using n by (simp add: utf8_char_def unat_of_nat)
  next
    case False
    have d: "2 \<le> of_char c div (64::nat)" "of_char c div (64::nat) < 4" using False n by linarith+
    define b1 :: byte where "b1 = word_of_nat (192 + of_char c div 64)"
    define b2 :: byte where "b2 = word_of_nat (128 + of_char c mod 64)"
    have u1: "unat b1 = 192 + of_char c div 64" unfolding b1_def using d by (simp only: unat_of_nat) simp
    have u2: "unat b2 = 128 + of_char c mod 64" unfolding b2_def by (simp only: unat_of_nat) simp
    have e: "utf8_char c = [b1, b2]" using False by (simp add: utf8_char_def b1_def b2_def Let_def)
    have "(unat b1 - 192) * 64 + (unat b2 - 128) = (of_char c :: nat)" using u1 u2 by simp
    then show ?thesis using e u1 u2 d by simp
  qed
qed

lemma utf8_decode_encode: "utf8_decode (utf8_encode s) = Some s"
  by (induction s) (simp_all add: utf8_encode_def utf8_decode_char)

text \<open>The processor recovers exactly the encoded credentials from the header.\<close>

lemma basic_decode_base64: "basic_decode (''Basic '' @ base64_utf8 s) = Some s"
  by (simp add: basic_decode_def base64_utf8_def b64_decode_encode utf8_decode_encode)

end
