(* ===== verification/PayPal.thy ===== *)
theory PayPal
  imports Cart Http Encoding
begin

text \<open>
  The wallet-processor side of the relay (\<open>src/server.js\<close>, lines 8--17 and 39--361):
  the configuration read from the environment, the two token helpers, and the five
  wallet endpoints. Each endpoint is \<open>run_handler\<close> of its \<open>try\<close> block and its
  \<open>catch\<close> block; the secret guard and the early \<open>return res.status(...)\<close> are the
  \<open>if\<close> branches that return a response without a call. A handler has type
  \<open>net \<Rightarrow> call list \<Rightarrow> response \<times> call list\<close>: it is run against a processor and
  the calls made so far, and returns the response and the extended trace.
\<close>

section \<open>Configuration\<close>

record config =
  paypal_client_id :: string
  paypal_secret :: "string option"
  paypal_base_url :: string
  stripe_secret_key :: string
  listen_port :: string

text \<open>\<open>process.env.X || default\<close>: an unset or empty variable takes the default.\<close>

definition env_or :: "string option \<Rightarrow> string \<Rightarrow> string" where
  "env_or v d = (case v of Some s \<Rightarrow> if s = [] then d else s | None \<Rightarrow> d)"

definition default_client_id :: string where
  "default_client_id =
     ''AXAzi9txkuDcg3jPwu8ooaMCG0PWjAy01RAq9_BPznGD4hIdLTqbUJC1djj95cb8m8OVFmTymJaIqc73''"

definition load_config :: "(string \<Rightarrow> string option) \<Rightarrow> config" where
  "load_config env =
     \<lparr>paypal_client_id = env_or (env ''PAYPAL_CLIENT_ID'') default_client_id,
      paypal_secret = env ''PAYPAL_SECRET'',
      paypal_base_url = env_or (env ''PAYPAL_BASE_URL'') ''https://api-m.sandbox.paypal.com'',
      stripe_secret_key = env_or (env ''STRIPE_SECRET_KEY'') ''YOUR_STRIPE_SECRET_KEY'',
      listen_port = env_or (env ''PORT'') ''3000''\<rparr>"

text \<open>\<open>PAYPAL_SECRET\<close> is truthy: set and not empty.\<close>

definition secret_set :: "config \<Rightarrow> bool" where
  "secret_set cfg = (case paypal_secret cfg of Some s \<Rightarrow> s \<noteq> [] | None \<Rightarrow> False)"

text \<open>\<open>`${PAYPAL_SECRET}`\<close>.\<close>

definition secret_str :: "config \<Rightarrow> string" where
  "secret_str cfg = (case paypal_secret cfg of Some s \<Rightarrow> s | None \<Rightarrow> ''undefined'')"

text \<open>A deployment with only the secret set: every other variable takes its default.\<close>

definition sample_env :: "string \<Rightarrow> string option" where
  "sample_env k = (if k = ''PAYPAL_SECRET'' then Some ''sk-test'' else None)"

section \<open>Requests to the wallet processor\<close>

text \<open>The client-credential exchange (lines 46--59).\<close>

definition token_request :: "config \<Rightarrow> http_req" where
  "token_request cfg =
     \<lparr>req_url = paypal_base_url cfg @ ''/v1/oauth2/token'',
      req_headers = [(''Authorization'', ''Basic '' @ base64_utf8 (paypal_client_id cfg @ '':'' @ secret_str cfg)),
                     (''Content-Type'', ''application/x-www-form-urlencoded'')],
      req_body = JStr ''grant_type=client_credentials''\<rparr>"

text \<open>A JSON POST authorised by the access token (lines 83--92, 216--225, 270--279,
  306--315, 342--351). The header's template \<open>`Bearer ${accessToken}`\<close> is evaluated
  with the call's arguments, before the call: the handlers convert the token with
  \<open>to_str\<close>, which can throw, and the request carries the string it gives.\<close>

definition bearer_request :: "config \<Rightarrow> string \<Rightarrow> string \<Rightarrow> jval \<Rightarrow> http_req" where
  "bearer_request cfg path ts b =
     \<lparr>req_url = paypal_base_url cfg @ path,
      req_headers = [(''Authorization'', ''Bearer '' @ ts), (''Content-Type'', ''application/json'')],
      req_body = b\<rparr>"

definition client_token_request :: "config \<Rightarrow> string \<Rightarrow> http_req" where
  "client_token_request cfg ts = bearer_request cfg ''/v1/identity/generate-token'' ts (JObj [])"

definition order_request :: "config \<Rightarrow> string \<Rightarrow> jval \<Rightarrow> http_req" where
  "order_request cfg ts payload = bearer_request cfg ''/v2/checkout/orders'' ts payload"

definition capture_request :: "config \<Rightarrow> string \<Rightarrow> string \<Rightarrow> http_req" where
  "capture_request cfg ts oid =
     bearer_request cfg (''/v2/checkout/orders/'' @ oid @ ''/capture'') ts (JObj [])"

section \<open>The token helpers\<close>

definition secret_missing_msg :: string where
  "secret_missing_msg = ''PAYPAL_SECRET is not set in environment variables''"

definition no_token_msg :: string where
  "no_token_msg = ''No access token in PayPal response''"

text \<open>The error \<open>getPayPalAccessToken\<close> rethrows (line 76): the processor's
  \<open>error_description\<close> when it sent a truthy one, else the caught error's message. The
  template converts the description with ToString; when that throws, its TypeError
  leaves the \<open>catch\<close> block instead.\<close>

fun token_failure :: "exn \<Rightarrow> exn" where
  "token_failure (ErrResponse s d m) =
     (let desc = get_opt d ''error_description'' in
      if truthy desc
      then (case to_str desc of
              Inl e \<Rightarrow> e
            | Inr t \<Rightarrow> Thrown (''Failed to get PayPal access token: '' @ t))
      else Thrown (''Failed to get PayPal access token: '' @ m))"
| "token_failure e = Thrown (''Failed to get PayPal access token: '' @ exn_message e)"

text \<open>\<open>getPayPalAccessToken()\<close> (lines 40--78).\<close>

definition get_access_token :: "config \<Rightarrow> jval io" where
  "get_access_token cfg =
     io_catch
       (if \<not> secret_set cfg then io_throw (Thrown secret_missing_msg)
        else io_bind (io_call (PayPalPost (token_request cfg))) (\<lambda>data.
               io_bind (io_lift (read_prop data ''access_token'')) (\<lambda>tok.
                 if truthy tok then io_return tok else io_throw (Thrown no_token_msg))))
       (\<lambda>e. io_throw (token_failure e))"

text \<open>\<open>generatePayPalClientToken(accessToken)\<close> (lines 81--99).\<close>

definition generate_client_token :: "config \<Rightarrow> jval \<Rightarrow> jval io" where
  "generate_client_token cfg tok =
     io_catch
       (io_bind (io_lift (to_str tok)) (\<lambda>ts.
          io_bind (io_call (PayPalPost (client_token_request cfg ts))) (\<lambda>data.
            io_lift (read_prop data ''client_token''))))
       (\<lambda>e. io_throw (Thrown ''Failed to generate PayPal client token''))"

section \<open>The wallet endpoints\<close>

definition secret_error :: response where
  "secret_error =
     json_resp 500 (JObj [(''error'', JStr ''PayPal secret not configured. Please set PAYPAL_SECRET in .env file.'')])"

text \<open>\<open>POST /paypal-api/client-token\<close> (lines 102--131).\<close>

definition client_token_handler :: "config \<Rightarrow> net \<Rightarrow> call list \<Rightarrow> response \<times> call list" where
  "client_token_handler cfg =
     run_handler
       (if \<not> secret_set cfg then io_return secret_error
        else io_bind (get_access_token cfg) (\<lambda>tok.
               io_bind (generate_client_token cfg tok) (\<lambda>ct.
                 io_return (json_resp 200 (JObj [(''clientToken'', ct)])))))
       (\<lambda>e. json_resp 500 (JObj [(''error'', JStr ''Failed to generate client token''),
                                 (''message'', JStr (exn_message e))]))"

definition empty_cart_error :: response where
  "empty_cart_error =
     json_resp 400 (JObj [(''error'', JStr ''Cart is empty''),
                          (''message'', JStr ''Please add items to cart before checkout'')])"

definition invalid_total_error :: response where
  "invalid_total_error =
     json_resp 400 (JObj [(''error'', JStr ''Invalid total''),
                          (''message'', JStr ''Order total must be greater than 0'')])"

text \<open>The \<open>catch\<close> block of \<open>POST /api/orders\<close> (lines 229--252): the processor's
  status is mirrored (\<open>error.response.status || 500\<close>) when the error carries a
  response.\<close>

fun create_order_error :: "exn \<Rightarrow> response" where
  "create_order_error (ErrResponse s d m) =
     json_resp (if s = 0 then 500 else s)
       (JObj [(''error'', JStr ''Failed to create order''), (''message'', js_or d (JStr m))])"
| "create_order_error (ErrNoResponse m) =
     json_resp 500 (JObj [(''error'', JStr ''Failed to create order''), (''message'', JStr ''No response from PayPal API'')])"
| "create_order_error (Thrown m) =
     json_resp 500 (JObj [(''error'', JStr ''Failed to create order''), (''message'', JStr m)])"

text \<open>\<open>POST /api/orders\<close> (lines 134--253), given the parsed request body. Before it
  answers, the handler logs \<open>response.data.id\<close> (line 227): a read that throws when the
  processor's data is \<open>null\<close>.\<close>

definition create_order_handler :: "config \<Rightarrow> jval \<Rightarrow> net \<Rightarrow> call list \<Rightarrow> response \<times> call list" where
  "create_order_handler cfg body =
     run_handler
       (if \<not> secret_set cfg then io_return secret_error
        else io_bind (io_lift (read_prop body ''cart'')) (\<lambda>cart.
          if cart_rejected cart then io_return empty_cart_error
          else io_bind (io_lift (cart_lines cart)) (\<lambda>(tot, items).
            if num_le_zero tot then io_return invalid_total_error
            else io_bind (get_access_token cfg) (\<lambda>tok.
              io_bind (io_lift (to_str tok)) (\<lambda>ts.
                io_bind (io_call (PayPalPost (order_request cfg ts (order_payload tot items)))) (\<lambda>d.
                  io_bind (io_lift (read_prop d ''id'')) (\<lambda>oid.
                    io_return (json_resp 200 d))))))))
       create_order_error"

text \<open>\<open>POST /paypal-api/checkout/orders/create\<close> (lines 256--289): the body is passed
  to the processor as it is.\<close>

definition create_order_legacy_handler :: "config \<Rightarrow> jval \<Rightarrow> net \<Rightarrow> call list \<Rightarrow> response \<times> call list" where
  "create_order_legacy_handler cfg body =
     run_handler
       (if \<not> secret_set cfg then io_return secret_error
        else io_bind (get_access_token cfg) (\<lambda>tok.
          io_bind (io_lift (to_str tok)) (\<lambda>ts.
            io_bind (io_call (PayPalPost (order_request cfg ts body))) (\<lambda>d.
              io_return (json_resp 200 d)))))
       (\<lambda>e. json_resp 500 (JObj [(''error'', JStr ''Failed to create order''), (''message'', data_or_message e)]))"

text \<open>\<open>POST /api/orders/:orderID/capture\<close> (lines 292--325), given the route parameter.\<close>

definition capture_order_handler :: "config \<Rightarrow> string \<Rightarrow> net \<Rightarrow> call list \<Rightarrow> response \<times> call list" where
  "capture_order_handler cfg oid =
     run_handler
       (if \<not> secret_set cfg then io_return secret_error
        else io_bind (get_access_token cfg) (\<lambda>tok.
          io_bind (io_lift (to_str tok)) (\<lambda>ts.
            io_bind (io_call (PayPalPost (capture_request cfg ts oid))) (\<lambda>d.
              io_return (json_resp 200 d)))))
       (\<lambda>e. json_resp 500 (JObj [(''error'', JStr ''Failed to capture order''), (''message'', data_or_message e)]))"

text \<open>\<open>POST /paypal-api/checkout/orders/:orderId/capture\<close> (lines 328--361).\<close>

definition capture_order_legacy_handler :: "config \<Rightarrow> string \<Rightarrow> net \<Rightarrow> call list \<Rightarrow> response \<times> call list" where
  "capture_order_legacy_handler cfg oid =
     run_handler
       (if \<not> secret_set cfg then io_return secret_error
        else io_bind (get_access_token cfg) (\<lambda>tok.
          io_bind (io_lift (to_str tok)) (\<lambda>ts.
            io_bind (io_call (PayPalPost (capture_request cfg ts oid))) (\<lambda>d.
              io_return (json_resp 200 d)))))
       (\<lambda>e. json_resp 500 (JObj [(''error'', JStr ''Failed to capture order''), (''message'', data_or_message e)]))"

section \<open>Lemmas\<close>

declare load_config_def [sample_eval] env_or_def [sample_eval] sample_env_def [sample_eval]
  secret_set_def [sample_eval] read_prop_def [sample_eval] get_opt_def [sample_eval]

lemma get_access_token_ok:
  assumes "secret_set cfg" "net tr (PayPalPost (token_request cfg)) = Ok d"
      and "read_prop d ''access_token'' = Inr tok" "truthy tok"
  shows "get_access_token cfg net tr = (Inr tok, tr @ [PayPalPost (token_request cfg)])"
  using assms by (simp add: get_access_token_def io_catch_def io_bind_call_Ok io_return_def)

lemma get_access_token_err:
  assumes "secret_set cfg" "net tr (PayPalPost (token_request cfg)) = ErrResp s d m"
  shows "get_access_token cfg net tr =
           (Inl (token_failure (ErrResponse s d m)), tr @ [PayPalPost (token_request cfg)])"
  using assms by (simp add: get_access_token_def io_catch_def io_bind_def io_call_def io_throw_def)

lemma token_failure_thrown: "token_failure e = Thrown (exn_message (token_failure e))"
  by (cases e) (auto simp: Let_def to_prim_error_def split: sum.splits dest: to_str_error)

lemma create_order_token_failure:
  "create_order_error (token_failure e) =
     json_resp 500 (JObj [(''error'', JStr ''Failed to create order''), (''message'', JStr (exn_message (token_failure e)))])"
  by (subst token_failure_thrown) simp

lemma create_order_priced:
  assumes "secret_set cfg" "read_prop body ''cart'' = Inr c" "\<not> cart_rejected c"
      and "cart_lines c = Inr (tot, items)" "\<not> num_le_zero tot"
  shows "create_order_handler cfg body =
           run_handler (io_bind (get_access_token cfg) (\<lambda>tok.
              io_bind (io_lift (to_str tok)) (\<lambda>ts.
                io_bind (io_call (PayPalPost (order_request cfg ts (order_payload tot items)))) (\<lambda>d.
                  io_bind (io_lift (read_prop d ''id'')) (\<lambda>oid. io_return (json_resp 200 d))))))
             create_order_error"
  using assms by (simp add: create_order_handler_def)

lemma capture_order_call:
  assumes "secret_set cfg"
      and "net tr (PayPalPost (token_request cfg)) = Ok d" "read_prop d ''access_token'' = Inr t" "truthy t"
      and "to_str t = Inr ts"
      and "net (tr @ [PayPalPost (token_request cfg)]) (PayPalPost (capture_request cfg ts oid)) = x"
  shows "capture_order_handler cfg oid net tr =
           run_handler (\<lambda>net tr'. (case x of Ok r \<Rightarrow> Inr (json_resp 200 r) | ErrResp s e m \<Rightarrow> Inl (ErrResponse s e m)
                                    | NoResp m \<Rightarrow> Inl (ErrNoResponse m) | SdkError m \<Rightarrow> Inl (Thrown m), tr'))
             (\<lambda>e. json_resp 500 (JObj [(''error'', JStr ''Failed to capture order''), (''message'', data_or_message e)]))
             net (tr @ [PayPalPost (token_request cfg), PayPalPost (capture_request cfg ts oid)])"
proof -
  have g: "get_access_token cfg net tr = (Inr t, tr @ [PayPalPost (token_request cfg)])"
    using assms(1-4) by (rule get_access_token_ok)
  show ?thesis using assms(1,5,6)
    by (cases x) (simp_all add: capture_order_handler_def run_handler_def io_bind_def g io_call_def io_return_def io_lift_def)
qed

lemma client_token_relay:
  assumes "secret_set cfg"
      and "net tr (PayPalPost (token_request cfg)) = Ok d" "read_prop d ''access_token'' = Inr t" "truthy t"
      and "to_str t = Inr ts"
      and "net (tr @ [PayPalPost (token_request cfg)]) (PayPalPost (client_token_request cfg ts)) = Ok d2"
      and "read_prop d2 ''client_token'' = Inr ct"
  shows "client_token_handler cfg net tr =
           (json_resp 200 (JObj [(''clientToken'', ct)]),
            tr @ [PayPalPost (token_request cfg), PayPalPost (client_token_request cfg ts)])"
proof -
  have g: "get_access_token cfg net tr = (Inr t, tr @ [PayPalPost (token_request cfg)])"
    using assms(1-4) by (rule get_access_token_ok)
  show ?thesis using assms(1,5,6,7)
    by (simp add: client_token_handler_def generate_client_token_def run_handler_def io_bind_def g
                  io_call_def io_return_def io_catch_def io_lift_def)
qed

text \<open>C2: every wallet endpoint invoked while the wallet secret is unset or empty answers 500 with the configuration message, and makes no outbound call: the trace of calls is returned unchanged.\<close>

theorem wallet_secret_unset:
  assumes "\<not> secret_set cfg"
  shows "client_token_handler cfg net tr = (secret_error, tr)
       \<and> create_order_handler cfg body net tr = (secret_error, tr)
       \<and> create_order_legacy_handler cfg body net tr = (secret_error, tr)
       \<and> capture_order_handler cfg oid net tr = (secret_error, tr)
       \<and> capture_order_legacy_handler cfg oid net tr = (secret_error, tr)"
  using assms by (simp add: client_token_handler_def create_order_handler_def
      create_order_legacy_handler_def capture_order_handler_def capture_order_legacy_handler_def)

theorem wallet_secret_unset_witness:
  "client_token_handler (load_config (\<lambda>_. None)) (\<lambda>tr c. NoResp ''down'') [] = (secret_error, [])
   \<and> create_order_handler (load_config (\<lambda>_. None)) (JObj []) (\<lambda>tr c. NoResp ''down'') [] = (secret_error, [])
   \<and> create_order_legacy_handler (load_config (\<lambda>_. None)) (JObj []) (\<lambda>tr c. NoResp ''down'') [] = (secret_error, [])
   \<and> capture_order_handler (load_config (\<lambda>_. None)) ''O1'' (\<lambda>tr c. NoResp ''down'') [] = (secret_error, [])
   \<and> capture_order_legacy_handler (load_config (\<lambda>_. None)) ''O1'' (\<lambda>tr c. NoResp ''down'') [] = (secret_error, [])"
  using wallet_secret_unset [of "load_config (\<lambda>_. None)"] by (simp add: sample_eval)


text \<open>C3: on POST /api/orders, a missing, null or empty cart (an empty array or an empty string) yields the 400 "Cart is empty" response before any outbound call.\<close>

theorem create_order_empty_cart:
  assumes "secret_set cfg" "get_opt (JObj ps) ''cart'' \<in> {JUndef, JNull, JArr [], JStr []}"
  shows "create_order_handler cfg (JObj ps) net tr = (empty_cart_error, tr)"
proof -
  have "cart_rejected (get_opt (JObj ps) ''cart'')"
    using assms(2) by (auto simp: cart_rejected_def get_opt_def num_of_int_zero)
  then show ?thesis using assms(1) by (simp add: create_order_handler_def read_prop_obj)
qed

theorem create_order_empty_cart_witness:
  "create_order_handler (load_config sample_env) (JObj [(''cart'', JArr [])]) (\<lambda>tr c. NoResp ''down'') [] =
     (empty_cart_error, [])
   \<and> create_order_handler (load_config sample_env) (JObj []) (\<lambda>tr c. NoResp ''down'') [] = (empty_cart_error, [])"
  using create_order_empty_cart [of "load_config sample_env" "[(''cart'', JArr [])]"]
        create_order_empty_cart [of "load_config sample_env" "[]"]
  by (simp_all add: sample_eval)

text \<open>C4: a non-empty cart none of whose lines names a catalog entry prices to a total of 0 and yields the 400 "Invalid total" response before any outbound call.\<close>

theorem create_order_unresolved_cart:
  assumes "secret_set cfg" "read_prop body ''cart'' = Inr (JArr xs)" "xs \<noteq> []"
      and "list_all line_unresolved xs"
  shows "create_order_handler cfg body net tr = (invalid_total_error, tr)"
  using assms price_lines_unresolved [OF assms(4)]
  by (simp add: create_order_handler_def cart_rejected_JArr cart_lines_def)

theorem create_order_unresolved_cart_witness:
  "create_order_handler (load_config sample_env) (JObj [(''cart'', JArr [JObj [(''id'', JStr ''kale'')]])]) (\<lambda>tr c. NoResp ''down'') [] =
   (invalid_total_error, [])"
  using create_order_unresolved_cart [of "load_config sample_env" "JObj [(''cart'', JArr [JObj [(''id'', JStr ''kale'')]])]"
      "[JObj [(''id'', JStr ''kale'')]]"]
  by (simp add: sample_eval line_unresolved_def flavor_lookup_def FLAVORS_def object_prototype_def)


text \<open>C5: for a cart of catalog lines with positive quantities, POST /api/orders first exchanges the client credentials for an access token, then posts the order payload priced from the cart with that token, and relays the processor's order object with status 200; these two calls are all it makes. The token must convert to a string for the Authorization header, and the order object must not be null or undefined, since the handler logs its id before answering.\<close>

theorem create_order_success:
  assumes "secret_set cfg"
      and "\<forall>(k, q) \<in> set ls. k \<in> fst ` set FLAVORS \<and> 0 < q" "ls \<noteq> []"
      and "15 * sum_list (map snd ls) < 2 ^ 53"
      and "net tr (PayPalPost (token_request cfg)) = Ok d" "read_prop d ''access_token'' = Inr t" "truthy t"
      and "to_str t = Inr ts"
      and "net (tr @ [PayPalPost (token_request cfg)])
             (PayPalPost (order_request cfg ts (order_payload (num_of_int (15 * sum_list (map snd ls)))
                                                               (map catalog_line ls)))) = Ok r"
      and "r \<noteq> JUndef" "r \<noteq> JNull"
  shows "create_order_handler cfg (JObj [(''cart'', cart_json ls)]) net tr =
           (json_resp 200 r,
            tr @ [PayPalPost (token_request cfg),
                  PayPalPost (order_request cfg ts (order_payload (num_of_int (15 * sum_list (map snd ls)))
                                                                  (map catalog_line ls)))])"
proof -
  have b: "read_prop (JObj [(''cart'', cart_json ls)]) ''cart'' = Inr (cart_json ls)"
    by (simp add: read_prop_def)
  note p = cart_json_priced [OF assms(2-4)]
  have g: "get_access_token cfg net tr = (Inr t, tr @ [PayPalPost (token_request cfg)])"
    using assms(1,5-7) by (rule get_access_token_ok)
  obtain oid where i: "read_prop r ''id'' = Inr oid"
    using assms(10,11) get_prop_None_iff [of r "''id''"] by (cases "get_prop r ''id''") (auto simp: read_prop_def)
  show ?thesis
    unfolding create_order_priced [OF assms(1) b p]
    by (simp add: run_handler_def io_bind_def g io_call_def assms(8,9) i io_lift_def io_return_def)
qed

theorem create_order_success_witness:
  "create_order_handler (load_config sample_env) (JObj [(''cart'', cart_json [(''granola'', 2)])]) (\<lambda>tr c. if tr = [] then Ok (JObj [(''access_token'', JStr ''A'')]) else Ok (JObj [(''id'', JStr ''O1'')])) [] =
   (json_resp 200 (JObj [(''id'', JStr ''O1'')]),
    [PayPalPost (token_request (load_config sample_env)),
     PayPalPost (order_request (load_config sample_env) ''A'' (order_payload (num_of_int 30) [catalog_line (''granola'', 2)]))])"
  using create_order_success [of "load_config sample_env" "[(''granola'', 2)]" "(\<lambda>tr c. if tr = [] then Ok (JObj [(''access_token'', JStr ''A'')]) else Ok (JObj [(''id'', JStr ''O1'')]))"
      "[]" "JObj [(''access_token'', JStr ''A'')]" "JStr ''A''" "''A''" "JObj [(''id'', JStr ''O1'')]"]
  by (simp add: sample_eval FLAVORS_def)


text \<open>C6: capture acquires a fresh access token, posts the capture of the given order identifier, and relays the processor's capture object verbatim with status 200, without consulting any record of earlier orders.\<close>

theorem capture_order_relay_ok:
  assumes "secret_set cfg"
      and "net tr (PayPalPost (token_request cfg)) = Ok d" "read_prop d ''access_token'' = Inr t" "truthy t"
      and "to_str t = Inr ts"
      and "net (tr @ [PayPalPost (token_request cfg)]) (PayPalPost (capture_request cfg ts oid)) = Ok r"
  shows "capture_order_handler cfg oid net tr =
           (json_resp 200 r, tr @ [PayPalPost (token_request cfg), PayPalPost (capture_request cfg ts oid)])"
  by (simp add: capture_order_call [OF assms] run_handler_def)

theorem capture_order_relay_ok_witness:
  "capture_order_handler (load_config sample_env) ''O1'' (\<lambda>tr c. if tr = [] then Ok (JObj [(''access_token'', JStr ''A'')]) else Ok (JObj [(''status'', JStr ''COMPLETED'')])) [] =
   (json_resp 200 (JObj [(''status'', JStr ''COMPLETED'')]),
    [PayPalPost (token_request (load_config sample_env)), PayPalPost (capture_request (load_config sample_env) ''A'' ''O1'')])"
  using capture_order_relay_ok [of "load_config sample_env" "(\<lambda>tr c. if tr = [] then Ok (JObj [(''access_token'', JStr ''A'')]) else Ok (JObj [(''status'', JStr ''COMPLETED'')]))" "[]" "JObj [(''access_token'', JStr ''A'')]" "JStr ''A''" "''A''"
      "''O1''" "JObj [(''status'', JStr ''COMPLETED'')]"]
  by (simp add: sample_eval)


text \<open>C7: when the processor rejects the capture with any status, the capture endpoint answers 500 and carries the processor's error payload as the message: the processor's own status is not mirrored.\<close>

theorem capture_order_upstream_error:
  assumes "secret_set cfg"
      and "net tr (PayPalPost (token_request cfg)) = Ok d" "read_prop d ''access_token'' = Inr t" "truthy t"
      and "to_str t = Inr ts"
      and "net (tr @ [PayPalPost (token_request cfg)]) (PayPalPost (capture_request cfg ts oid)) = ErrResp s e m"
  shows "capture_order_handler cfg oid net tr =
           (json_resp 500 (JObj [(''error'', JStr ''Failed to capture order''), (''message'', js_or e (JStr m))]),
            tr @ [PayPalPost (token_request cfg), PayPalPost (capture_request cfg ts oid)])"
  by (simp add: capture_order_call [OF assms] run_handler_def del: truthy_js_or)

theorem capture_order_upstream_error_witness:
  "capture_order_handler (load_config sample_env) ''O1'' (\<lambda>tr c. if tr = [] then Ok (JObj [(''access_token'', JStr ''A'')]) else ErrResp 422 (JObj [(''name'', JStr ''UNPROCESSABLE_ENTITY'')]) ''Request failed with status code 422'') [] =
   (json_resp 500 (JObj [(''error'', JStr ''Failed to capture order''),
                         (''message'', JObj [(''name'', JStr ''UNPROCESSABLE_ENTITY'')])]),
    [PayPalPost (token_request (load_config sample_env)), PayPalPost (capture_request (load_config sample_env) ''A'' ''O1'')])"
  using capture_order_upstream_error [of "load_config sample_env" "(\<lambda>tr c. if tr = [] then Ok (JObj [(''access_token'', JStr ''A'')]) else ErrResp 422 (JObj [(''name'', JStr ''UNPROCESSABLE_ENTITY'')]) ''Request failed with status code 422'')" "[]" "JObj [(''access_token'', JStr ''A'')]" "JStr ''A''" "''A''"
      "''O1''" 422 "JObj [(''name'', JStr ''UNPROCESSABLE_ENTITY'')]" "''Request failed with status code 422''"]
  by (simp add: sample_eval)


text \<open>C8: the current capture route and the legacy capture route serve every order identifier identically, against every processor and call history.\<close>

theorem capture_routes_equivalent:
  "capture_order_handler cfg oid = capture_order_legacy_handler cfg oid"
  unfolding capture_order_handler_def capture_order_legacy_handler_def ..


text \<open>C9: the client-token endpoint makes exactly the credential exchange and then the client-token request with the access token it obtained, and answers 200 with the client token.\<close>

theorem client_token_success:
  assumes "secret_set cfg"
      and "net tr (PayPalPost (token_request cfg)) = Ok d" "read_prop d ''access_token'' = Inr t" "truthy t"
      and "to_str t = Inr ts"
      and "net (tr @ [PayPalPost (token_request cfg)]) (PayPalPost (client_token_request cfg ts)) = Ok d2"
      and "read_prop d2 ''client_token'' = Inr ct"
  shows "client_token_handler cfg net tr =
           (json_resp 200 (JObj [(''clientToken'', ct)]),
            tr @ [PayPalPost (token_request cfg), PayPalPost (client_token_request cfg ts)])"
  using assms by (rule client_token_relay)

theorem client_token_success_witness:
  "client_token_handler (load_config sample_env) (\<lambda>tr c. if tr = [] then Ok (JObj [(''access_token'', JStr ''A'')]) else Ok (JObj [(''client_token'', JStr ''CT'')])) [] =
   (json_resp 200 (JObj [(''clientToken'', JStr ''CT'')]),
    [PayPalPost (token_request (load_config sample_env)), PayPalPost (client_token_request (load_config sample_env) ''A'')])"
  using client_token_success [of "load_config sample_env" "(\<lambda>tr c. if tr = [] then Ok (JObj [(''access_token'', JStr ''A'')]) else Ok (JObj [(''client_token'', JStr ''CT'')]))" "[]" "JObj [(''access_token'', JStr ''A'')]" "JStr ''A''" "''A''"
      "JObj [(''client_token'', JStr ''CT'')]" "JStr ''CT''"]
  by (simp add: sample_eval)


text \<open>C10: a credential exchange that succeeds but carries no access token is reported with its own message (distinct from a transport failure), as a 500, and no token-dependent call is made.\<close>

theorem access_token_missing:
  assumes "secret_set cfg"
      and "net tr (PayPalPost (token_request cfg)) = Ok d" "read_prop d ''access_token'' = Inr v" "\<not> truthy v"
  shows "client_token_handler cfg net tr =
           (json_resp 500 (JObj [(''error'', JStr ''Failed to generate client token''),
                                 (''message'', JStr (''Failed to get PayPal access token: '' @ no_token_msg))]),
            tr @ [PayPalPost (token_request cfg)])"
  using assms
  by (simp add: client_token_handler_def get_access_token_def run_handler_def io_bind_def io_call_def
                io_return_def io_catch_def io_lift_def io_throw_def)

theorem access_token_missing_witness:
  "client_token_handler (load_config sample_env) (\<lambda>tr c. Ok (JObj [])) [] =
   (json_resp 500 (JObj [(''error'', JStr ''Failed to generate client token''),
                         (''message'', JStr (''Failed to get PayPal access token: '' @ no_token_msg))]),
    [PayPalPost (token_request (load_config sample_env))])"
  using access_token_missing [of "load_config sample_env" "\<lambda>tr c. Ok (JObj [])" "[]" "JObj []" JUndef]
  by (simp add: sample_eval)


text \<open>C11: when the processor rejects the credential exchange (say with 401), POST /api/orders answers 500, not the processor's status: the token helper rethrows a plain error that keeps only the description, so the mirroring branch of the catch block is not reached.\<close>

theorem create_order_token_rejected:
  assumes "secret_set cfg"
      and "\<forall>(k, q) \<in> set ls. k \<in> fst ` set FLAVORS \<and> 0 < q" "ls \<noteq> []"
      and "15 * sum_list (map snd ls) < 2 ^ 53"
      and "net tr (PayPalPost (token_request cfg)) = ErrResp s e m"
  shows "create_order_handler cfg (JObj [(''cart'', cart_json ls)]) net tr =
           (json_resp 500 (JObj [(''error'', JStr ''Failed to create order''),
                                 (''message'', JStr (exn_message (token_failure (ErrResponse s e m))))]),
            tr @ [PayPalPost (token_request cfg)])"
proof -
  have b: "read_prop (JObj [(''cart'', cart_json ls)]) ''cart'' = Inr (cart_json ls)"
    by (simp add: read_prop_def)
  note p = cart_json_priced [OF assms(2-4)]
  have g: "get_access_token cfg net tr = (Inl (token_failure (ErrResponse s e m)), tr @ [PayPalPost (token_request cfg)])"
    using assms(1,5) by (rule get_access_token_err)
  show ?thesis
    unfolding create_order_priced [OF assms(1) b p]
    by (simp add: run_handler_def io_bind_def g create_order_token_failure del: token_failure.simps)
qed

theorem create_order_token_rejected_witness:
  "create_order_handler (load_config sample_env) (JObj [(''cart'', cart_json [(''granola'', 2)])]) (\<lambda>tr c. ErrResp 401 (JObj [(''error_description'', JStr ''Client Authentication failed'')]) ''Request failed with status code 401'') [] =
   (json_resp 500 (JObj [(''error'', JStr ''Failed to create order''),
                         (''message'', JStr ''Failed to get PayPal access token: Client Authentication failed'')]),
    [PayPalPost (token_request (load_config sample_env))])"
  using create_order_token_rejected [of "load_config sample_env" "[(''granola'', 2)]" "\<lambda>tr c. ErrResp 401 (JObj [(''error_description'', JStr ''Client Authentication failed'')]) ''Request failed with status code 401''" "[]" 401
      "JObj [(''error_description'', JStr ''Client Authentication failed'')]" "''Request failed with status code 401''"]
  by (simp add: sample_eval FLAVORS_def)

text \<open>C23: the total guard \<open>total <= 0\<close> does not reject a NaN total. Two lines whose
  quantity strings parse to \<open>+Infinity\<close> and \<open>-Infinity\<close> (integers past the double
  range) make the total NaN; the order is then posted with the amount \<open>"NaN"\<close>.\<close>

theorem create_order_nan_total:
  assumes "secret_set cfg" "ovf_bound \<le> n" "k \<in> fst ` set FLAVORS"
      and "net tr (PayPalPost (token_request cfg)) = Ok d" "read_prop d ''access_token'' = Inr t" "truthy t"
      and "to_str t = Inr ts"
  shows "snd (create_order_handler cfg
                (JObj [(''cart'', JArr [JObj [(''id'', JStr k), (''quantity'', JStr (int_str n))],
                                        JObj [(''id'', JStr k), (''quantity'', JStr (int_str (- n)))]])]) net tr) =
           tr @ [PayPalPost (token_request cfg),
                 PayPalPost (order_request cfg ts
                   (order_payload NaN [line_item (Own (the (map_of FLAVORS k))) (Inf True) (num_of_int 15),
                                       line_item (Own (the (map_of FLAVORS k))) (Inf False) (num_of_int 15)]))]
         \<and> to_fixed2 NaN = ''NaN''"
proof -
  have p: "0 < n" using assms(2) ovf_bound_big by simp
  have q1: "line_quantity (JStr (int_str n)) = Inr (Inf True)" using line_quantity_overflow [of n] assms(2) p by simp
  have q2: "line_quantity (JStr (int_str (- n))) = Inr (Inf False)" using line_quantity_overflow [of "- n"] assms(2) p by simp
  have price: "entry_price (Own (the (map_of FLAVORS k))) = num_of_int 15"
    using catalog_key_lookup [OF assms(3)] by (rule flavor_lookup_price)
  have g: "get_access_token cfg net tr = (Inr t, tr @ [PayPalPost (token_request cfg)])"
    using assms(1,4-6) by (rule get_access_token_ok)
  have lines: "cart_lines (JArr [JObj [(''id'', JStr k), (''quantity'', JStr (int_str n))],
                                JObj [(''id'', JStr k), (''quantity'', JStr (int_str (- n)))]]) =
               Inr (NaN, [line_item (Own (the (map_of FLAVORS k))) (Inf True) (num_of_int 15),
                          line_item (Own (the (map_of FLAVORS k))) (Inf False) (num_of_int 15)])"
    using catalog_key_lookup [OF assms(3)] q1 q2 price
    by (simp add: cart_lines_def read_prop_def num_of_int_15 Let_def)
  show ?thesis
    using assms(1,7) lines g
    by (simp add: create_order_handler_def cart_rejected_JArr read_prop_def io_defs split: outcome.splits option.splits)
qed
theorem create_order_nan_total_witness:
  "snd (create_order_handler (load_config sample_env)
          (JObj [(''cart'', JArr [JObj [(''id'', JStr ''granola''), (''quantity'', JStr (int_str ovf_bound))],
                                  JObj [(''id'', JStr ''granola''), (''quantity'', JStr (int_str (- ovf_bound)))]])])
          (\<lambda>tr c. Ok (JObj [(''access_token'', JStr ''A'')])) []) =
     [PayPalPost (token_request (load_config sample_env)),
      PayPalPost (order_request (load_config sample_env) ''A''
        (order_payload NaN [line_item (Own (the (map_of FLAVORS ''granola''))) (Inf True) (num_of_int 15),
                            line_item (Own (the (map_of FLAVORS ''granola''))) (Inf False) (num_of_int 15)]))]
   \<and> to_fixed2 NaN = ''NaN''"
  using create_order_nan_total [where cfg = "load_config sample_env" and n = ovf_bound and k = "''granola''"
      and net = "\<lambda>tr c. Ok (JObj [(''access_token'', JStr ''A'')])" and tr = "[]" and d = "JObj [(''access_token'', JStr ''A'')]" and t = "JStr ''A''" and ts = "''A''"]
  by (simp add: sample_eval FLAVORS_def)

text \<open>C31: an access token that converts to no string (an object with its own
  \<open>toString\<close> member) makes the \<open>Bearer\<close> template throw before the capture call: the
  capture endpoint answers 500 with the TypeError's message, and the credential exchange
  is the only call made.\<close>

theorem capture_token_not_string:
  assumes "secret_set cfg"
      and "net tr (PayPalPost (token_request cfg)) = Ok d" "read_prop d ''access_token'' = Inr t" "truthy t"
      and "to_str t = Inl e"
  shows "capture_order_handler cfg oid net tr =
           (json_resp 500 (JObj [(''error'', JStr ''Failed to capture order''), (''message'', data_or_message e)]),
            tr @ [PayPalPost (token_request cfg)])"
proof -
  have g: "get_access_token cfg net tr = (Inr t, tr @ [PayPalPost (token_request cfg)])"
    using assms(1-4) by (rule get_access_token_ok)
  show ?thesis using assms(1,5)
    by (simp add: capture_order_handler_def run_handler_def io_bind_def g io_lift_def)
qed

theorem capture_token_not_string_witness:
  "capture_order_handler (load_config sample_env) ''O1''
     (\<lambda>tr c. Ok (JObj [(''access_token'', JObj [(''toString'', JNum (Fin 1 0))])])) [] =
   (json_resp 500 (JObj [(''error'', JStr ''Failed to capture order''),
                         (''message'', JStr ''Cannot convert object to primitive value'')]),
    [PayPalPost (token_request (load_config sample_env))])"
  using capture_token_not_string [where cfg = "load_config sample_env" and oid = "''O1''"
      and net = "\<lambda>tr c. Ok (JObj [(''access_token'', JObj [(''toString'', JNum (Fin 1 0))])])" and tr = "[]"
      and d = "JObj [(''access_token'', JObj [(''toString'', JNum (Fin 1 0))])]"
      and t = "JObj [(''toString'', JNum (Fin 1 0))]" and e = to_prim_error]
  by (simp add: sample_eval to_prim_error_def)

text \<open>C32: a cart line whose identifier converts to no primitive (an object with its
  own \<open>toString\<close> member) is not skipped as an unresolved line: the property key
  conversion of \<open>FLAVORS[item.id]\<close> throws a TypeError out of the loop, and POST
  /api/orders answers 500 with its message before any call, where the specification
  asks for a 400 on malformed input.\<close>

theorem create_order_id_type_error:
  assumes "secret_set cfg" "to_str idv = Inl e"
  shows "create_order_handler cfg (JObj [(''cart'', JArr (JObj [(''id'', idv)] # rest))]) net tr =
           (json_resp 500 (JObj [(''error'', JStr ''Failed to create order''), (''message'', JStr (exn_message e))]), tr)"
proof -
  have e: "e = to_prim_error" using to_str_error(1) [OF assms(2)] .
  have "cart_lines (JArr (JObj [(''id'', idv)] # rest)) = Inl e"
    using assms(2) by (simp add: cart_lines_def read_prop_def)
  then show ?thesis
    using assms(1) e by (simp add: create_order_handler_def read_prop_def cart_rejected_JArr io_defs to_prim_error_def)
qed

theorem create_order_id_type_error_witness:
  "create_order_handler (load_config sample_env)
     (JObj [(''cart'', JArr [JObj [(''id'', JObj [(''toString'', JNum (Fin 1 0))])]])]) (\<lambda>tr c. NoResp ''down'') [] =
   (json_resp 500 (JObj [(''error'', JStr ''Failed to create order''),
                         (''message'', JStr ''Cannot convert object to primitive value'')]), [])"
  using create_order_id_type_error [where cfg = "load_config sample_env" and idv = "JObj [(''toString'', JNum (Fin 1 0))]"
      and e = to_prim_error and rest = "[]" and net = "\<lambda>tr c. NoResp ''down''" and tr = "[]"]
  by (simp add: sample_eval to_prim_error_def)

end
