(* ===== verification/Json.thy ===== *)
theory Json
  imports JsValue
begin

text \<open>
  \<open>JSON.stringify(v)\<close> (ECMA-262, 25.5.2), as the card endpoint applies it to the
  caller's \<open>items\<close> (\<open>src/server.js\<close>, line 380). A string is quoted with the escapes
  of QuoteJSONString; a finite number prints as \<open>Number#toString\<close>, a non-finite one as
  \<open>null\<close>; an \<open>undefined\<close> array element prints as \<open>null\<close> and an \<open>undefined\<close>
  member is left out; \<open>undefined\<close> itself has no serialisation (\<open>None\<close>). An object's
  members come in the order of its own keys: the integer-index keys ascending, then
  the others in the order they were first created, each with the value it was last
  given (what \<open>JSON.parse\<close> builds from an object with repeated keys).
\<close>

definition hex_digit :: "nat \<Rightarrow> char" where
  "hex_digit n = (if n < 10 then digit_char n else char_of (87 + n))"

text \<open>QuoteJSONString (25.5.2.3), for code units below 256.\<close>

definition json_escape :: "char \<Rightarrow> string" where
  "json_escape c =
     (let n = of_char c :: nat in
      if n = 8 then [CHR 0x5C, CHR ''b''] else if n = 9 then [CHR 0x5C, CHR ''t'']
      else if n = 10 then [CHR 0x5C, CHR ''n''] else if n = 12 then [CHR 0x5C, CHR ''f'']
      else if n = 13 then [CHR 0x5C, CHR ''r'']
      else if n = 34 then [CHR 0x5C, CHR 0x22] else if n = 92 then [CHR 0x5C, CHR 0x5C]
      else if n < 32 then [CHR 0x5C, CHR ''u'', CHR ''0'', CHR ''0'', hex_digit (n div 16), hex_digit (n mod 16)]
      else [c])"

definition json_quote :: "string \<Rightarrow> string" where
  "json_quote s = CHR 0x22 # concat (map json_escape s) @ [CHR 0x22]"

text \<open>An integer index: a canonical decimal below \<open>2^32 - 1\<close>.\<close>

definition integer_index :: "string \<Rightarrow> bool" where
  "integer_index k = (case array_index k of Some n \<Rightarrow> n < 4294967295 | None \<Rightarrow> False)"

text \<open>OrdinaryOwnPropertyKeys (10.1.11.1) of an object built from these entries.\<close>

definition own_keys :: "(string \<times> 'a) list \<Rightarrow> string list" where
  "own_keys ps =
     (let ks = remdups (map fst ps)
      in sort_key (\<lambda>k. the (array_index k)) (filter integer_index ks) @ filter (\<lambda>k. \<not> integer_index k) ks)"

definition json_members :: "(string \<times> string option) list \<Rightarrow> string list" where
  "json_members es =
     List.map_filter (\<lambda>k. case lookup_last es k of
                           Some (Some t) \<Rightarrow> Some (json_quote k @ '':'' @ t)
                         | _ \<Rightarrow> None) (own_keys es)"

text \<open>SerializeJSONProperty (25.5.2.2) with SerializeJSONArray and SerializeJSONObject.\<close>

fun json_stringify :: "jval \<Rightarrow> string option" where
  "json_stringify JUndef = None"
| "json_stringify JNull = Some ''null''"
| "json_stringify (JBool b) = Some (if b then ''true'' else ''false'')"
| "json_stringify (JNum n) = Some (case n of Fin _ _ \<Rightarrow> num_to_string n | _ \<Rightarrow> ''null'')"
| "json_stringify (JStr s) = Some (json_quote s)"
| "json_stringify (JArr xs) =
     Some (''['' @ join_comma (map (\<lambda>x. case json_stringify x of Some t \<Rightarrow> t | None \<Rightarrow> ''null'') xs) @ '']'')"
| "json_stringify (JObj ps) =
     Some (''{'' @ join_comma (json_members (map (\<lambda>p. (fst p, json_stringify (snd p))) ps)) @ ''}'')"

end
