(* ===== verification/Stripe.thy ===== *)
theory Stripe
  imports PayPal Json
begin

text \<open>
  The card-processor side of the relay (\<open>src/server.js\<close>, lines 363--428): the two
  card endpoints, which call the processor's SDK with the configured secret key, and the
  health check. The SDK call is a \<open>call\<close> value carrying the key and the argument; its
  result or its rejection comes from the environment, as for the wallet processor.
  \<open>const {amount, currency = 'usd', items} = req.body\<close> reads the three properties
  of the parsed body; the default applies only when \<open>currency\<close> is \<open>undefined\<close>.
\<close>

definition invalid_amount_error :: response where
  "invalid_amount_error =
     json_resp 400 (JObj [(''error'', JStr ''Invalid amount''),
                          (''message'', JStr ''Amount must be greater than 0'')])"

text \<open>The argument of \<open>paymentIntents.create\<close> (lines 376--385).\<close>

definition intent_params :: "jval \<Rightarrow> jval \<Rightarrow> jval \<Rightarrow> jval" where
  "intent_params amount currency items =
     JObj [(''amount'', amount), (''currency'', currency),
           (''metadata'', JObj [(''items'', (case json_stringify (js_or items (JArr [])) of
                                               Some s \<Rightarrow> JStr s | None \<Rightarrow> JUndef))]),
           (''automatic_payment_methods'', JObj [(''enabled'', JBool True)])]"

text \<open>\<open>POST /stripe-api/create-payment-intent\<close> (lines 364--397). The guard
  \<open>!amount || amount <= 0\<close> evaluates the comparison only for a truthy amount, and the
  comparison's conversion can throw.\<close>

definition create_payment_intent_handler :: "config \<Rightarrow> jval \<Rightarrow> net \<Rightarrow> call list \<Rightarrow> response \<times> call list" where
  "create_payment_intent_handler cfg body =
     run_handler
       (io_bind (io_lift (read_prop body ''amount'')) (\<lambda>amount.
        io_bind (io_lift (read_prop body ''currency'')) (\<lambda>cur.
        io_bind (io_lift (read_prop body ''items'')) (\<lambda>items.
          let currency = (if cur = JUndef then JStr ''usd'' else cur) in
          if \<not> truthy amount then io_return invalid_amount_error
          else io_bind (io_lift (le_zero amount)) (\<lambda>nonpos.
            if nonpos then io_return invalid_amount_error
            else io_bind (io_call (StripeCreate (stripe_secret_key cfg) (intent_params amount currency items))) (\<lambda>intent.
                   io_bind (io_lift (read_prop intent ''client_secret'')) (\<lambda>cs.
                     io_return (json_resp 200 (JObj [(''clientSecret'', cs)])))))))))
       (\<lambda>e. json_resp 500 (JObj [(''error'', JStr ''Failed to create payment intent''),
                                 (''message'', JStr (exn_message e))]))"

definition missing_intent_error :: response where
  "missing_intent_error = json_resp 400 (JObj [(''error'', JStr ''Payment intent ID is required'')])"

text \<open>\<open>POST /stripe-api/confirm-payment-intent\<close> (lines 400--423).\<close>

definition confirm_payment_intent_handler :: "config \<Rightarrow> jval \<Rightarrow> net \<Rightarrow> call list \<Rightarrow> response \<times> call list" where
  "confirm_payment_intent_handler cfg body =
     run_handler
       (io_bind (io_lift (read_prop body ''paymentIntentId'')) (\<lambda>pid.
          if \<not> truthy pid then io_return missing_intent_error
          else io_bind (io_call (StripeRetrieve (stripe_secret_key cfg) pid)) (\<lambda>intent.
                 io_bind (io_lift (read_prop intent ''status'')) (\<lambda>st.
                   io_return (json_resp 200 (JObj [(''status'', st), (''paymentIntent'', intent)]))))))
       (\<lambda>e. json_resp 500 (JObj [(''error'', JStr ''Failed to confirm payment intent''),
                                 (''message'', JStr (exn_message e))]))"

text \<open>\<open>GET /health\<close> (lines 426--428): no call, no failure.\<close>

definition health_handler :: "net \<Rightarrow> call list \<Rightarrow> response \<times> call list" where
  "health_handler net tr =
     (json_resp 200 (JObj [(''status'', JStr ''ok''), (''message'', JStr ''Server is running'')]), tr)"

section \<open>Lemmas\<close>

lemma payment_intent_call:
  fixes cfg :: config
  assumes "truthy (get_opt (JObj ps) ''amount'')" "le_zero (get_opt (JObj ps) ''amount'') = Inr False"
  defines "c \<equiv> StripeCreate (stripe_secret_key cfg)
                 (intent_params (get_opt (JObj ps) ''amount'')
                    (let cur = get_opt (JObj ps) ''currency'' in if cur = JUndef then JStr ''usd'' else cur)
                    (get_opt (JObj ps) ''items''))"
  shows "create_payment_intent_handler cfg (JObj ps) net tr =
           run_handler
             (\<lambda>net tr'. (case net tr c of
                 Ok intent \<Rightarrow> (case read_prop intent ''client_secret'' of
                             Inr cs \<Rightarrow> Inr (json_resp 200 (JObj [(''clientSecret'', cs)]))
                           | Inl e \<Rightarrow> Inl e)
               | ErrResp s d m \<Rightarrow> Inl (ErrResponse s d m) | NoResp m \<Rightarrow> Inl (ErrNoResponse m)
               | SdkError m \<Rightarrow> Inl (Thrown m), tr'))
             (\<lambda>e. json_resp 500 (JObj [(''error'', JStr ''Failed to create payment intent''),
                                      (''message'', JStr (exn_message e))]))
             net (tr @ [c])"
  using assms unfolding c_def
  by (simp add: create_payment_intent_handler_def read_prop_obj Let_def io_bind_def io_call_def io_lift_def
                io_return_def run_handler_def split: outcome.splits sum.splits)

text \<open>C12: the card endpoint answers 400 "Invalid amount" without calling the processor when the amount is missing or falsy, or compares as at most 0.\<close>

theorem payment_intent_invalid_amount:
  assumes "\<not> truthy (get_opt (JObj ps) ''amount'') \<or> le_zero (get_opt (JObj ps) ''amount'') = Inr True"
  shows "create_payment_intent_handler cfg (JObj ps) net tr = (invalid_amount_error, tr)"
  using assms by (auto simp: create_payment_intent_handler_def read_prop_obj Let_def)

theorem payment_intent_invalid_amount_witness:
  "create_payment_intent_handler (load_config sample_env) (JObj [(''currency'', JStr ''eur'')]) (\<lambda>tr c. NoResp ''down'') [] =
     (invalid_amount_error, [])
   \<and> create_payment_intent_handler (load_config sample_env) (JObj [(''amount'', JNum (num_of_int (-500)))]) (\<lambda>tr c. NoResp ''down'') [] =
     (invalid_amount_error, [])"
proof -
  have "le_zero (get_opt (JObj [(''amount'', JNum (num_of_int (-500)))]) ''amount'') = Inr True" by code_simp
  then show ?thesis
    using payment_intent_invalid_amount [of "[(''currency'', JStr ''eur'')]" "load_config sample_env" "\<lambda>tr c. NoResp ''down''" "[]"]
          payment_intent_invalid_amount [of "[(''amount'', JNum (num_of_int (-500)))]" "load_config sample_env" "\<lambda>tr c. NoResp ''down''" "[]"]
    by (simp add: sample_eval)
qed

text \<open>C13: for a positive integer amount and a currency code, the card endpoint makes exactly one processor call, creating a payment intent with that amount and currency, the serialised empty item list as metadata and automatic payment methods enabled, and answers 200 with the intent's client secret.\<close>

theorem payment_intent_created:
  assumes "0 < n" "n < ovf_bound"
      and "net tr (StripeCreate (stripe_secret_key cfg) (intent_params (JNum (num_of_int n)) (JStr cur) JUndef)) = Ok intent"
      and "read_prop intent ''client_secret'' = Inr cs"
  shows "create_payment_intent_handler cfg (JObj [(''amount'', JNum (num_of_int n)), (''currency'', JStr cur)]) net tr =
           (json_resp 200 (JObj [(''clientSecret'', cs)]),
            tr @ [StripeCreate (stripe_secret_key cfg) (intent_params (JNum (num_of_int n)) (JStr cur) JUndef)])
         \<and> intent_params (JNum (num_of_int n)) (JStr cur) JUndef =
           JObj [(''amount'', JNum (num_of_int n)), (''currency'', JStr cur),
                 (''metadata'', JObj [(''items'', JStr ''[]'')]),
                 (''automatic_payment_methods'', JObj [(''enabled'', JBool True)])]"
proof -
  have b: "\<bar>n\<bar> < ovf_bound" using assms(1,2) by simp
  have t: "truthy (JNum (num_of_int n))" using assms(1) truthy_num_of_int [OF b] by simp
  have l: "le_zero (JNum (num_of_int n)) = Inr False" using assms(1) num_le_zero_of_int [OF b] by (simp add: le_zero_def)
  have p: "intent_params (JNum (num_of_int n)) (JStr cur) JUndef =
           JObj [(''amount'', JNum (num_of_int n)), (''currency'', JStr cur),
                 (''metadata'', JObj [(''items'', JStr ''[]'')]),
                 (''automatic_payment_methods'', JObj [(''enabled'', JBool True)])]"
    by (simp add: intent_params_def join_comma_def)
  show ?thesis
    using payment_intent_call [of "[(''amount'', JNum (num_of_int n)), (''currency'', JStr cur)]"] t l assms(3,4) p
    by (simp add: get_opt_def run_handler_def)
qed

theorem payment_intent_created_witness:
  "create_payment_intent_handler (load_config sample_env) (JObj [(''amount'', JNum (num_of_int 1999)), (''currency'', JStr ''usd'')])
     (\<lambda>tr c. Ok (JObj [(''id'', JStr ''pi_1''), (''client_secret'', JStr ''pi_1_secret'')])) [] =
   (json_resp 200 (JObj [(''clientSecret'', JStr ''pi_1_secret'')]),
    [StripeCreate ''YOUR_STRIPE_SECRET_KEY''
       (JObj [(''amount'', JNum (num_of_int 1999)), (''currency'', JStr ''usd''),
              (''metadata'', JObj [(''items'', JStr ''[]'')]),
              (''automatic_payment_methods'', JObj [(''enabled'', JBool True)])])])"
proof -
  have "(1999::int) < ovf_bound" using ovf_bound_big by simp
  then show ?thesis
    using payment_intent_created [where n = 1999 and cfg = "load_config sample_env" and net = "\<lambda>tr c. Ok (JObj [(''id'', JStr ''pi_1''), (''client_secret'', JStr ''pi_1_secret'')])" and tr = "[]" and cur = "''usd''"
        and intent = "JObj [(''id'', JStr ''pi_1''), (''client_secret'', JStr ''pi_1_secret'')]" and cs = "JStr ''pi_1_secret''"]
    by (simp add: sample_eval)
qed

text \<open>C14: the amount guard \<open>!amount || amount <= 0\<close> lets through every truthy amount that does not convert to a number (a non-numeric string, an object): the processor is called with it.\<close>

theorem payment_intent_nonnumeric_amount:
  assumes "truthy a" "to_number a = Inr NaN"
  shows "snd (create_payment_intent_handler cfg (JObj [(''amount'', a)]) net tr) =
           tr @ [StripeCreate (stripe_secret_key cfg) (intent_params a (JStr ''usd'') JUndef)]"
proof -
  have "le_zero a = Inr False" using assms(2) by (simp add: le_zero_def)
  then show ?thesis
    using payment_intent_call [of "[(''amount'', a)]"] assms(1)
    by (simp add: get_opt_def run_handler_def split: outcome.splits sum.splits)
qed

theorem payment_intent_nonnumeric_amount_witness:
  "snd (create_payment_intent_handler (load_config sample_env) (JObj [(''amount'', JStr ''abc'')])
          (\<lambda>tr c. Ok (JObj [(''client_secret'', JStr ''cs'')])) []) =
   [StripeCreate ''YOUR_STRIPE_SECRET_KEY'' (intent_params (JStr ''abc'') (JStr ''usd'') JUndef)]"
proof -
  have "to_number (JStr ''abc'') = Inr NaN" by code_simp
  then show ?thesis
    using payment_intent_nonnumeric_amount [of "JStr ''abc''" "load_config sample_env"
        "\<lambda>tr c. Ok (JObj [(''client_secret'', JStr ''cs'')])" "[]"]
    by (simp add: sample_eval)
qed

text \<open>C33: an amount that converts to no primitive (an object with its own
  \<open>toString\<close> member) is not answered with 400: the comparison \<open>amount <= 0\<close> throws a
  TypeError, and the card endpoint answers 500 with its message, without calling the
  processor.\<close>

theorem payment_intent_amount_type_error:
  assumes "truthy a" "to_number a = Inl e"
  shows "create_payment_intent_handler cfg (JObj [(''amount'', a)]) net tr =
           (json_resp 500 (JObj [(''error'', JStr ''Failed to create payment intent''),
                                 (''message'', JStr (exn_message e))]), tr)"
  using assms
  by (simp add: create_payment_intent_handler_def read_prop_obj get_opt_def le_zero_def Let_def io_defs)

theorem payment_intent_amount_type_error_witness:
  "create_payment_intent_handler (load_config sample_env) (JObj [(''amount'', JObj [(''toString'', JNum (Fin 1 0))])])
     (\<lambda>tr c. NoResp ''down'') [] =
   (json_resp 500 (JObj [(''error'', JStr ''Failed to create payment intent''),
                         (''message'', JStr ''Cannot convert object to primitive value'')]), [])"
  using payment_intent_amount_type_error [where a = "JObj [(''toString'', JNum (Fin 1 0))]" and e = to_prim_error
      and cfg = "load_config sample_env" and net = "\<lambda>tr c. NoResp ''down''" and tr = "[]"]
  by (simp add: to_prim_error_def)

text \<open>C15: the confirmation endpoint answers 400 without calling the processor when the payment intent identifier is missing or falsy.\<close>

theorem confirm_missing_id:
  assumes "\<not> truthy (get_opt (JObj ps) ''paymentIntentId'')"
  shows "confirm_payment_intent_handler cfg (JObj ps) net tr = (missing_intent_error, tr)"
  using assms by (simp add: confirm_payment_intent_handler_def read_prop_obj)

theorem confirm_missing_id_witness:
  "confirm_payment_intent_handler (load_config sample_env) (JObj [(''paymentIntentId'', JStr [])]) (\<lambda>tr c. NoResp ''down'') [] =
   (missing_intent_error, [])"
  using confirm_missing_id [of "[(''paymentIntentId'', JStr [])]"] by (simp add: sample_eval)

text \<open>C16: with an identifier, the confirmation endpoint retrieves that payment intent with the configured key and answers 200 with its status and the whole intent object.\<close>

theorem confirm_relay:
  assumes "truthy (get_opt (JObj ps) ''paymentIntentId'')"
      and "net tr (StripeRetrieve (stripe_secret_key cfg) (get_opt (JObj ps) ''paymentIntentId'')) = Ok intent"
      and "read_prop intent ''status'' = Inr st"
  shows "confirm_payment_intent_handler cfg (JObj ps) net tr =
           (json_resp 200 (JObj [(''status'', st), (''paymentIntent'', intent)]),
            tr @ [StripeRetrieve (stripe_secret_key cfg) (get_opt (JObj ps) ''paymentIntentId'')])"
  using assms
  by (simp add: confirm_payment_intent_handler_def read_prop_obj run_handler_def io_bind_def io_call_def
                io_lift_def io_return_def)

theorem confirm_relay_witness:
  "confirm_payment_intent_handler (load_config sample_env) (JObj [(''paymentIntentId'', JStr ''pi_1'')])
     (\<lambda>tr c. Ok (JObj [(''status'', JStr ''succeeded'')])) [] =
   (json_resp 200 (JObj [(''status'', JStr ''succeeded''), (''paymentIntent'', JObj [(''status'', JStr ''succeeded'')])]),
    [StripeRetrieve ''YOUR_STRIPE_SECRET_KEY'' (JStr ''pi_1'')])"
  using confirm_relay [where ps = "[(''paymentIntentId'', JStr ''pi_1'')]" and cfg = "load_config sample_env"
      and net = "\<lambda>tr c. Ok (JObj [(''status'', JStr ''succeeded'')])" and tr = "[]"
      and intent = "JObj [(''status'', JStr ''succeeded'')]" and st = "JStr ''succeeded''"]
  by (simp add: sample_eval)

end
