(* ===== verification/Server.thy ===== *)
theory Server
  imports Stripe "HOL-Library.Sublist"
begin

text \<open>
  The relay as a whole (\<open>src/server.js\<close>, lines 102--428): the eight routes, each
  served by its handler, over one configuration fixed at start-up. The server keeps no
  state of its own, so the calls it makes are all a run leaves. A sequential run
  (\<open>runs\<close>) handles one request after another; its traces are sequences of handler
  segments (\<open>good_trace\<close>): empty, a credential exchange alone, a credential exchange
  followed by one Bearer call to the configured base URL, or one card-processor call with
  the configured key. A concurrent run (\<open>conc_runs\<close>) interleaves the calls of the
  requests in flight, as Node does at each \<open>await\<close>: each request's own calls are a
  prefix of one such segment.
\<close>

text \<open>The routes (the \<open>app.post\<close> and \<open>app.get\<close> registrations), with what each
  handler reads from the request: the parsed body or the route parameter.\<close>

datatype request =
    ClientToken
  | CreateOrder jval
  | CreateOrderLegacy jval
  | CaptureOrder string
  | CaptureOrderLegacy string
  | CreatePaymentIntent jval
  | ConfirmPaymentIntent jval
  | Health

fun handle :: "config \<Rightarrow> request \<Rightarrow> net \<Rightarrow> call list \<Rightarrow> response \<times> call list" where
  "handle cfg ClientToken = client_token_handler cfg"
| "handle cfg (CreateOrder b) = create_order_handler cfg b"
| "handle cfg (CreateOrderLegacy b) = create_order_legacy_handler cfg b"
| "handle cfg (CaptureOrder oid) = capture_order_handler cfg oid"
| "handle cfg (CaptureOrderLegacy oid) = capture_order_legacy_handler cfg oid"
| "handle cfg (CreatePaymentIntent b) = create_payment_intent_handler cfg b"
| "handle cfg (ConfirmPaymentIntent b) = confirm_payment_intent_handler cfg b"
| "handle cfg Health = health_handler"

text \<open>The traces a server started with \<open>cfg\<close> can leave, against processor \<open>net\<close>.\<close>

inductive_set runs :: "config \<Rightarrow> net \<Rightarrow> call list set" for cfg :: config and net :: net where
  Nil: "[] \<in> runs cfg net"
| Step: "tr \<in> runs cfg net \<Longrightarrow> snd (handle cfg r net tr) \<in> runs cfg net"

text \<open>The well-formed traces: segments of the four shapes above.\<close>

inductive_set good_trace :: "config \<Rightarrow> call list set" for cfg :: config where
  Nil: "[] \<in> good_trace cfg"
| Token: "tr \<in> good_trace cfg \<Longrightarrow> tr @ [PayPalPost (token_request cfg)] \<in> good_trace cfg"
| Bearer: "tr \<in> good_trace cfg \<Longrightarrow>
             tr @ [PayPalPost (token_request cfg), PayPalPost (bearer_request cfg p t b)] \<in> good_trace cfg"
| Card: "tr \<in> good_trace cfg \<Longrightarrow> tr @ [StripeCreate (stripe_secret_key cfg) x] \<in> good_trace cfg"
| Retrieve: "tr \<in> good_trace cfg \<Longrightarrow> tr @ [StripeRetrieve (stripe_secret_key cfg) x] \<in> good_trace cfg"

text \<open>The calls one handler adds to the trace.\<close>

definition segment :: "config \<Rightarrow> call list \<Rightarrow> bool" where
  "segment cfg new =
     (new = [] \<or> new = [PayPalPost (token_request cfg)]
      \<or> (\<exists>p t b. new = [PayPalPost (token_request cfg), PayPalPost (bearer_request cfg p t b)])
      \<or> (\<exists>x. new = [StripeCreate (stripe_secret_key cfg) x])
      \<or> (\<exists>x. new = [StripeRetrieve (stripe_secret_key cfg) x]))"

text \<open>Concurrent runs. Node suspends a handler at every \<open>await\<close>, so the requests
  in flight interleave their calls, and no request is ordered relative to another (the
  specification's section 5). A concurrent trace tags each call with the request that
  made it, and \<open>proj i\<close> keeps request \<open>i\<close>'s own calls, in order. A step lets one
  request make its next call: the calls it has made, followed by the new one, must be a
  prefix of the calls its handler makes against some processor. The processor is
  arbitrary per request, so its answers may depend on anything the other requests did;
  a request still in flight has made a prefix of its calls. A sequential run of
  \<open>runs\<close> is the schedule in which each request finishes before the next starts.\<close>

definition proj :: "nat \<Rightarrow> (nat \<times> call) list \<Rightarrow> call list" where
  "proj i tau = map snd (filter (\<lambda>p. fst p = i) tau)"

inductive_set conc_runs :: "config \<Rightarrow> (nat \<times> call) list set" for cfg :: config where
  Nil: "[] \<in> conc_runs cfg"
| Step: "tau \<in> conc_runs cfg \<Longrightarrow> prefix (proj i tau @ [c]) (snd (handle cfg r net [])) \<Longrightarrow>
           tau @ [(i, c)] \<in> conc_runs cfg"

section \<open>Lemmas\<close>

lemma good_trace_segment: "tr \<in> good_trace cfg \<Longrightarrow> segment cfg new \<Longrightarrow> tr @ new \<in> good_trace cfg"
  by (auto simp: segment_def intro: good_trace.intros)

lemma bearer_request_ex [simp]: "\<exists>p t b. bearer_request cfg p' t' b' = bearer_request cfg p t b"
  by blast

lemma get_access_token_trace:
  "get_access_token cfg net tr = (r, tr') \<Longrightarrow>
     (tr' = tr \<and> (\<forall>t. r \<noteq> Inr t)) \<or> tr' = tr @ [PayPalPost (token_request cfg)]"
  by (auto simp: get_access_token_def io_defs split: if_splits outcome.splits sum.splits prod.splits)

lemma create_order_segment: "\<exists>new. snd (create_order_handler cfg b net tr) = tr @ new \<and> segment cfg new"
proof (cases "get_access_token cfg net tr")
  case (Pair r tr1)
  from get_access_token_trace [OF this] show ?thesis using Pair
    by (auto simp: create_order_handler_def order_request_def segment_def io_defs
             split: if_splits outcome.splits sum.splits prod.splits)
qed


text \<open>The shape of three wallet handlers: the secret guard, the token, one Bearer call
  whose data is relayed.\<close>

lemma wallet_call_segment:
  "\<exists>new. snd (run_handler
                (if \<not> secret_set cfg then io_return e0
                 else io_bind (get_access_token cfg) (\<lambda>tok.
                        io_bind (io_lift (to_str tok)) (\<lambda>ts.
                          io_bind (io_call (PayPalPost (bearer_request cfg p ts b))) (\<lambda>d. io_return (f d)))))
                h net tr) = tr @ new \<and> segment cfg new"
proof (cases "get_access_token cfg net tr")
  case (Pair r tr1)
  from get_access_token_trace [OF this] show ?thesis using Pair
    by (auto simp: segment_def io_defs split: outcome.splits sum.splits prod.splits)
qed

lemma create_order_legacy_segment: "\<exists>new. snd (create_order_legacy_handler cfg b net tr) = tr @ new \<and> segment cfg new"
  unfolding create_order_legacy_handler_def order_request_def by (rule wallet_call_segment)

lemma capture_order_segment: "\<exists>new. snd (capture_order_handler cfg oid net tr) = tr @ new \<and> segment cfg new"
  unfolding capture_order_handler_def capture_request_def by (rule wallet_call_segment)

lemma capture_order_legacy_segment:
  "\<exists>new. snd (capture_order_legacy_handler cfg oid net tr) = tr @ new \<and> segment cfg new"
  unfolding capture_order_legacy_handler_def capture_request_def by (rule wallet_call_segment)

lemma client_token_segment: "\<exists>new. snd (client_token_handler cfg net tr) = tr @ new \<and> segment cfg new"
proof (cases "get_access_token cfg net tr")
  case (Pair r tr1)
  from get_access_token_trace [OF this] show ?thesis using Pair
    by (auto simp: client_token_handler_def generate_client_token_def client_token_request_def
                   segment_def io_defs split: if_splits outcome.splits sum.splits prod.splits)
qed

lemma payment_intent_segment: "\<exists>new. snd (create_payment_intent_handler cfg b net tr) = tr @ new \<and> segment cfg new"
  by (auto simp: create_payment_intent_handler_def segment_def io_defs Let_def
           split: if_splits outcome.splits sum.splits prod.splits)

lemma confirm_intent_segment: "\<exists>new. snd (confirm_payment_intent_handler cfg b net tr) = tr @ new \<and> segment cfg new"
  by (auto simp: confirm_payment_intent_handler_def segment_def io_defs
           split: if_splits outcome.splits sum.splits prod.splits)

lemma handle_segment: "\<exists>new. snd (handle cfg r net tr) = tr @ new \<and> segment cfg new"
proof (cases r)
  case Health
  then show ?thesis by (auto simp: health_handler_def segment_def)
qed (simp_all add: create_order_segment create_order_legacy_segment capture_order_segment
     capture_order_legacy_segment client_token_segment payment_intent_segment confirm_intent_segment)

lemma runs_good_trace: "tr \<in> runs cfg net \<Longrightarrow> tr \<in> good_trace cfg"
proof (induction rule: runs.induct)
  case Nil
  then show ?case by (rule good_trace.Nil)
next
  case (Step tr r)
  obtain new where "snd (handle cfg r net tr) = tr @ new" "segment cfg new"
    using handle_segment by blast
  then show ?case using Step.IH by (simp add: good_trace_segment)
qed


lemma token_not_bearer [simp]: "token_request cfg \<noteq> bearer_request cfg' p t b"
  by (simp add: token_request_def bearer_request_def)

lemma good_trace_token_before_bearer:
  "tr \<in> good_trace cfg \<Longrightarrow> i < length tr \<Longrightarrow> tr ! i = PayPalPost (bearer_request cfg' p t b) \<Longrightarrow>
     0 < i \<and> tr ! (i - 1) = PayPalPost (token_request cfg)"
proof (induction arbitrary: i rule: good_trace.induct)
  case (Bearer tr p' t' b')
  then show ?case
    by (cases "i < length tr")
       (auto simp: nth_append less_Suc_eq not_less split: if_splits dest: le_less_Suc_eq [THEN iffD1])
qed (auto simp: nth_append split: if_splits)

lemma good_trace_calls:
  "tr \<in> good_trace cfg \<Longrightarrow> c \<in> set tr \<Longrightarrow>
     (case c of PayPalPost r \<Rightarrow> \<exists>path. req_url r = paypal_base_url cfg @ path
              | StripeCreate k x \<Rightarrow> k = stripe_secret_key cfg
              | StripeRetrieve k x \<Rightarrow> k = stripe_secret_key cfg)"
  by (induction rule: good_trace.induct) (auto simp: token_request_def bearer_request_def)

lemma proj_snoc [simp]:
  "proj i (tau @ [(j, c)]) = (if j = i then proj i tau @ [c] else proj i tau)"
  by (simp add: proj_def)

lemma conc_runs_proj:
  "tau \<in> conc_runs cfg \<Longrightarrow> \<exists>r net. prefix (proj i tau) (snd (handle cfg r net []))"
proof (induction rule: conc_runs.induct)
  case Nil
  then show ?case by (simp add: proj_def)
next
  case (Step tau j c r net)
  then show ?case by (cases "j = i") auto
qed

lemma conc_runs_segment:
  "tau \<in> conc_runs cfg \<Longrightarrow> \<exists>new. prefix (proj i tau) new \<and> segment cfg new"
  using conc_runs_proj [of tau cfg i] handle_segment [of cfg _ _ "[]"] by fastforce

lemma segment_prefix_bearer:
  assumes "prefix xs new" "segment cfg new" "k < length xs" "xs ! k = PayPalPost (bearer_request cfg' p ts b)"
  shows "0 < k \<and> xs ! (k - 1) = PayPalPost (token_request cfg)"
proof -
  have n: "k < length new" "new ! k = xs ! k" using assms(1,3) prefix_length_le [OF assms(1)]
    by (auto simp: prefix_def nth_append)
  have "xs ! (k - 1) = new ! (k - 1)" using assms(1,3) by (auto simp: prefix_def nth_append)
  then show ?thesis using assms(2,4) n by (auto simp: segment_def nth_Cons split: nat.splits)
qed

lemma segment_calls:
  "segment cfg new \<Longrightarrow> c \<in> set new \<Longrightarrow>
     (case c of PayPalPost r \<Rightarrow> \<exists>path. req_url r = paypal_base_url cfg @ path
              | StripeCreate k x \<Rightarrow> k = stripe_secret_key cfg
              | StripeRetrieve k x \<Rightarrow> k = stripe_secret_key cfg)"
  by (auto simp: segment_def token_request_def bearer_request_def)

end
