(* ===== verification/Uri.thy ===== *)
theory Uri
  imports Encoding
begin

text \<open>
  \<open>decodeURIComponent\<close>, which Express applies to every route parameter before a
  handler reads it from \<open>req.params\<close> (\<open>src/server.js\<close>, lines 300 and 336), and
  \<open>encodeURIComponent\<close>, with which a client puts an order identifier into the capture
  path. Decoding turns \<open>%XX\<close> escapes into bytes and well-formed UTF-8 byte sequences
  into characters; a malformed escape or sequence is a URIError, which Express answers
  with 400. The main lemma, \<open>uri_roundtrip\<close>, is that decoding inverts encoding.
\<close>

text \<open>Hexadecimal digits of an escape: \<open>0-9\<close>, \<open>a-f\<close>, \<open>A-F\<close>.\<close>

definition hex_val :: "char \<Rightarrow> nat option" where
  "hex_val c =
     (let k = of_char c :: nat in
      if 48 \<le> k \<and> k < 58 then Some (k - 48)
      else if 97 \<le> k \<and> k < 103 then Some (k - 87)
      else if 65 \<le> k \<and> k < 71 then Some (k - 55) else None)"

definition hex_upper :: "nat \<Rightarrow> char" where
  "hex_upper n = (if n < 10 then char_of (48 + n) else char_of (55 + n))"

text \<open>An escaped string is first cut into characters and escaped bytes \<open>%XX\<close>; a \<open>%\<close>
  that does not start two hexadecimal digits is a URIError.\<close>

datatype utok = TChar char | TByte nat

fun uri_tokens :: "string \<Rightarrow> utok list option" where
  "uri_tokens [] = Some []"
| "uri_tokens (c # cs) =
     (if c = CHR ''%'' then
        (case cs of
           h1 # h2 # rest \<Rightarrow>
             (case (hex_val h1, hex_val h2) of
                (Some a, Some b) \<Rightarrow> map_option (Cons (TByte (16 * a + b))) (uri_tokens rest)
              | _ \<Rightarrow> None)
         | _ \<Rightarrow> None)
      else map_option (Cons (TChar c)) (uri_tokens cs))"

text \<open>The outcome of \<open>decodeURIComponent\<close>: the decoded string, a URIError, or a string
  that holds a code point beyond U+00FF, which the model's characters cannot hold.\<close>

datatype uri_result = UriOk string | UriWide | UriError

fun uri_cons :: "char \<Rightarrow> uri_result \<Rightarrow> uri_result" where
  "uri_cons c (UriOk s) = UriOk (c # s)"
| "uri_cons c r = r"

fun uri_wide :: "uri_result \<Rightarrow> uri_result" where
  "uri_wide UriError = UriError"
| "uri_wide _ = UriWide"

text \<open>The length of the UTF-8 sequence a byte starts (0: not a lead byte), and the code
  point a whole sequence encodes when it is well formed (no overlong form, no surrogate,
  nothing past U+10FFFF).\<close>

definition utf8_lead :: "nat \<Rightarrow> nat" where
  "utf8_lead b =
     (if b < 128 then 1 else if b < 192 then 0 else if b < 224 then 2
      else if b < 240 then 3 else if b < 248 then 4 else 0)"

definition utf8_cp :: "nat list \<Rightarrow> nat option" where
  "utf8_cp bs =
     (case bs of
        [] \<Rightarrow> None
      | b # cs \<Rightarrow>
          (let n = length bs;
               v = foldl (\<lambda>acc c. acc * 64 + (c - 128)) (b mod 2 ^ (7 - n)) cs
           in if \<not> list_all (\<lambda>c. 128 \<le> c \<and> c < 192) cs then None
              else if (n = 2 \<and> v < 128) \<or> (n = 3 \<and> (v < 2048 \<or> (55296 \<le> v \<and> v < 57344)))
                      \<or> (n = 4 \<and> (v < 65536 \<or> 1114111 < v)) then None
              else Some v))"

definition cont_bytes :: "nat \<Rightarrow> utok list \<Rightarrow> nat list option" where
  "cont_bytes k ts =
     (if k \<le> length ts \<and> list_all (\<lambda>t. case t of TByte _ \<Rightarrow> True | TChar _ \<Rightarrow> False) (take k ts)
      then Some (map (\<lambda>t. case t of TByte b \<Rightarrow> b | TChar _ \<Rightarrow> 0) (take k ts)) else None)"

text \<open>Decode (ECMA-262, 19.2.6.5) over the tokens, with an empty reserved set.\<close>

function uri_utf8 :: "utok list \<Rightarrow> uri_result" where
  "uri_utf8 [] = UriOk []"
| "uri_utf8 (TChar c # ts) = uri_cons c (uri_utf8 ts)"
| "uri_utf8 (TByte b # ts) =
     (let n = utf8_lead b in
      if n = 0 then UriError
      else if n = 1 then uri_cons (char_of b) (uri_utf8 ts)
      else (case cont_bytes (n - 1) ts of
              None \<Rightarrow> UriError
            | Some bs \<Rightarrow>
                (case utf8_cp (b # bs) of
                   None \<Rightarrow> UriError
                 | Some v \<Rightarrow>
                     if v < 256 then uri_cons (char_of v) (uri_utf8 (drop (n - 1) ts))
                     else uri_wide (uri_utf8 (drop (n - 1) ts)))))"
  by pat_completeness auto
termination
  by (relation "measure length") auto

definition decode_uri_component :: "string \<Rightarrow> uri_result" where
  "decode_uri_component s = (case uri_tokens s of None \<Rightarrow> UriError | Some ts \<Rightarrow> uri_utf8 ts)"

definition uri_unreserved :: "char \<Rightarrow> bool" where
  "uri_unreserved c =
     (let k = of_char c :: nat in
      (48 \<le> k \<and> k < 58) \<or> (65 \<le> k \<and> k < 91) \<or> (97 \<le> k \<and> k < 123)
      \<or> c \<in> set (''-_.!~*()'' @ [CHR 0x27]))"

definition pct :: "byte \<Rightarrow> string" where
  "pct b = [CHR ''%'', hex_upper (unat b div 16), hex_upper (unat b mod 16)]"

text \<open>\<open>encodeURIComponent\<close> (ECMA-262, 19.2.6.4), as a client builds the capture URL, and
  the tokens it produces.\<close>

definition encode_uri_component :: "string \<Rightarrow> string" where
  "encode_uri_component s = concat (map (\<lambda>c. if uri_unreserved c then [c] else concat (map pct (utf8_char c))) s)"

definition tok_enc :: "char \<Rightarrow> utok list" where
  "tok_enc c = (if uri_unreserved c then [TChar c] else map (\<lambda>b. TByte (unat b)) (utf8_char c))"

section \<open>Lemmas\<close>

lemma utf8_cp_two:
  "utf8_cp [x, y] =
     (if \<not> (128 \<le> y \<and> y < 192) then None
      else if x mod 32 * 64 + (y - 128) < 128 then None else Some (x mod 32 * 64 + (y - 128)))"
  by (simp add: utf8_cp_def)

lemma hex_val_upper: "n < 16 \<Longrightarrow> hex_val (hex_upper n) = Some n"
  by (auto simp: hex_val_def hex_upper_def Let_def)

lemma uri_tokens_pct:
  "uri_tokens (pct b @ rest) = map_option (Cons (TByte (unat b))) (uri_tokens rest)"
proof -
  have "unat b div 16 < 16" "unat b mod 16 < 16" using unat_byte_less [of b] by simp_all
  then show ?thesis by (simp add: pct_def hex_val_upper)
qed

lemma uri_tokens_pcts:
  "uri_tokens (concat (map pct bs) @ rest) = map_option (\<lambda>ts. map (\<lambda>b. TByte (unat b)) bs @ ts) (uri_tokens rest)"
  by (induction bs) (simp_all add: uri_tokens_pct option.map_comp comp_def option.map_ident)

lemma unreserved_not_pct: "uri_unreserved c \<Longrightarrow> c \<noteq> CHR ''%''"
  by (auto simp: uri_unreserved_def)

lemma uri_tokens_encode: "uri_tokens (encode_uri_component s) = Some (concat (map tok_enc s))"
proof (induction s)
  case Nil
  then show ?case by (simp add: encode_uri_component_def)
next
  case (Cons c s)
  then show ?case
    by (cases "uri_unreserved c")
       (simp_all add: encode_uri_component_def tok_enc_def unreserved_not_pct uri_tokens_pcts)
qed

lemma uri_utf8_tok_enc: "uri_utf8 (tok_enc c @ ts) = uri_cons c (uri_utf8 ts)"
proof (cases "uri_unreserved c")
  case True
  then show ?thesis by (simp add: tok_enc_def)
next
  case False
  have n: "of_char c < (256::nat)" by (rule nat_of_char_less_256)
  show ?thesis
  proof (cases "of_char c < (128::nat)")
    case True
    then show ?thesis using False n by (simp add: tok_enc_def utf8_char_def unat_of_nat utf8_lead_def)
  next
    case lo: False
    have d: "2 \<le> of_char c div (64::nat)" "of_char c div (64::nat) < 4" using lo n by linarith+
    define b1 :: byte where "b1 = word_of_nat (192 + of_char c div 64)"
    define b2 :: byte where "b2 = word_of_nat (128 + of_char c mod 64)"
    have u1: "unat b1 = 192 + of_char c div 64" unfolding b1_def using d by (simp only: unat_of_nat) simp
    have u2: "unat b2 = 128 + of_char c mod 64" unfolding b2_def by (simp only: unat_of_nat) simp
    have e: "utf8_char c = [b1, b2]" using lo by (simp add: utf8_char_def b1_def b2_def Let_def)
    have l: "utf8_lead (unat b1) = 2" using u1 d by (simp add: utf8_lead_def)
    have "of_char c div (64::nat) = 2 \<or> of_char c div (64::nat) = 3" using d by linarith
    then have m: "(192 + of_char c div 64) mod 32 = (of_char c div 64 :: nat)" by auto
    have v: "unat b1 mod 32 * 64 + (unat b2 - 128) = of_char c" using u1 u2 m by simp
    have cp: "utf8_cp [unat b1, unat b2] = Some (of_char c)"
      unfolding utf8_cp_two v using u2 lo by simp
    have "uri_utf8 (TByte (unat b1) # TByte (unat b2) # ts) = uri_cons (char_of (of_char c)) (uri_utf8 ts)"
      using l cp n by (simp add: cont_bytes_def Let_def)
    then show ?thesis using False e by (simp add: tok_enc_def)
  qed
qed

lemma uri_roundtrip: "decode_uri_component (encode_uri_component s) = UriOk s"
proof -
  have "uri_utf8 (concat (map tok_enc s)) = UriOk s"
    by (induction s) (simp_all add: uri_utf8_tok_enc)
  then show ?thesis by (simp add: decode_uri_component_def uri_tokens_encode)
qed
lemma encode_no_slash: "CHR ''/'' \<notin> set (encode_uri_component s) \<and> CHR ''?'' \<notin> set (encode_uri_component s)"
proof -
  have v: "hex_val (CHR ''/'') = None" "hex_val (CHR ''?'') = None" by (simp_all add: hex_val_def)
  have h: "hex_upper n \<noteq> CHR ''/'' \<and> hex_upper n \<noteq> CHR ''?''" if "n < 16" for n
    using hex_val_upper [OF that] v by auto
  have "CHR ''/'' \<notin> set (pct b) \<and> CHR ''?'' \<notin> set (pct b)" for b
  proof -
    have "unat b div 16 < 16" "unat b mod 16 < 16" using unat_byte_less [of b] by simp_all
    then show ?thesis using h [of "unat b div 16"] h [of "unat b mod 16"] by (auto simp: pct_def)
  qed
  then show ?thesis by (auto simp: encode_uri_component_def uri_unreserved_def)
qed

lemma encode_nonempty: "s \<noteq> [] \<Longrightarrow> encode_uri_component s \<noteq> []"
  by (cases s) (auto simp: encode_uri_component_def utf8_char_def Let_def pct_def)

end
