(* ===== verification/Routing.thy ===== *)
theory Routing
  imports Server Uri
begin

text \<open>
  How an HTTP request reaches a handler (\<open>src/server.js\<close>, lines 11--12 and 102--431).
  The application's stack is, in registration order: \<open>cors()\<close>, \<open>express.json()\<close>, the
  eight routes, and \<open>express.static('.')\<close>. Express walks the stack with \<open>next()\<close>
  and stops at the first layer that answers. A route answers when its path pattern
  matches the request path (literal segments compared without regard to ASCII case,
  one optional trailing slash, a \<open>:name\<close> segment matching one non-empty segment) and
  it handles the method (\<open>app.get\<close> also serves HEAD). A route parameter is decoded with
  \<open>decodeURIComponent\<close> as soon as the path matches; a URIError is answered with 400.
  \<open>cors()\<close> answers every OPTIONS request itself (204); \<open>express.json()\<close> answers a
  body in a charset or encoding it cannot read with 415, one over its 100kb limit with
  413 and one it cannot parse as a JSON object or array with 400, and gives a non-JSON
  request the body \<open>{}\<close>; \<open>express.static\<close> takes every remaining GET and HEAD (the files it
  serves are not modelled); anything else is a 404. The stack is a list, and the walk is
  structural recursion over it.
\<close>

section \<open>The route table\<close>

datatype route_target =
    RClientToken | RCreateOrder | RCreateOrderLegacy | RCaptureOrder | RCaptureOrderLegacy
  | RCreatePaymentIntent | RConfirmPaymentIntent | RHealth

record route_layer =
  rmethod :: string
  rpath :: string
  rtarget :: route_target

text \<open>The \<open>app.post\<close> and \<open>app.get\<close> registrations, in the order of the source.\<close>

definition routes :: "route_layer list" where
  "routes = [
    \<lparr>rmethod = ''post'', rpath = ''/paypal-api/client-token'', rtarget = RClientToken\<rparr>,
    \<lparr>rmethod = ''post'', rpath = ''/api/orders'', rtarget = RCreateOrder\<rparr>,
    \<lparr>rmethod = ''post'', rpath = ''/paypal-api/checkout/orders/create'', rtarget = RCreateOrderLegacy\<rparr>,
    \<lparr>rmethod = ''post'', rpath = ''/api/orders/:orderID/capture'', rtarget = RCaptureOrder\<rparr>,
    \<lparr>rmethod = ''post'', rpath = ''/paypal-api/checkout/orders/:orderId/capture'', rtarget = RCaptureOrderLegacy\<rparr>,
    \<lparr>rmethod = ''post'', rpath = ''/stripe-api/create-payment-intent'', rtarget = RCreatePaymentIntent\<rparr>,
    \<lparr>rmethod = ''post'', rpath = ''/stripe-api/confirm-payment-intent'', rtarget = RConfirmPaymentIntent\<rparr>,
    \<lparr>rmethod = ''get'', rpath = ''/health'', rtarget = RHealth\<rparr>]"

datatype layer = Cors | JsonParser | Route route_layer | Static

definition app_stack :: "layer list" where
  "app_stack = [Cors, JsonParser] @ map Route routes @ [Static]"

section \<open>Path matching\<close>

fun split_on :: "char \<Rightarrow> string \<Rightarrow> string list" where
  "split_on d [] = [[]]"
| "split_on d (c # cs) =
     (if c = d then [] # split_on d cs
      else (case split_on d cs of w # ws \<Rightarrow> (c # w) # ws | [] \<Rightarrow> [[c]]))"

datatype seg = Lit string | Par string

text \<open>A registered path, \<open>/a/:b/c\<close>, as its segments.\<close>

definition compile_path :: "string \<Rightarrow> seg list" where
  "compile_path p =
     map (\<lambda>w. if w \<noteq> [] \<and> hd w = CHR '':'' then Par (tl w) else Lit w) (split_on CHR ''/'' (tl p))"

definition ascii_lower :: "char \<Rightarrow> char" where
  "ascii_lower c = (let k = of_char c :: nat in if 65 \<le> k \<and> k < 91 then char_of (k + 32) else c)"

fun match_segs :: "seg list \<Rightarrow> string list \<Rightarrow> (string \<times> string) list option" where
  "match_segs [] [] = Some []"
| "match_segs (Lit l # ps) (w # ws) =
     (if map ascii_lower w = map ascii_lower l then match_segs ps ws else None)"
| "match_segs (Par n # ps) (w # ws) =
     (if w = [] then None else map_option (Cons (n, w)) (match_segs ps ws))"
| "match_segs _ _ = None"

text \<open>The path of a request URL (before the query), and the match of a pattern against
  it: one trailing slash may be dropped, the rest must match segment by segment.\<close>

definition url_path :: "string \<Rightarrow> string" where
  "url_path url = takeWhile (\<lambda>c. c \<noteq> CHR ''?'') url"

definition match_path :: "string \<Rightarrow> string \<Rightarrow> (string \<times> string) list option" where
  "match_path pat path =
     (let p = (if path \<noteq> [] \<and> last path = CHR ''/'' \<and> 1 < length path then butlast path else path)
      in case p of
           c # rest \<Rightarrow> if c = CHR ''/'' then match_segs (compile_path pat) (split_on CHR ''/'' rest) else None
         | [] \<Rightarrow> None)"

definition handles_method :: "route_layer \<Rightarrow> string \<Rightarrow> bool" where
  "handles_method r m =
     (let lm = map ascii_lower m in lm = rmethod r \<or> (lm = ''head'' \<and> rmethod r = ''get''))"

text \<open>Decoding the parameters: the first URIError wins, then a code point the model cannot
  hold.\<close>

fun decode_params :: "(string \<times> string) list \<Rightarrow> (string \<times> uri_result) list" where
  "decode_params [] = []"
| "decode_params ((n, v) # ps) = (n, decode_uri_component v) # decode_params ps"

fun param_value :: "(string \<times> uri_result) list \<Rightarrow> string \<Rightarrow> string" where
  "param_value [] k = []"
| "param_value ((n, r) # ps) k = (if n = k then (case r of UriOk s \<Rightarrow> s | _ \<Rightarrow> []) else param_value ps k)"

section \<open>Dispatch\<close>

text \<open>A request body \<open>express.json()\<close> reads (a JSON content type and a body): the
  charset parameter of its content type and its \<open>Content-Encoding\<close> as sent, its length
  in bytes once inflated, and what \<open>JSON.parse\<close> makes of its text (\<open>None\<close> when it
  throws). Any other request is \<open>NoJsonBody\<close>.\<close>

record json_body =
  bcharset :: "string option"
  bencoding :: "string option"
  blength :: nat
  bparsed :: "jval option"

datatype body_in = NoJsonBody | JsonBody json_body

record http_request =
  hmethod :: string
  hurl :: string
  hbody :: body_in

text \<open>\<open>express.json()\<close> with its defaults (body-parser's \<open>json\<close>): the charset must
  begin with \<open>utf-\<close> (415), the encoding must be one it can inflate (415), the body
  may hold at most 100kb (413); an empty body is \<open>{}\<close>, and in strict mode the text must
  parse to an object or an array (400). The result is the error status or \<open>req.body\<close>;
  a request it does not read gets \<open>req.body = {}\<close>.\<close>

definition json_limit :: nat where
  "json_limit = 100 * 1024"

definition parse_body :: "body_in \<Rightarrow> nat + jval" where
  "parse_body b =
     (case b of
        NoJsonBody \<Rightarrow> Inr (JObj [])
      | JsonBody jb \<Rightarrow>
          (let cs = map ascii_lower (env_or (bcharset jb) ''utf-8'');
               enc = map ascii_lower (env_or (bencoding jb) ''identity'')
           in if take 4 cs \<noteq> ''utf-'' then Inl 415
              else if enc \<notin> {''identity'', ''gzip'', ''deflate''} then Inl 415
              else if json_limit < blength jb then Inl 413
              else if blength jb = 0 then Inr (JObj [])
              else (case bparsed jb of
                      Some (JObj ps) \<Rightarrow> Inr (JObj ps)
                    | Some (JArr xs) \<Rightarrow> Inr (JArr xs)
                    | _ \<Rightarrow> Inl 400)))"

text \<open>\<open>req.body\<close> as a route handler sees it, once the parser has let the request
  through.\<close>

definition req_body :: "body_in \<Rightarrow> jval" where
  "req_body b = (case parse_body b of Inr v \<Rightarrow> v | Inl _ \<Rightarrow> JObj [])"

definition target_request :: "route_target \<Rightarrow> (string \<times> uri_result) list \<Rightarrow> jval \<Rightarrow> request" where
  "target_request t ps b =
     (case t of
        RClientToken \<Rightarrow> ClientToken
      | RCreateOrder \<Rightarrow> CreateOrder b
      | RCreateOrderLegacy \<Rightarrow> CreateOrderLegacy b
      | RCaptureOrder \<Rightarrow> CaptureOrder (param_value ps ''orderID'')
      | RCaptureOrderLegacy \<Rightarrow> CaptureOrderLegacy (param_value ps ''orderId'')
      | RCreatePaymentIntent \<Rightarrow> CreatePaymentIntent b
      | RConfirmPaymentIntent \<Rightarrow> ConfirmPaymentIntent b
      | RHealth \<Rightarrow> Health)"

datatype routed = Dispatch request | Preflight | BadRequest | BodyError nat | NotFound | StaticFiles | Unrepresentable

fun dispatch :: "layer list \<Rightarrow> http_request \<Rightarrow> routed" where
  "dispatch [] rq = NotFound"
| "dispatch (Cors # ls) rq =
     (if map ascii_lower (hmethod rq) = ''options'' then Preflight else dispatch ls rq)"
| "dispatch (JsonParser # ls) rq =
     (case parse_body (hbody rq) of Inl s \<Rightarrow> BodyError s | Inr _ \<Rightarrow> dispatch ls rq)"
| "dispatch (Route r # ls) rq =
     (case match_path (rpath r) (url_path (hurl rq)) of
        None \<Rightarrow> dispatch ls rq
      | Some ps \<Rightarrow>
          (let ds = decode_params ps in
           if UriError \<in> set (map snd ds) then BadRequest
           else if \<not> handles_method r (hmethod rq) then dispatch ls rq
           else if UriWide \<in> set (map snd ds) then Unrepresentable
           else Dispatch (target_request (rtarget r) ds (req_body (hbody rq)))))"
| "dispatch (Static # ls) rq =
     (if map ascii_lower (hmethod rq) \<in> {''get'', ''head''} then StaticFiles else dispatch ls rq)"

text \<open>What the server does with a request: a handler's response, a framework response
  with its status (204, 400, 404), static files, or a parameter the model cannot hold.\<close>

datatype http_outcome = Answered response | FrameworkStatus nat | StaticServed | OutsideModel

definition serve :: "config \<Rightarrow> http_request \<Rightarrow> net \<Rightarrow> call list \<Rightarrow> http_outcome \<times> call list" where
  "serve cfg rq net tr =
     (case dispatch app_stack rq of
        Dispatch r \<Rightarrow> (let (resp, tr') = handle cfg r net tr in (Answered resp, tr'))
      | Preflight \<Rightarrow> (FrameworkStatus 204, tr)
      | BadRequest \<Rightarrow> (FrameworkStatus 400, tr)
      | BodyError s \<Rightarrow> (FrameworkStatus s, tr)
      | NotFound \<Rightarrow> (FrameworkStatus 404, tr)
      | StaticFiles \<Rightarrow> (StaticServed, tr)
      | Unrepresentable \<Rightarrow> (OutsideModel, tr))"

section \<open>Lemmas\<close>

lemma parse_no_body [simp]: "parse_body NoJsonBody = Inr (JObj [])"
  by (simp add: parse_body_def)

lemma split_on_no_delim: "d \<notin> set w \<Longrightarrow> split_on d w = [w]"
  by (induction w) auto

lemma split_on_append: "d \<notin> set w \<Longrightarrow> split_on d (w @ d # rest) = w # split_on d rest"
  by (induction w) auto

lemma ascii_lower_id: "\<not> (65 \<le> (of_char c :: nat) \<and> (of_char c :: nat) < 91) \<Longrightarrow> ascii_lower c = c"
  unfolding ascii_lower_def Let_def by auto

lemma ascii_lower_method_letters [simp]:
  "ascii_lower CHR ''A'' = CHR ''a''"
  "ascii_lower CHR ''D'' = CHR ''d''"
  "ascii_lower CHR ''E'' = CHR ''e''"
  "ascii_lower CHR ''G'' = CHR ''g''"
  "ascii_lower CHR ''H'' = CHR ''h''"
  "ascii_lower CHR ''I'' = CHR ''i''"
  "ascii_lower CHR ''N'' = CHR ''n''"
  "ascii_lower CHR ''O'' = CHR ''o''"
  "ascii_lower CHR ''P'' = CHR ''p''"
  "ascii_lower CHR ''S'' = CHR ''s''"
  "ascii_lower CHR ''T'' = CHR ''t''"
  by code_simp+

lemma capture_url_split:
  assumes "CHR ''/'' \<notin> set w" "CHR ''?'' \<notin> set w"
  shows "url_path (''/api/orders/'' @ w @ ''/capture'') = ''/api/orders/'' @ w @ ''/capture''"
    and "split_on CHR ''/'' (''api/orders/'' @ w @ ''/capture'') = [''api'', ''orders'', w, ''capture'']"
proof -
  have "\<forall>x\<in>set w. x \<noteq> CHR ''?''" using assms(2) by blast
  then show "url_path (''/api/orders/'' @ w @ ''/capture'') = ''/api/orders/'' @ w @ ''/capture''"
    by (simp add: url_path_def)
  show "split_on CHR ''/'' (''api/orders/'' @ w @ ''/capture'') = [''api'', ''orders'', w, ''capture'']"
    using assms(1) by (simp add: split_on_append split_on_no_delim)
qed

lemmas route_eval = app_stack_def routes_def match_path_def compile_path_def ascii_lower_id

lemma dispatch_capture_post:
  assumes "CHR ''/'' \<notin> set w" "CHR ''?'' \<notin> set w" "w \<noteq> []"
  shows "dispatch app_stack \<lparr>hmethod = ''POST'', hurl = ''/api/orders/'' @ w @ ''/capture'', hbody = NoJsonBody\<rparr> =
           (case decode_uri_component w of UriOk s \<Rightarrow> Dispatch (CaptureOrder s)
            | UriWide \<Rightarrow> Unrepresentable | UriError \<Rightarrow> BadRequest)"
  using capture_url_split [OF assms(1,2)] assms(3)
  by (simp add: route_eval handles_method_def target_request_def split: uri_result.split)


lemma dispatch_json_pass: "\<not> isl (parse_body (hbody rq)) \<Longrightarrow> dispatch (JsonParser # ls) rq = dispatch ls rq"
  by (cases "parse_body (hbody rq)") auto

lemma segment_length: "segment cfg new \<Longrightarrow> length new \<le> 2"
  by (auto simp: segment_def)

text \<open>C24: a client that writes an order identifier into the capture URL with encodeURIComponent reaches the capture handler with exactly that identifier: Express's matching and decoding invert the client's encoding, for every non-empty identifier.\<close>

theorem route_capture_roundtrip:
  assumes "oid \<noteq> []"
  shows "dispatch app_stack \<lparr>hmethod = ''POST'', hurl = ''/api/orders/'' @ encode_uri_component oid @ ''/capture'',
                             hbody = NoJsonBody\<rparr> = Dispatch (CaptureOrder oid)"
  using dispatch_capture_post encode_no_slash encode_nonempty [OF assms] by (simp add: uri_roundtrip)

theorem route_capture_roundtrip_witness:
  "dispatch app_stack \<lparr>hmethod = ''POST'', hurl = ''/api/orders/'' @ encode_uri_component ''a/b?c'' @ ''/capture'',
                       hbody = NoJsonBody\<rparr> = Dispatch (CaptureOrder ''a/b?c'')"
  by (rule route_capture_roundtrip) simp

text \<open>C25: the capture route forwards the decoded order identifier into the processor's URL unescaped: for every non-empty identifier, slashes, dots and question marks included, the second call goes to the sandbox base followed by /v2/checkout/orders/, the identifier and /capture, carrying the merchant's access token.\<close>

theorem capture_path_injection:
  assumes "oid \<noteq> []" "secret_set cfg"
      and "net tr (PayPalPost (token_request cfg)) = Ok d" "read_prop d ''access_token'' = Inr t" "truthy t"
      and "to_str t = Inr ts"
  shows "\<exists>r. snd (serve cfg \<lparr>hmethod = ''POST'', hurl = ''/api/orders/'' @ encode_uri_component oid @ ''/capture'',
                             hbody = NoJsonBody\<rparr> net tr) = tr @ [PayPalPost (token_request cfg), PayPalPost r]
           \<and> req_url r = paypal_base_url cfg @ ''/v2/checkout/orders/'' @ oid @ ''/capture''"
proof -
  have "dispatch app_stack \<lparr>hmethod = ''POST'', hurl = ''/api/orders/'' @ encode_uri_component oid @ ''/capture'',
                             hbody = NoJsonBody\<rparr> = Dispatch (CaptureOrder oid)"
    using dispatch_capture_post encode_no_slash encode_nonempty [OF assms(1)] by (simp add: uri_roundtrip)
  then show ?thesis
    using capture_order_call [of cfg net tr d t ts oid, OF assms(2-6) refl]
    by (simp add: serve_def run_handler_def capture_request_def bearer_request_def split: outcome.split)
qed

theorem capture_path_injection_witness:
  "\<exists>r. snd (serve (load_config sample_env)
                  \<lparr>hmethod = ''POST'', hurl = ''/api/orders/'' @ encode_uri_component ''../../../v1/identity/generate-token?x='' @ ''/capture'',
                   hbody = NoJsonBody\<rparr> (\<lambda>tr c. Ok (JObj [(''access_token'', JStr ''A'')])) [])
         = [PayPalPost (token_request (load_config sample_env)), PayPalPost r]
       \<and> req_url r = ''https://api-m.sandbox.paypal.com/v2/checkout/orders/../../../v1/identity/generate-token?x=/capture''"
  using capture_path_injection [where oid = "''../../../v1/identity/generate-token?x=''" and cfg = "load_config sample_env"
      and net = "\<lambda>tr c. Ok (JObj [(''access_token'', JStr ''A'')])" and tr = "[]" and d = "JObj [(''access_token'', JStr ''A'')]"
      and t = "JStr ''A''" and ts = "''A''"]
  by (simp add: sample_eval)



text \<open>C27: every OPTIONS request, to any URL, is answered 204 by cors() with no processor call.\<close>

theorem preflight_answered:
  assumes "map ascii_lower (hmethod rq) = ''options''"
  shows "serve cfg rq net tr = (FrameworkStatus 204, tr)"
  using assms by (simp add: serve_def app_stack_def)

theorem preflight_answered_witness:
  "serve (load_config sample_env) \<lparr>hmethod = ''OPTIONS'', hurl = ''/api/orders'', hbody = NoJsonBody\<rparr> (\<lambda>tr c. NoResp ''down'') [] = (FrameworkStatus 204, [])"
  by (rule preflight_answered) simp

text \<open>C28: every HTTP request is answered, and serving it appends to the call trace at most two processor calls, which form one of the handlers' call segments.\<close>

theorem serve_bounded:
  "\<exists>new. snd (serve cfg rq net tr) = tr @ new \<and> segment cfg new \<and> length new \<le> 2"
proof (cases "dispatch app_stack rq")
  case (Dispatch r)
  obtain new where "snd (handle cfg r net tr) = tr @ new" "segment cfg new"
    using handle_segment by blast
  then show ?thesis using Dispatch segment_length by (auto simp: serve_def split: prod.split)
qed (auto simp: serve_def segment_def)

text \<open>C29: express.json() stops a JSON request before any route, with no processor
  call, for every method but OPTIONS and every URL: a charset other than UTF gets 415, a
  body over the 100kb limit gets 413, and a body within the limit that does not parse, or
  parses to neither an object nor an array (strict mode), gets 400.\<close>

theorem json_body_rejected:
  assumes "map ascii_lower (hmethod rq) \<noteq> ''options''" "hbody rq = JsonBody jb"
  shows "(take 4 (map ascii_lower (env_or (bcharset jb) ''utf-8'')) \<noteq> ''utf-'' \<longrightarrow>
            serve cfg rq net tr = (FrameworkStatus 415, tr))
       \<and> (bcharset jb = None \<and> bencoding jb = None \<and> json_limit < blength jb \<longrightarrow>
            serve cfg rq net tr = (FrameworkStatus 413, tr))
       \<and> (bcharset jb = None \<and> bencoding jb = None \<and> 0 < blength jb \<and> blength jb \<le> json_limit
          \<and> (\<forall>v. bparsed jb = Some v \<longrightarrow> (\<forall>ps. v \<noteq> JObj ps) \<and> (\<forall>xs. v \<noteq> JArr xs)) \<longrightarrow>
            serve cfg rq net tr = (FrameworkStatus 400, tr))"
proof -
  have d: "serve cfg rq net tr = (FrameworkStatus s, tr)" if "parse_body (hbody rq) = Inl s" for s
    using assms(1) that by (simp add: serve_def app_stack_def)
  have "take 4 (map ascii_lower (env_or (bcharset jb) ''utf-8'')) \<noteq> ''utf-'' \<Longrightarrow>
          parse_body (hbody rq) = Inl 415"
    by (simp add: assms(2) parse_body_def)
  moreover have "bcharset jb = None \<and> bencoding jb = None \<and> json_limit < blength jb \<Longrightarrow>
          parse_body (hbody rq) = Inl 413"
    by (simp add: assms(2) parse_body_def env_or_def ascii_lower_id)
  moreover have "bcharset jb = None \<and> bencoding jb = None \<and> 0 < blength jb \<and> blength jb \<le> json_limit
          \<and> (\<forall>v. bparsed jb = Some v \<longrightarrow> (\<forall>ps. v \<noteq> JObj ps) \<and> (\<forall>xs. v \<noteq> JArr xs)) \<Longrightarrow>
          parse_body (hbody rq) = Inl 400"
    by (auto simp: assms(2) parse_body_def env_or_def ascii_lower_id split: option.split jval.split)
  ultimately show ?thesis using d by blast
qed

theorem json_body_rejected_witness:
  "serve (load_config sample_env)
     \<lparr>hmethod = ''POST'', hurl = ''/api/orders'',
      hbody = JsonBody \<lparr>bcharset = Some ''ISO-8859-1'', bencoding = None, blength = 2, bparsed = Some (JObj [])\<rparr>\<rparr>
     (\<lambda>tr c. NoResp ''down'') [] = (FrameworkStatus 415, [])
   \<and> serve (load_config sample_env)
     \<lparr>hmethod = ''POST'', hurl = ''/api/orders'',
      hbody = JsonBody \<lparr>bcharset = None, bencoding = None, blength = 200000, bparsed = Some (JObj [])\<rparr>\<rparr>
     (\<lambda>tr c. NoResp ''down'') [] = (FrameworkStatus 413, [])
   \<and> serve (load_config sample_env)
     \<lparr>hmethod = ''POST'', hurl = ''/api/orders'',
      hbody = JsonBody \<lparr>bcharset = None, bencoding = None, blength = 6, bparsed = Some (JStr ''cart'')\<rparr>\<rparr>
     (\<lambda>tr c. NoResp ''down'') [] = (FrameworkStatus 400, [])"
proof -
  have c: "take 4 (map ascii_lower ''ISO-8859-1'') \<noteq> ''utf-''" by code_simp
  have l: "json_limit < 200000" "6 \<le> json_limit" by (simp_all add: json_limit_def)
  show ?thesis
    using json_body_rejected [where rq = "\<lparr>hmethod = ''POST'', hurl = ''/api/orders'',
              hbody = JsonBody \<lparr>bcharset = Some ''ISO-8859-1'', bencoding = None, blength = 2, bparsed = Some (JObj [])\<rparr>\<rparr>"
            and jb = "\<lparr>bcharset = Some ''ISO-8859-1'', bencoding = None, blength = 2, bparsed = Some (JObj [])\<rparr>"
            and cfg = "load_config sample_env" and net = "\<lambda>tr c. NoResp ''down''" and tr = "[]"]
          json_body_rejected [where rq = "\<lparr>hmethod = ''POST'', hurl = ''/api/orders'',
              hbody = JsonBody \<lparr>bcharset = None, bencoding = None, blength = 200000, bparsed = Some (JObj [])\<rparr>\<rparr>"
            and jb = "\<lparr>bcharset = None, bencoding = None, blength = 200000, bparsed = Some (JObj [])\<rparr>"
            and cfg = "load_config sample_env" and net = "\<lambda>tr c. NoResp ''down''" and tr = "[]"]
          json_body_rejected [where rq = "\<lparr>hmethod = ''POST'', hurl = ''/api/orders'',
              hbody = JsonBody \<lparr>bcharset = None, bencoding = None, blength = 6, bparsed = Some (JStr ''cart'')\<rparr>\<rparr>"
            and jb = "\<lparr>bcharset = None, bencoding = None, blength = 6, bparsed = Some (JStr ''cart'')\<rparr>"
            and cfg = "load_config sample_env" and net = "\<lambda>tr c. NoResp ''down''" and tr = "[]"]
    using c l by (simp add: env_or_def)
qed

text \<open>C30: for every request body express.json() lets through, GET /health and HEAD /health (app.get also serves HEAD; Express compares method names without regard to case) answer the fixed health response with no call, while POST /health, which no route handles and express.static does not take, is a 404.\<close>

theorem health_methods:
  assumes "\<not> isl (parse_body b)"
  shows "(map ascii_lower m \<in> {''get'', ''head''} \<longrightarrow>
            serve cfg \<lparr>hmethod = m, hurl = ''/health'', hbody = b\<rparr> net tr =
              (Answered (json_resp 200 (JObj [(''status'', JStr ''ok''), (''message'', JStr ''Server is running'')])), tr))
       \<and> (map ascii_lower m = ''post'' \<longrightarrow>
            serve cfg \<lparr>hmethod = m, hurl = ''/health'', hbody = b\<rparr> net tr = (FrameworkStatus 404, tr))"
proof -
  let ?rq = "\<lparr>hmethod = m, hurl = ''/health'', hbody = b\<rparr>"
  have j: "dispatch (JsonParser # ls) ?rq = dispatch ls ?rq" for ls
    by (rule dispatch_json_pass) (simp add: assms)
  have d: "dispatch app_stack ?rq =
             (if map ascii_lower m = ''options'' then Preflight
              else if map ascii_lower m = ''get'' \<or> map ascii_lower m = ''head'' then Dispatch Health
              else if map ascii_lower m \<in> {''get'', ''head''} then StaticFiles else NotFound)"
    by (simp add: route_eval j url_path_def handles_method_def target_request_def del: dispatch.simps(3))
  show ?thesis by (auto simp: serve_def d health_handler_def)
qed

theorem health_methods_witness:
  "serve (load_config sample_env) \<lparr>hmethod = ''HEAD'', hurl = ''/health'', hbody = NoJsonBody\<rparr> (\<lambda>tr c. NoResp ''down'') [] =
     (Answered (json_resp 200 (JObj [(''status'', JStr ''ok''), (''message'', JStr ''Server is running'')])), [])
   \<and> serve (load_config sample_env) \<lparr>hmethod = ''POST'', hurl = ''/health'', hbody = NoJsonBody\<rparr> (\<lambda>tr c. NoResp ''down'') [] =
     (FrameworkStatus 404, [])"
proof -
  have l: "map ascii_lower ''HEAD'' = ''head''" "map ascii_lower ''POST'' = ''post''" by code_simp+
  show ?thesis
    using health_methods [where m = "''HEAD''" and b = NoJsonBody and cfg = "load_config sample_env"
          and net = "\<lambda>tr c. NoResp ''down''" and tr = "[]"]
          health_methods [where m = "''POST''" and b = NoJsonBody and cfg = "load_config sample_env"
          and net = "\<lambda>tr c. NoResp ''down''" and tr = "[]"]
    unfolding l by simp
qed
end
