(* ===== verification/Spec2Isabelle.thy ===== *)
theory Spec2Isabelle
  imports Routing
begin

text \<open>
  \<^bold>\<open>A verification development of the payment relay \<open>src/server.js\<close>.\<close>

  \<^medskip>\<^bold>\<open>The program.\<close> \<open>src/server.js\<close> is an Express server that relays a storefront's
  payments to two processors: a wallet processor reached by \<open>axios\<close> POSTs
  authorised by a short-lived access token, and a card processor reached through its
  SDK with a server-held secret key. It keeps no state: every request is validated,
  forwarded, and its outcome translated into a JSON response. The parts and their
  theories:

  \<^item> \<open>Prelude\<close>: decimal digits and \<open>nat_str\<close>, the last-wins lookup \<open>lookup_last\<close>,
    and the collection \<open>sample_eval\<close> of the equations that evaluate a handler at the
    sample deployment \<open>load_config sample_env\<close> (only \<open>PAYPAL_SECRET\<close> set), which the
    witnesses use.
  \<^item> \<open>JsNumber\<close>: the JavaScript numbers the relay computes with. A number is an exact
    decimal \<open>Fin m e\<close> (\<open>m \<cdot> 10^e\<close>), an infinity or NaN; \<open>mk_num\<close> rounds an exact
    result to the double range (overflow to \<open>\<plusminus>Infinity\<close> from \<open>2^1024 - 2^970\<close>,
    underflow to 0 at \<open>2^-1075\<close>) and otherwise keeps it exact, which is what a double
    does for every value the relay computes below \<open>2^53\<close>. Addition and
    multiplication (\<open>num_add\<close>, \<open>num_mul\<close>, line 166), \<open>Number#toString\<close>,
    \<open>toFixed(2)\<close> (lines 170--199), \<open>parseInt\<close>, \<open>parseFloat\<close> and ToNumber of a
    string (lines 164--165, 368) follow ECMA-262. The lemmas \<open>num_add_exact\<close> and
    \<open>num_mul_exact\<close> refine them to exact rational arithmetic through \<open>dval\<close>;
    \<open>parse_int_int_str\<close> and \<open>num_to_string_of_int\<close> are the print/parse round trips.
  \<^item> \<open>JsValue\<close>: JSON values \<open>jval\<close>, the exceptions a \<open>catch\<close> block receives,
    ToBoolean, and the conversions that can throw: ToString and ToNumber go through
    ToPrimitive, which fails with a TypeError on a parsed object that has its own
    \<open>toString\<close> member (\<open>to_str\<close>, \<open>to_number\<close>, \<open>le_zero\<close> return \<open>exn + _\<close>); property
    reads throw a TypeError on \<open>undefined\<close> and \<open>null\<close> (\<open>read_prop\<close>) or yield
    \<open>undefined\<close> (\<open>?.\<close>, \<open>get_opt\<close>).
  \<^item> \<open>Json\<close>: \<open>JSON.stringify\<close> (line 380), with QuoteJSONString and the own-key order.
  \<^item> \<open>Catalog\<close>: \<open>FLAVORS\<close> (lines 20--33) and the lookup \<open>FLAVORS[item.id]\<close>, which also
    reaches the members of \<open>Object.prototype\<close>.
  \<^item> \<open>Cart\<close>: the cart guard, the \<open>cart.forEach\<close> loop with its running total and line
    items (\<open>price_lines\<close>, lines 156--179) and the order payload (lines 190--205).
  \<^item> \<open>Encoding\<close>: \<open>Buffer.from(...).toString('base64')\<close> (line 46) over \<open>8 word\<close>
    bytes, with the decoders the processor applies.
  \<^item> \<open>Http\<close>: the interface between the relay and the processors. An outbound call is a
    value of \<open>call\<close>; the processors are an environment \<open>net\<close> that answers a call given
    the calls made before it; a handler runs in the exception-and-trace monad \<open>io\<close>
    and \<open>run_handler\<close> applies its \<open>catch\<close> block.
  \<^item> \<open>PayPal\<close>: the configuration (lines 15--17, 36), \<open>getPayPalAccessToken\<close> and
    \<open>generatePayPalClientToken\<close> (lines 40--99), and the five wallet routes (lines
    102--361), each a definition over the parsed body or the route parameter.
  \<^item> \<open>Stripe\<close>: the two card routes and the health check (lines 364--428).
  \<^item> \<open>Server\<close>: the route table \<open>handle\<close>; the sequential runs \<open>runs\<close> (one request
    after another) and the trace grammar \<open>good_trace\<close> they obey; and the concurrent runs
    \<open>conc_runs\<close>, in which the requests in flight interleave their calls as Node
    interleaves async handlers at each \<open>await\<close>: a trace of calls tagged by request,
    each request's own calls (\<open>proj\<close>) a prefix of what its handler does.
  \<^item> \<open>Uri\<close>: \<open>decodeURIComponent\<close>, which Express applies to every route parameter
    (\<open>req.params\<close>, lines 300 and 336): percent-escape scanning (\<open>uri_tokens\<close>), UTF-8
    decoding of the escaped bytes (\<open>uri_utf8\<close>) with its URIError cases, and the
    client's \<open>encodeURIComponent\<close>, which it inverts (\<open>uri_roundtrip\<close>).
  \<^item> \<open>Routing\<close>: the application stack of lines 11--12 and 102--431 as the list
    \<open>app_stack\<close> of layers (\<open>cors()\<close>, \<open>express.json()\<close>, the eight routes of
    \<open>routes\<close> in registration order, \<open>express.static\<close>), walked by \<open>dispatch\<close> as
    Express's \<open>next()\<close> walks it: path patterns matched case-insensitively with one
    optional trailing slash, parameters decoded before the method is compared, GET routes
    also serving HEAD; \<open>express.json()\<close> with its defaults (\<open>parse_body\<close>: UTF charsets,
    the encodings it inflates, the 100kb limit, strict mode). \<open>serve\<close> composes the walk
    with \<open>handle\<close>: an HTTP request becomes a handler's response with its calls, or a
    framework status (204, 400, 404, 413, 415).

  \<^medskip>\<^bold>\<open>What is proved.\<close> The properties C1--C33 are the theorems after the \<open>text\<close>
  blocks that name them, each with a witness theorem that applies it at a concrete
  request, configuration and processor where it has hypotheses.
  \<^item> The cart: the loop's total is exact and its amount string right (C1, \<open>Cart\<close>); it
    stays exact for signed quantities, which are not checked (C20); keys inherited from
    \<open>Object.prototype\<close> are priced as flavors (C21); an identifier that converts to no
    primitive throws out of the loop, a 500 (C32).
  \<^item> The guards of the spec hold with no outbound call: secret unset (C2), empty cart
    (C3), unresolved cart (C4), invalid amount (C12), missing intent identifier (C15).
  \<^item> The success paths make exactly the calls of the spec, in its order, and relay the
    processor's answer: order creation (C5), capture (C6), client token (C9), payment
    intent creation with the spec's 1999-cent scenario (C13), confirmation (C16); the
    two capture routes are one function (C8). Each wallet path assumes the access token
    converts to a string, and order creation that the order object is not null.
  \<^item> The error paths: a rejected capture is a 500 (C7); a missing access token has its own
    message (C10); a rejected token exchange is a 500 (C11); a non-numeric amount passes
    the amount guard (C14) and an amount that converts to no primitive is a 500 (C33); a
    missing client token gives 200 \<open>{}\<close> (C22); a NaN total passes the total guard
    (C23); an access token that converts to no string stops the capture before its call
    (C31).
  \<^item> Over the server's runs (\<open>Server\<close>): in every concurrent run, each request's Bearer
    call comes right after that request's own credential exchange, though other
    requests' calls may come between them (C17, whose witness is such an interleaving);
    every call goes to the configured processor with the configured credentials, in
    sequential runs (C18, rule induction on \<open>runs\<close>) and in concurrent ones (C19).
  \<^item> Over HTTP (\<open>Routing\<close>): an identifier the client encodes reaches the capture
    handler unchanged (C24), and is put into the processor's URL unescaped, so that
    \<open>%2F\<close> and \<open>%3F\<close> in a request address another processor path with the server's
    token (C25); a malformed escape is a 400 with no call (C26); every preflight is a 204
    (C27); every request is answered after at most two calls (C28); a body
    \<open>express.json()\<close> refuses is a 415, 413 or 400 before any route (C29); \<open>/health\<close>
    answers GET and HEAD and is a 404 for POST (C30).

  \<^medskip>\<^bold>\<open>Bounds.\<close> The number model has no bound of its own: it is exact with the
  double's overflow and underflow thresholds. Claims about totals assume the total
  stays below \<open>2^53\<close>, the range in which the engine's doubles represent every integer;
  outside it the model still computes the value but the claims say nothing. No loop of
  the program may run forever: \<open>forEach\<close>, the string scans and the walk of the
  middleware stack are structural recursions (\<open>fun\<close>, \<open>primrec\<close>), \<open>strip_zeros\<close>
  terminates by the measure \<open>|m|\<close> and \<open>uri_utf8\<close> by the length of the byte list,
  so every definition is total and no fuel is needed; C28 states the resulting bound
  on the calls of one request.

  \<^medskip>\<^bold>\<open>Not modelled.\<close> The files \<open>express.static\<close> serves and the headers
  \<open>cors()\<close> adds: \<open>serve\<close> records only that static files or a preflight answered.
  A route parameter decoding to a code point from U+0100 up is outside the model's
  characters (code units below 256) and is the outcome \<open>OutsideModel\<close>. Of the
  body parser, the set of UTF charsets its decoder knows (every \<open>utf-\<close> charset is
  taken as readable) and the failures of inflation are not modelled; Node's HTTP parser,
  which refuses method names that are not upper case before Express sees them, is not
  modelled either (the model compares methods as Express does, without regard to case).
  \<open>app.listen\<close> and the console output (lines 434--440 and the \<open>console\<close> calls)
  affect neither responses nor calls. The processors are not modelled beyond the
  environment \<open>net\<close>: every claim holds for every processor behaviour, or states
  what it assumes the processor answered. \<open>dotenv\<close> loading is the environment
  function given to \<open>load_config\<close>. Characters are code units below 256.
\<close>

lemma two_captures_interleaved:
  "[(1, PayPalPost (token_request (load_config sample_env))),
    (2, PayPalPost (token_request (load_config sample_env))),
    (1, PayPalPost (capture_request (load_config sample_env) ''A'' ''O1'')),
    (2, PayPalPost (capture_request (load_config sample_env) ''A'' ''O1''))] \<in> conc_runs (load_config sample_env)"
proof -
  let ?cfg = "load_config sample_env"
  let ?net = "\<lambda>tr c. if tr = [] then Ok (JObj [(''access_token'', JStr ''A'')]) else Ok (JObj [])"
  let ?T = "PayPalPost (token_request ?cfg)"
  let ?B = "PayPalPost (capture_request ?cfg ''A'' ''O1'')"
  have h: "snd (handle ?cfg (CaptureOrder ''O1'') ?net []) = [?T, ?B]"
    by (simp add: sample_eval capture_order_handler_def io_defs get_access_token_def)
  have p1: "prefix [?T] (snd (handle ?cfg (CaptureOrder ''O1'') ?net []))" unfolding h by simp
  have p2: "prefix [?T, ?B] (snd (handle ?cfg (CaptureOrder ''O1'') ?net []))" unfolding h by simp
  have r1: "[(1, ?T)] \<in> conc_runs ?cfg"
    using conc_runs.Step [where cfg = ?cfg and tau = "[]" and i = 1 and c = ?T and r = "CaptureOrder ''O1''" and net = ?net]
          conc_runs.Nil p1 by (simp add: proj_def)
  have r2: "[(1, ?T), (2, ?T)] \<in> conc_runs ?cfg"
    using conc_runs.Step [where cfg = ?cfg and tau = "[(1, ?T)]" and i = 2 and c = ?T and r = "CaptureOrder ''O1''" and net = ?net]
          r1 p1 by (simp add: proj_def)
  have r3: "[(1, ?T), (2, ?T), (1, ?B)] \<in> conc_runs ?cfg"
    using conc_runs.Step [where cfg = ?cfg and tau = "[(1, ?T), (2, ?T)]" and i = 1 and c = ?B and r = "CaptureOrder ''O1''" and net = ?net]
          r2 p2 by (simp add: proj_def)
  have r4: "[(1, ?T), (2, ?T), (1, ?B), (2, ?B)] \<in> conc_runs ?cfg"
    using conc_runs.Step [where cfg = ?cfg and tau = "[(1, ?T), (2, ?T), (1, ?B)]" and i = 2 and c = ?B and r = "CaptureOrder ''O1''" and net = ?net]
          r3 p2 by (simp add: proj_def)
  then show ?thesis .
qed

text \<open>C17: in every concurrent run of the server, against any processor, each
  call a request authorises with a Bearer token comes, among that request's own calls,
  right after that request's credential exchange: the access token is acquired afresh by
  every request that needs one, whatever the other requests in flight do. Between the
  two, other requests' calls may intervene.\<close>

theorem conc_token_before_bearer:
  assumes "tau \<in> conc_runs cfg" "k < length (proj i tau)"
      and "proj i tau ! k = PayPalPost (bearer_request cfg' p ts b)"
  shows "0 < k \<and> proj i tau ! (k - 1) = PayPalPost (token_request cfg)"
proof -
  obtain new where "prefix (proj i tau) new" "segment cfg new"
    using conc_runs_segment [OF assms(1)] by blast
  then show ?thesis using assms(2,3) by (rule segment_prefix_bearer)
qed

theorem conc_token_before_bearer_witness:
  "[(1, PayPalPost (token_request (load_config sample_env))),
    (2, PayPalPost (token_request (load_config sample_env))),
    (1, PayPalPost (capture_request (load_config sample_env) ''A'' ''O1'')),
    (2, PayPalPost (capture_request (load_config sample_env) ''A'' ''O1''))] \<in> conc_runs (load_config sample_env)
   \<and> proj 2 [(1, PayPalPost (token_request (load_config sample_env))),
             (2, PayPalPost (token_request (load_config sample_env))),
             (1, PayPalPost (capture_request (load_config sample_env) ''A'' ''O1'')),
             (2, PayPalPost (capture_request (load_config sample_env) ''A'' ''O1''))] ! 0 =
     PayPalPost (token_request (load_config sample_env))"
  using two_captures_interleaved
        conc_token_before_bearer [OF two_captures_interleaved, of 1 2 "load_config sample_env"
          "''/v2/checkout/orders/O1/capture''" "''A''" "JObj []"]
  by (simp add: proj_def capture_request_def)



text \<open>C19: in every concurrent run, whatever the interleaving of the requests in
  flight, every wallet call is addressed under the configured base URL and every card
  call is made with the configured secret key.\<close>

theorem conc_calls_configured:
  assumes "tau \<in> conc_runs cfg" "(i, c) \<in> set tau"
  shows "case c of PayPalPost r \<Rightarrow> \<exists>path. req_url r = paypal_base_url cfg @ path
                 | StripeCreate k x \<Rightarrow> k = stripe_secret_key cfg
                 | StripeRetrieve k x \<Rightarrow> k = stripe_secret_key cfg"
proof -
  obtain new where p: "prefix (proj i tau) new" and g: "segment cfg new"
    using conc_runs_segment [OF assms(1)] by blast
  have "c \<in> set (proj i tau)" using assms(2) by (force simp: proj_def)
  then have "c \<in> set new" using p set_mono_prefix by blast
  then show ?thesis using segment_calls [OF g] by blast
qed

theorem conc_calls_configured_witness:
  "\<exists>path. req_url (capture_request (load_config sample_env) ''A'' ''O1'') = ''https://api-m.sandbox.paypal.com'' @ path"
proof -
  have "paypal_base_url (load_config sample_env) = ''https://api-m.sandbox.paypal.com''"
    by (simp add: sample_eval)
  then show ?thesis
    using conc_calls_configured [OF two_captures_interleaved,
        of 2 "PayPalPost (capture_request (load_config sample_env) ''A'' ''O1'')"] by simp
qed

text \<open>C22: when the processor's client-token response carries no \<open>client_token\<close>, the
  client-token endpoint still answers 200, with a body that serialises to \<open>{}\<close>: the
  missing token is neither reported nor distinguished from success.\<close>

theorem client_token_absent:
  assumes "secret_set cfg"
      and "net tr (PayPalPost (token_request cfg)) = Ok d" "read_prop d ''access_token'' = Inr t" "truthy t"
      and "to_str t = Inr ts"
      and "net (tr @ [PayPalPost (token_request cfg)]) (PayPalPost (client_token_request cfg ts)) = Ok (JObj ps)"
      and "lookup_last ps ''client_token'' = None"
  shows "client_token_handler cfg net tr =
           (json_resp 200 (JObj [(''clientToken'', JUndef)]),
            tr @ [PayPalPost (token_request cfg), PayPalPost (client_token_request cfg ts)])
         \<and> json_stringify (rbody (json_resp 200 (JObj [(''clientToken'', JUndef)]))) = Some ''{}''"
proof -
  have j: "json_stringify (JObj [(''clientToken'', JUndef)]) = Some ''{}''" by code_simp
  have "read_prop (JObj ps) ''client_token'' = Inr JUndef" using assms(7) by (simp add: read_prop_def)
  then show ?thesis using client_token_relay [OF assms(1-6)] j by (simp add: json_resp_def)
qed

theorem client_token_absent_witness:
  "client_token_handler (load_config sample_env) (\<lambda>tr c. if tr = [] then Ok (JObj [(''access_token'', JStr ''A'')]) else Ok (JObj [(''status'', JStr ''ok'')])) [] =
     (json_resp 200 (JObj [(''clientToken'', JUndef)]),
      [PayPalPost (token_request (load_config sample_env)), PayPalPost (client_token_request (load_config sample_env) ''A'')])"
  using client_token_absent [where cfg = "load_config sample_env" and net = "\<lambda>tr c. if tr = [] then Ok (JObj [(''access_token'', JStr ''A'')]) else Ok (JObj [(''status'', JStr ''ok'')])" and tr = "[]"
      and d = "JObj [(''access_token'', JStr ''A'')]" and t = "JStr ''A''" and ts = "''A''" and ps = "[(''status'', JStr ''ok'')]"]
  by (simp add: sample_eval)

end
